theory Spec2Isabelle
  imports Main "HOL-Library.Word"
begin

unbundle bit_operations_syntax

section \<open>A shallow embedding of three libFirm components\<close>

text \<open>
  The development covers the double-word lowering pass (\<^verbatim>\<open>lower_dw_ops\<close> and the
  functions it dispatches to), the LCSSA-based loop unroller (\<^verbatim>\<open>unroll_loops\<close>) and the
  type and entity verifier (\<^verbatim>\<open>tr_verify\<close>). Each C function that a property below is
  about is translated into a HOL function of the same name; mutation of the graph is
  explicit state passing, assertion failures and null dereferences are error values, and
  loops whose termination depends on the shape of the data take fuel.
\<close>

subsection \<open>The graph substrate\<close>

text \<open>
  A node is a record found through its dense index; a graph owns its nodes as a function
  from indices to node records together with the number of indices handed out so far. A
  C pointer to a node is the node's index, a pointer that may be \<^verbatim>\<open>NULL\<close> is an
  \<open>option\<close>. Modes are compared structurally (\<^verbatim>\<open>new_ir_mode\<close> hands out one mode per
  combination of sort, size, sign, arithmetic and modulo shift).
\<close>

datatype ir_opcode =
    iro_Block | iro_Phi | iro_Start | iro_End | iro_Return | iro_Call | iro_Proj
  | iro_Const | iro_SymConst | iro_Load | iro_Store | iro_Add | iro_Sub | iro_Mul
  | iro_Div | iro_Mod | iro_DivMod | iro_Shl | iro_Shr | iro_Shrs | iro_Rotl
  | iro_And | iro_Or | iro_Eor | iro_Not | iro_Minus | iro_Conv | iro_Cmp | iro_Cond
  | iro_Mux | iro_Sel | iro_Address | iro_Sync | iro_Dummy | iro_Unknown | iro_Bad
  | iro_Keep | iro_ASM | iro_Jmp | iro_Tuple

datatype ir_mode_arithmetic = irma_none | irma_twos_complement | irma_ieee754

datatype ir_mode =
    mode_BB | mode_X | mode_M | mode_T | mode_b | mode_ANY
  | mode_int nat bool ir_mode_arithmetic nat
  | mode_reference nat
  | mode_float nat

fun get_mode_size_bits :: "ir_mode \<Rightarrow> nat" where
  "get_mode_size_bits (mode_int bits sg arith mshift) = bits"
| "get_mode_size_bits (mode_reference bits) = bits"
| "get_mode_size_bits (mode_float bits) = bits"
| "get_mode_size_bits m = 0"

fun mode_is_signed :: "ir_mode \<Rightarrow> bool" where
  "mode_is_signed (mode_int bits sg arith mshift) = sg"
| "mode_is_signed (mode_float bits) = True"
| "mode_is_signed m = False"

fun mode_is_int :: "ir_mode \<Rightarrow> bool" where
  "mode_is_int (mode_int bits sg arith mshift) = True"
| "mode_is_int m = False"

fun get_mode_arithmetic :: "ir_mode \<Rightarrow> ir_mode_arithmetic" where
  "get_mode_arithmetic (mode_int bits sg arith mshift) = arith"
| "get_mode_arithmetic (mode_reference bits) = irma_twos_complement"
| "get_mode_arithmetic (mode_float bits) = irma_ieee754"
| "get_mode_arithmetic m = irma_none"

fun get_mode_modulo_shift :: "ir_mode \<Rightarrow> nat" where
  "get_mode_modulo_shift (mode_int bits sg arith mshift) = mshift"
| "get_mode_modulo_shift m = 0"

text \<open>A target value: a mode and, for the integer modes used here, its integer.\<close>

datatype tarval = Tarval ir_mode int

fun get_tarval_mode :: "tarval \<Rightarrow> ir_mode" where
  "get_tarval_mode (Tarval m v) = m"

fun get_tarval_int :: "tarval \<Rightarrow> int" where
  "get_tarval_int (Tarval m v) = v"

text \<open>
  The per-opcode attributes the modelled functions read: the tarval of a Const, the
  number of a Proj, the relation of a Cmp (newer sources), the loop flag of a Phi, the
  mode of a Load, the method type of a Call and the entity of a Sel or SymConst (types and
  entities by their numbers).
\<close>

datatype irn_attr =
    attr_none
  | attr_const tarval
  | attr_proj int
  | attr_cmp nat
  | attr_phi bool
  | attr_load ir_mode
  | attr_call nat
  | attr_entity nat

record ir_node =
  irn_op :: ir_opcode
  irn_mode :: ir_mode
  irn_block :: "nat option"
  irn_in :: "nat list"
  irn_link :: "nat option"
  irn_attr :: irn_attr
  irn_pinned :: bool
  irn_visited :: nat

text \<open>
  The loop tree: a loop has a number and elements, each a Block or a nested loop
  (\<^verbatim>\<open>k_ir_node\<close>, \<^verbatim>\<open>k_ir_loop\<close>). Pointers to loops are compared through the loop number.
\<close>

datatype ir_loop = Loop nat "loop_element list"
  and loop_element = k_ir_node nat | k_ir_loop ir_loop

fun get_loop_nr :: "ir_loop \<Rightarrow> nat" where
  "get_loop_nr (Loop nr es) = nr"

fun get_loop_elements :: "ir_loop \<Rightarrow> loop_element list" where
  "get_loop_elements (Loop nr es) = es"

datatype ir_graph_property =
    IR_GRAPH_PROPERTY_CONSISTENT_DOMINANCE
  | IR_GRAPH_PROPERTY_CONSISTENT_OUTS
  | IR_GRAPH_PROPERTY_CONSISTENT_LOOPINFO
  | IR_GRAPH_PROPERTY_NO_BADS
  | IR_GRAPH_PROPERTY_LCSSA

datatype ir_resources = IR_RESOURCE_IRN_LINK | IR_RESOURCE_PHI_LIST | IR_RESOURCE_IRN_VISITED

text \<open>
  A graph with the analysis information the passes read: the out edges (pairs of user
  and input position, position \<open>-1\<close> for the edge to the user's Block), the immediate
  dominators and the dominance relation, the innermost loop of every Block, the outer
  loop of every loop (the outermost loop is its own outer loop), the back-edge flags, and
  the Phi list of every Block that the lowering keeps.
\<close>

record ir_graph =
  irg_node :: "nat \<Rightarrow> ir_node"
  irg_last_idx :: nat
  irg_start_block :: nat
  irg_end :: nat
  irg_args :: nat
  irg_no_mem :: nat
  irg_outs :: "nat \<Rightarrow> (nat \<times> int) list"
  irg_idom :: "nat \<Rightarrow> nat option"
  irg_block_dominates :: "nat \<Rightarrow> nat \<Rightarrow> bool"
  irg_irn_loop :: "nat \<Rightarrow> nat option"
  irg_loop_outer :: "nat \<Rightarrow> nat"
  irg_loop :: ir_loop
  irg_backedge :: "nat \<Rightarrow> nat \<Rightarrow> bool"
  irg_block_phis :: "nat \<Rightarrow> nat list"
  irg_properties :: "ir_graph_property set"
  irg_reserved_resources :: "ir_resources set"
  irg_visited :: nat

definition get_irn_op :: "ir_graph \<Rightarrow> nat \<Rightarrow> ir_opcode" where
  "get_irn_op g n = irn_op (irg_node g n)"

definition get_irn_mode :: "ir_graph \<Rightarrow> nat \<Rightarrow> ir_mode" where
  "get_irn_mode g n = irn_mode (irg_node g n)"

definition is_Block :: "ir_graph \<Rightarrow> nat \<Rightarrow> bool" where
  "is_Block g n = (get_irn_op g n = iro_Block)"

definition is_Phi :: "ir_graph \<Rightarrow> nat \<Rightarrow> bool" where
  "is_Phi g n = (get_irn_op g n = iro_Phi)"

definition is_End :: "ir_graph \<Rightarrow> nat \<Rightarrow> bool" where
  "is_End g n = (get_irn_op g n = iro_End)"

definition is_Proj :: "ir_graph \<Rightarrow> nat \<Rightarrow> bool" where
  "is_Proj g n = (get_irn_op g n = iro_Proj)"

definition is_Cmp :: "ir_graph \<Rightarrow> nat \<Rightarrow> bool" where
  "is_Cmp g n = (get_irn_op g n = iro_Cmp)"

definition is_Const :: "ir_graph \<Rightarrow> nat \<Rightarrow> bool" where
  "is_Const g n = (get_irn_op g n = iro_Const)"

definition is_Bad :: "ir_graph \<Rightarrow> nat \<Rightarrow> bool" where
  "is_Bad g n = (get_irn_op g n = iro_Bad)"

definition get_irn_arity :: "ir_graph \<Rightarrow> nat \<Rightarrow> nat" where
  "get_irn_arity g n = length (irn_in (irg_node g n))"

definition get_irn_link :: "ir_graph \<Rightarrow> nat \<Rightarrow> nat option" where
  "get_irn_link g n = irn_link (irg_node g n)"

definition get_nodes_block :: "ir_graph \<Rightarrow> nat \<Rightarrow> nat option" where
  "get_nodes_block g n = irn_block (irg_node g n)"

text \<open>
  \<^verbatim>\<open>get_irn_n(node, n)\<close>: position \<open>-1\<close> is the node's Block; a position outside
  \<open>-1 \<le> n < arity\<close> fails the accessor's assertion.
\<close>

definition get_irn_n :: "ir_graph \<Rightarrow> nat \<Rightarrow> int \<Rightarrow> nat option" where
  "get_irn_n g n pos =
     (if pos = -1 then irn_block (irg_node g n)
      else if 0 \<le> pos \<and> nat pos < length (irn_in (irg_node g n))
      then Some (irn_in (irg_node g n) ! nat pos)
      else None)"

definition update_node :: "ir_graph \<Rightarrow> nat \<Rightarrow> (ir_node \<Rightarrow> ir_node) \<Rightarrow> ir_graph" where
  "update_node g n f = g\<lparr>irg_node := (irg_node g)(n := f (irg_node g n))\<rparr>"

definition set_irn_in :: "ir_graph \<Rightarrow> nat \<Rightarrow> nat list \<Rightarrow> ir_graph" where
  "set_irn_in g n ins = update_node g n (\<lambda>nd. nd\<lparr>irn_in := ins\<rparr>)"

definition set_irn_n :: "ir_graph \<Rightarrow> nat \<Rightarrow> nat \<Rightarrow> nat \<Rightarrow> ir_graph option" where
  "set_irn_n g n pos v =
     (if pos < length (irn_in (irg_node g n))
      then Some (update_node g n (\<lambda>nd. nd\<lparr>irn_in := (irn_in nd)[pos := v]\<rparr>))
      else None)"

definition set_irn_link :: "ir_graph \<Rightarrow> nat \<Rightarrow> nat option \<Rightarrow> ir_graph" where
  "set_irn_link g n l = update_node g n (\<lambda>nd. nd\<lparr>irn_link := l\<rparr>)"

definition set_nodes_block :: "ir_graph \<Rightarrow> nat \<Rightarrow> nat option \<Rightarrow> ir_graph" where
  "set_nodes_block g n b = update_node g n (\<lambda>nd. nd\<lparr>irn_block := b\<rparr>)"

text \<open>
  Modelled from the spec: node creation (section 4.1, ``create node of opcode k with
  given block, mode, inputs, attributes''). The constructors of \<^verbatim>\<open>ircons\<close> are not part of
  the sources at hand; the model allocates a fresh node under the next free index.
  Folding of the new node against existing ones at construction time is not modelled.
\<close>

definition new_ir_node ::
  "ir_graph \<Rightarrow> ir_opcode \<Rightarrow> ir_mode \<Rightarrow> nat option \<Rightarrow> nat list \<Rightarrow> irn_attr \<Rightarrow> nat \<times> ir_graph" where
  "new_ir_node g opc m blk ins attr =
     (irg_last_idx g,
      g\<lparr>irg_node := (irg_node g)(irg_last_idx g :=
            \<lparr>irn_op = opc, irn_mode = m, irn_block = blk, irn_in = ins, irn_link = None,
             irn_attr = attr, irn_pinned = True, irn_visited = 0\<rparr>),
        irg_last_idx := Suc (irg_last_idx g)\<rparr>)"

text \<open>
  Modelled from the spec: \<^verbatim>\<open>exact_copy\<close> (not part of the sources at hand) creates a node
  of the same opcode, mode, Block, inputs and attributes; the copy's link is empty.
\<close>

definition exact_copy :: "ir_graph \<Rightarrow> nat \<Rightarrow> nat \<times> ir_graph" where
  "exact_copy g n =
     (irg_last_idx g,
      g\<lparr>irg_node := (irg_node g)(irg_last_idx g := (irg_node g n)\<lparr>irn_link := None\<rparr>),
        irg_last_idx := Suc (irg_last_idx g)\<rparr>)"

text \<open>
  Modelled from the spec: the graph walk from End (section 4.1), which visits every node
  reachable from End through the Block edge and the inputs once. The walker itself is
  not part of the sources at hand. The work list holds the nodes still to be visited.
\<close>

fun irg_walk_from :: "nat \<Rightarrow> ir_graph \<Rightarrow> nat list \<Rightarrow> nat list \<Rightarrow> nat list" where
  "irg_walk_from 0 g todo seen = seen"
| "irg_walk_from (Suc fuel) g [] seen = seen"
| "irg_walk_from (Suc fuel) g (n # todo) seen =
     (if n \<in> set seen then irg_walk_from fuel g todo seen
      else irg_walk_from fuel g
             ((case irn_block (irg_node g n) of None \<Rightarrow> [] | Some b \<Rightarrow> [b])
                @ rev (irn_in (irg_node g n)) @ todo)
             (seen @ [n]))"

definition irg_walk_fuel :: "ir_graph \<Rightarrow> nat" where
  "irg_walk_fuel g =
     Suc (sum_list (map (\<lambda>n. 2 + length (irn_in (irg_node g n))) [0..<irg_last_idx g]))"

definition irg_walk_nodes :: "ir_graph \<Rightarrow> nat list" where
  "irg_walk_nodes g = irg_walk_from (irg_walk_fuel g) g [irg_end g] []"

text \<open>
  Modelled from the spec: \<^verbatim>\<open>exchange(a, b)\<close> (section 4.1, ``all uses of a become uses
  of b''); the function itself is not part of the sources at hand.
\<close>

definition exchange :: "ir_graph \<Rightarrow> nat \<Rightarrow> nat \<Rightarrow> ir_graph" where
  "exchange g a b =
     g\<lparr>irg_node := (\<lambda>n. (irg_node g n)
          \<lparr>irn_in := map (\<lambda>x. if x = a then b else x) (irn_in (irg_node g n)),
           irn_block := map_option (\<lambda>x. if x = a then b else x) (irn_block (irg_node g n))\<rparr>)\<rparr>"

subsection \<open>Loop unrolling\<close>

text \<open>
  Functions of the unroller return \<open>None\<close> where the C code does not return normally:
  a failed assertion, an access through a \<^verbatim>\<open>NULL\<close> pointer or outside a node's inputs,
  or (where a loop follows pointers of the analysis information) fuel that ran out.
\<close>

definition add_edge :: "ir_graph \<Rightarrow> nat \<Rightarrow> nat \<Rightarrow> ir_graph" where
  "add_edge g node pred = set_irn_in g node (irn_in (irg_node g node) @ [pred])"

text \<open>
  \<^verbatim>\<open>is_inner_loop\<close>: the do-while loop climbs the outer loops until it reaches a loop
  that is its own outer loop or the loop \<open>outer_loop\<close>.
\<close>

fun is_inner_loop :: "nat \<Rightarrow> ir_graph \<Rightarrow> nat \<Rightarrow> nat \<Rightarrow> bool option" where
  "is_inner_loop 0 g outer_loop inner_loop = None"
| "is_inner_loop (Suc fuel) g outer_loop inner_loop =
     (let old_inner_loop = inner_loop;
          inner_loop = irg_loop_outer g inner_loop
      in if inner_loop \<noteq> old_inner_loop \<and> inner_loop \<noteq> outer_loop
         then is_inner_loop fuel g outer_loop inner_loop
         else Some (inner_loop \<noteq> old_inner_loop))"

definition block_is_inside_loop :: "nat \<Rightarrow> ir_graph \<Rightarrow> nat \<Rightarrow> ir_loop \<Rightarrow> bool option" where
  "block_is_inside_loop fuel g block loop =
     (case irg_irn_loop g block of
        None \<Rightarrow> Some False
      | Some block_loop \<Rightarrow>
          if block_loop = get_loop_nr loop then Some True
          else is_inner_loop fuel g (get_loop_nr loop) block_loop)"

fun block_dominates_loop :: "ir_graph \<Rightarrow> nat \<Rightarrow> ir_loop \<Rightarrow> bool option"
  and block_dominates_elements :: "ir_graph \<Rightarrow> nat \<Rightarrow> loop_element list \<Rightarrow> bool option" where
  "block_dominates_loop g block (Loop nr es) = block_dominates_elements g block es"
| "block_dominates_elements g block [] = Some True"
| "block_dominates_elements g block (k_ir_node n # es) =
     (if \<not> is_Block g n then None
      else if \<not> irg_block_dominates g block n then Some False
      else block_dominates_elements g block es)"
| "block_dominates_elements g block (k_ir_loop son # es) =
     (case block_dominates_loop g block son of
        None \<Rightarrow> None
      | Some dominated \<Rightarrow>
          if \<not> dominated then Some False else block_dominates_elements g block es)"

text \<open>The first element of the loop that is a Block (``pick a random block'').\<close>

fun first_loop_block :: "loop_element list \<Rightarrow> nat option" where
  "first_loop_block [] = None"
| "first_loop_block (k_ir_node n # es) = Some n"
| "first_loop_block (k_ir_loop son # es) = first_loop_block es"

text \<open>``Walk up the dominance tree'': the while loop of \<^verbatim>\<open>get_loop_header\<close>.\<close>

fun walk_up_idom :: "nat \<Rightarrow> ir_graph \<Rightarrow> ir_loop \<Rightarrow> nat \<Rightarrow> nat option" where
  "walk_up_idom 0 g loop header = None"
| "walk_up_idom (Suc fuel) g loop header =
     (case irg_idom g header of
        None \<Rightarrow> Some header
      | Some idom \<Rightarrow>
          (case block_is_inside_loop fuel g idom loop of
             None \<Rightarrow> None
           | Some True \<Rightarrow> walk_up_idom fuel g loop idom
           | Some False \<Rightarrow> Some header))"

text \<open>
  \<^verbatim>\<open>get_loop_header\<close>: the outer \<open>option\<close> is the call returning at all, the inner one the
  returned pointer (\<open>None\<close> for \<^verbatim>\<open>NULL\<close>).
\<close>

definition get_loop_header :: "nat \<Rightarrow> ir_graph \<Rightarrow> ir_loop \<Rightarrow> nat option option" where
  "get_loop_header fuel g loop =
     (case first_loop_block (get_loop_elements loop) of
        None \<Rightarrow> None
      | Some start \<Rightarrow>
          if \<not> is_Block g start then None
          else (case walk_up_idom fuel g loop start of
                  None \<Rightarrow> None
                | Some header \<Rightarrow>
                    (case block_dominates_loop g header loop of
                       None \<Rightarrow> None
                     | Some True \<Rightarrow> Some (Some header)
                     | Some False \<Rightarrow> Some None)))"

definition duplicate_node :: "ir_graph \<Rightarrow> nat \<Rightarrow> nat option \<Rightarrow> nat \<times> ir_graph" where
  "duplicate_node g node new_block =
     (let (new_node, g) = exact_copy g node;
          g = (if \<not> is_Block g new_node then set_nodes_block g new_node new_block else g);
          g = (case get_irn_link g node of
                 None \<Rightarrow> g
               | Some link \<Rightarrow> set_irn_link g link (Some new_node));
          g = set_irn_link g node (Some new_node);
          g = set_irn_link g new_node (Some node)
      in (new_node, g))"

fun rewire_successor_phis :: "ir_graph \<Rightarrow> int \<Rightarrow> nat list \<Rightarrow> ir_graph option" where
  "rewire_successor_phis g n [] = Some g"
| "rewire_successor_phis g n (phi # outs) =
     (if is_Phi g phi then
        (case get_irn_n g phi n of
           None \<Rightarrow> None
         | Some pred \<Rightarrow>
             rewire_successor_phis
               (add_edge g phi (case get_irn_link g pred of None \<Rightarrow> pred | Some new_pred \<Rightarrow> new_pred))
               n outs)
      else rewire_successor_phis g n outs)"

definition rewire_successor_block :: "ir_graph \<Rightarrow> nat \<Rightarrow> int \<Rightarrow> ir_graph option" where
  "rewire_successor_block g block n =
     (case get_irn_n g block n of
        None \<Rightarrow> None
      | Some node \<Rightarrow>
          (case get_irn_link g node of
             None \<Rightarrow> None
           | Some new_node \<Rightarrow>
               rewire_successor_phis (add_edge g block new_node) n (map fst (irg_outs g block))))"

text \<open>The first loop of \<^verbatim>\<open>rewire_node\<close>: ``rewire the successors outside the loop''.\<close>

fun rewire_node_outs :: "ir_graph \<Rightarrow> nat \<Rightarrow> (nat \<times> int) list \<Rightarrow> ir_graph option" where
  "rewire_node_outs g new_node [] = Some g"
| "rewire_node_outs g new_node ((succ, n) # outs) =
     (if get_irn_link g succ = None \<and> is_Block g succ then
        (case rewire_successor_block g succ n of
           None \<Rightarrow> None
         | Some g' \<Rightarrow> rewire_node_outs g' new_node outs)
      else if is_End g succ then
        (if get_irn_link g succ \<noteq> None then None
         else rewire_node_outs (add_edge g succ new_node) new_node outs)
      else rewire_node_outs g new_node outs)"

definition linked_or_self :: "ir_graph \<Rightarrow> nat \<Rightarrow> nat" where
  "linked_or_self g pred = (case get_irn_link g pred of None \<Rightarrow> pred | Some new_pred \<Rightarrow> new_pred)"

definition rewire_node :: "ir_graph \<Rightarrow> nat \<Rightarrow> nat \<Rightarrow> ir_graph option" where
  "rewire_node g node header =
     (case get_irn_link g node of
        None \<Rightarrow> None
      | Some new_node \<Rightarrow>
          if get_irn_arity g node \<noteq> get_irn_arity g new_node then None
          else
            (case rewire_node_outs g new_node (irg_outs g node) of
               None \<Rightarrow> None
             | Some g \<Rightarrow>
                 if node = header then
                   (if \<not> is_Block g node then None
                    else
                      let preds = irn_in (irg_node g header);
                          g' = set_irn_in g node
                                 (map (\<lambda>pred. linked_or_self g pred) preds)
                      in Some (set_irn_in g' new_node
                                 (filter (\<lambda>pred. get_irn_link g pred \<noteq> None) preds)))
                 else if is_Phi g node \<and> get_nodes_block g node = Some header then
                   (if get_irn_arity g node \<noteq> get_irn_arity g header then None
                    else
                      let sel = map (\<lambda>hp. get_irn_link g hp \<noteq> None) (irn_in (irg_node g header));
                          preds = irn_in (irg_node g node);
                          g' = set_irn_in g node
                                 (map (\<lambda>(pred, s). if s then linked_or_self g pred else pred)
                                    (zip preds sel))
                      in Some (set_irn_in g' new_node
                                 (map fst (filter snd (zip preds sel)))))
                 else
                   (if \<exists>i < get_irn_arity g new_node. irg_backedge g node i then None
                    else Some (set_irn_in g new_node
                                 (map (\<lambda>pred. linked_or_self g pred)
                                    (irn_in (irg_node g new_node)))))))"

fun duplicate_block_outs :: "ir_graph \<Rightarrow> nat \<Rightarrow> nat \<Rightarrow> nat list \<Rightarrow> ir_graph option" where
  "duplicate_block_outs g block new_block [] = Some g"
| "duplicate_block_outs g block new_block (node # outs) =
     (if is_Block g node then None
      else if get_nodes_block g node \<noteq> Some block then duplicate_block_outs g block new_block outs
      else duplicate_block_outs (snd (duplicate_node g node (Some new_block))) block new_block outs)"

definition duplicate_block :: "ir_graph \<Rightarrow> nat \<Rightarrow> ir_graph option" where
  "duplicate_block g block =
     (let (new_block, g) = duplicate_node g block None
      in duplicate_block_outs g block new_block (map fst (irg_outs g block)))"

fun rewire_block_outs :: "ir_graph \<Rightarrow> nat \<Rightarrow> nat \<Rightarrow> nat list \<Rightarrow> ir_graph option" where
  "rewire_block_outs g block header [] = Some g"
| "rewire_block_outs g block header (node # outs) =
     (if is_Block g node then None
      else if get_nodes_block g node \<noteq> Some block then rewire_block_outs g block header outs
      else (case rewire_node g node header of
              None \<Rightarrow> None
            | Some g' \<Rightarrow> rewire_block_outs g' block header outs))"

definition rewire_block :: "ir_graph \<Rightarrow> nat \<Rightarrow> nat \<Rightarrow> ir_graph option" where
  "rewire_block g block header =
     (case rewire_node g block header of
        None \<Rightarrow> None
      | Some g' \<Rightarrow> rewire_block_outs g' block header (map fst (irg_outs g' block)))"

text \<open>
  \<^verbatim>\<open>find_suitable_factor\<close>: after its declarations the function returns 0; the analysis
  of the header's Cmp that follows in the source is never reached, and the flag behind
  \<^verbatim>\<open>fully_unroll\<close> is never written. The result pairs the factor with the flag.
\<close>

definition find_suitable_factor :: "ir_graph \<Rightarrow> nat \<Rightarrow> nat \<Rightarrow> bool \<Rightarrow> nat \<times> bool" where
  "find_suitable_factor g header maxf fully_unroll = (0, fully_unroll)"

text \<open>
  Helpers of the graph library that the cleanup after a full unrolling calls.
  Modelled from the spec: \<^verbatim>\<open>remove_keep_alive\<close>, \<^verbatim>\<open>remove_End_Bads_and_doublets\<close> and
  \<^verbatim>\<open>get_memop_mem\<close> are not part of the sources at hand; a keep-alive is an input of End
  (glossary), the cleanup ``removes Bads and duplicate keep-alives from End'' (section
  4.3), and the memory operand of a memory operation is taken to be its input 0.
\<close>

definition remove_keep_alive :: "ir_graph \<Rightarrow> nat \<Rightarrow> ir_graph" where
  "remove_keep_alive g n = set_irn_in g (irg_end g) (remove1 n (irn_in (irg_node g (irg_end g))))"

definition remove_End_Bads_and_doublets :: "ir_graph \<Rightarrow> nat \<Rightarrow> ir_graph" where
  "remove_End_Bads_and_doublets g e =
     set_irn_in g e (remdups (filter (\<lambda>n. \<not> is_Bad g n) (irn_in (irg_node g e))))"

definition get_memop_mem :: "ir_graph \<Rightarrow> nat \<Rightarrow> nat option" where
  "get_memop_mem g n = get_irn_n g n 0"

definition get_Phi_loop :: "ir_graph \<Rightarrow> nat \<Rightarrow> bool" where
  "get_Phi_loop g n = (irn_attr (irg_node g n) = attr_phi True)"

definition set_Phi_loop :: "ir_graph \<Rightarrow> nat \<Rightarrow> bool \<Rightarrow> ir_graph" where
  "set_Phi_loop g n b = update_node g n (\<lambda>nd. nd\<lparr>irn_attr := attr_phi b\<rparr>)"

definition drop_input :: "nat \<Rightarrow> nat list \<Rightarrow> nat list" where
  "drop_input idx ins = take idx ins @ drop (Suc idx) ins"

fun remove_block_input_single :: "ir_graph \<Rightarrow> nat \<Rightarrow> nat list \<Rightarrow> ir_graph option" where
  "remove_block_input_single g idx [] = Some g"
| "remove_block_input_single g idx (phi # outs) =
     (if is_Phi g phi then
        (let g1 = (if get_Phi_loop g phi
                   then set_Phi_loop (remove_keep_alive g phi) phi False else g)
         in case get_irn_n g1 phi (int (if even idx then idx + 1 else idx - 1)) of
              None \<Rightarrow> None
            | Some pred \<Rightarrow> remove_block_input_single (exchange g1 phi pred) idx outs)
      else remove_block_input_single g idx outs)"

fun remove_block_input_phis :: "ir_graph \<Rightarrow> nat \<Rightarrow> nat \<Rightarrow> nat list \<Rightarrow> ir_graph option" where
  "remove_block_input_phis g idx n [] = Some g"
| "remove_block_input_phis g idx n (phi # outs) =
     (if is_Phi g phi then
        (if get_irn_arity g phi < Suc n then None
         else remove_block_input_phis
                (set_irn_in g phi (drop_input idx (take (Suc n) (irn_in (irg_node g phi)))))
                idx n outs)
      else remove_block_input_phis g idx n outs)"

definition remove_block_input :: "ir_graph \<Rightarrow> nat \<Rightarrow> nat \<Rightarrow> ir_graph option" where
  "remove_block_input g block idx =
     (if get_irn_arity g block = 0 \<or> get_irn_arity g block \<le> idx then None
      else
        let n = get_irn_arity g block - 1;
            outs = map fst (irg_outs g block)
        in case (if n = 1 then remove_block_input_single g idx outs
                 else remove_block_input_phis g idx n outs) of
             None \<Rightarrow> None
           | Some g' \<Rightarrow> Some (set_irn_in g' block (drop_input idx (irn_in (irg_node g' block)))))"

text \<open>Step 1 of \<^verbatim>\<open>rewire_fully_unrolled\<close>: ``search for the after_loop block''.\<close>

fun after_loop_of_proj ::
  "nat \<Rightarrow> ir_graph \<Rightarrow> ir_loop \<Rightarrow> nat option \<times> int \<Rightarrow> (nat \<times> int) list
     \<Rightarrow> (nat option \<times> int) option" where
  "after_loop_of_proj fuel g loop found [] = Some found"
| "after_loop_of_proj fuel g loop found ((cf_succ, n_after) # outs) =
     (if get_irn_link g cf_succ = None \<and> is_Block g cf_succ then
        (case block_is_inside_loop fuel g cf_succ loop of
           None \<Rightarrow> None
         | Some False \<Rightarrow> after_loop_of_proj fuel g loop (Some cf_succ, n_after) outs
         | Some True \<Rightarrow> after_loop_of_proj fuel g loop (fst found, n_after) outs)
      else after_loop_of_proj fuel g loop (fst found, n_after) outs)"

fun after_loop_search ::
  "nat \<Rightarrow> ir_graph \<Rightarrow> ir_loop \<Rightarrow> nat option \<times> int \<Rightarrow> nat list \<Rightarrow> (nat option \<times> int) option" where
  "after_loop_search fuel g loop found [] = Some found"
| "after_loop_search fuel g loop found (succ # outs) =
     (if is_Proj g succ \<and> get_irn_mode g succ = mode_X then
        (if length (irg_outs g succ) \<noteq> 1 then None
         else (case after_loop_of_proj fuel g loop found (irg_outs g succ) of
                 None \<Rightarrow> None
               | Some found' \<Rightarrow> after_loop_search fuel g loop found' outs))
      else after_loop_search fuel g loop found outs)"

text \<open>``Walk memory path until phi is found''.\<close>

fun walk_memory_path :: "nat \<Rightarrow> ir_graph \<Rightarrow> nat \<Rightarrow> nat option" where
  "walk_memory_path 0 g new_pred = None"
| "walk_memory_path (Suc fuel) g new_pred =
     (if is_Phi g new_pred then Some new_pred
      else (case get_memop_mem g new_pred of
              None \<Rightarrow> None
            | Some m \<Rightarrow> walk_memory_path fuel g m))"

text \<open>Step 4: ``add inputs to phis inside the after_loop block''.\<close>

fun after_loop_phis :: "nat \<Rightarrow> ir_graph \<Rightarrow> int \<Rightarrow> nat \<Rightarrow> nat list \<Rightarrow> ir_graph option" where
  "after_loop_phis fuel g n_after i [] = Some g"
| "after_loop_phis fuel g n_after i (phi # outs) =
     (if is_Phi g phi then
        (case get_irn_n g phi n_after of
           None \<Rightarrow> None
         | Some pred \<Rightarrow>
             (case (if is_Phi g pred then map_option Some (get_irn_n g pred (int i))
                    else if get_irn_mode g phi = mode_M then
                      (case walk_memory_path fuel g pred of
                         None \<Rightarrow> None
                       | Some mem_phi \<Rightarrow> map_option Some (get_irn_n g mem_phi (int i)))
                    else Some (get_irn_link g pred)) of
                None \<Rightarrow> None
              | Some new_pred \<Rightarrow>
                  after_loop_phis fuel
                    (add_edge g phi (case new_pred of None \<Rightarrow> pred | Some p \<Rightarrow> p))
                    n_after i outs))
      else after_loop_phis fuel g n_after i outs)"

text \<open>
  Steps 2 to 5: the loop over the header's predecessors; a predecessor that is rewired
  is removed from the header, so the index stays and the bound shrinks.
\<close>

function rewire_header_preds ::
  "nat \<Rightarrow> ir_graph \<Rightarrow> ir_loop \<Rightarrow> nat \<Rightarrow> nat \<Rightarrow> nat \<Rightarrow> int \<Rightarrow> nat \<Rightarrow> nat \<Rightarrow> ir_graph option" where
  "rewire_header_preds fuel g loop header factor after_loop n_after i n_header_preds =
     (if i < n_header_preds then
        (case get_irn_n g header (int i) of
           None \<Rightarrow> None
         | Some old_jump \<Rightarrow>
             (case get_nodes_block g old_jump of
                None \<Rightarrow> None
              | Some pred_block \<Rightarrow>
                  (case (if get_irn_link g pred_block = None \<and> 1 < factor then Some True
                         else map_option Not (block_is_inside_loop fuel g pred_block loop)) of
                     None \<Rightarrow> None
                   | Some True \<Rightarrow>
                       rewire_header_preds fuel g loop header factor after_loop n_after
                         (Suc i) n_header_preds
                   | Some False \<Rightarrow>
                       (case after_loop_phis fuel (add_edge g after_loop old_jump) n_after i
                               (map fst (irg_outs g after_loop)) of
                          None \<Rightarrow> None
                        | Some g2 \<Rightarrow>
                            (case remove_block_input g2 header i of
                               None \<Rightarrow> None
                             | Some g3 \<Rightarrow>
                                 rewire_header_preds fuel g3 loop header factor after_loop
                                   n_after i (n_header_preds - 1))))))
      else Some g)"
  by pat_completeness auto
termination
  by (relation "measure (\<lambda>(fuel, g, loop, header, factor, after_loop, n_after, i, n). n - i)")
     auto

declare rewire_header_preds.simps [simp del]

definition rewire_fully_unrolled ::
  "nat \<Rightarrow> ir_graph \<Rightarrow> ir_loop \<Rightarrow> nat \<Rightarrow> nat \<Rightarrow> ir_graph option" where
  "rewire_fully_unrolled fuel g loop header factor =
     (case after_loop_search fuel g loop (None, 0) (map fst (irg_outs g header)) of
        None \<Rightarrow> None
      | Some (None, n_after) \<Rightarrow> Some g
      | Some (Some after_loop, n_after) \<Rightarrow>
          (case rewire_header_preds fuel g loop header factor after_loop n_after 0
                  (get_irn_arity g header) of
             None \<Rightarrow> None
           | Some g' \<Rightarrow> Some (remove_End_Bads_and_doublets g' (irg_end g'))))"

text \<open>
  Modelled from the spec: \<^verbatim>\<open>irg_walk_graph(irg, firm_clear_link, NULL, NULL)\<close> clears
  the link of every node the walk from End visits (the walker and \<^verbatim>\<open>firm_clear_link\<close> are
  not part of the sources at hand).
\<close>

definition clear_links :: "ir_graph \<Rightarrow> ir_graph" where
  "clear_links g = fold (\<lambda>n g'. set_irn_link g' n None) (irg_walk_nodes g) g"

fun duplicate_loop_blocks :: "ir_graph \<Rightarrow> loop_element list \<Rightarrow> ir_graph option" where
  "duplicate_loop_blocks g [] = Some g"
| "duplicate_loop_blocks g (k_ir_node n # es) =
     (if \<not> is_Block g n then None
      else (case duplicate_block g n of
              None \<Rightarrow> None
            | Some g' \<Rightarrow> duplicate_loop_blocks g' es))"
| "duplicate_loop_blocks g (k_ir_loop son # es) = duplicate_loop_blocks g es"

fun rewire_loop_blocks :: "ir_graph \<Rightarrow> nat \<Rightarrow> loop_element list \<Rightarrow> ir_graph option" where
  "rewire_loop_blocks g header [] = Some g"
| "rewire_loop_blocks g header (k_ir_node n # es) =
     (if \<not> is_Block g n then None
      else (case rewire_block g n header of
              None \<Rightarrow> None
            | Some g' \<Rightarrow> rewire_loop_blocks g' header es))"
| "rewire_loop_blocks g header (k_ir_loop son # es) = rewire_loop_blocks g header es"

text \<open>The loop \<^verbatim>\<open>for (j = 1; j < factor; ++j)\<close> of \<^verbatim>\<open>unroll_loop\<close>, by the number of copies left.\<close>

fun unroll_copies :: "nat \<Rightarrow> ir_graph \<Rightarrow> ir_loop \<Rightarrow> nat \<Rightarrow> ir_graph option" where
  "unroll_copies 0 g loop header = Some g"
| "unroll_copies (Suc copies) g loop header =
     (case duplicate_loop_blocks g (get_loop_elements loop) of
        None \<Rightarrow> None
      | Some g1 \<Rightarrow>
          (case rewire_loop_blocks g1 header (get_loop_elements loop) of
             None \<Rightarrow> None
           | Some g2 \<Rightarrow> unroll_copies copies g2 loop header))"

text \<open>
  \<^verbatim>\<open>unroll_loop\<close>. The state is the graph together with the static counter
  \<^verbatim>\<open>n_loops_unrolled\<close> (an \<^verbatim>\<open>unsigned\<close>).
\<close>

definition unroll_loop ::
  "nat \<Rightarrow> ir_graph \<times> nat \<Rightarrow> ir_loop \<Rightarrow> nat \<Rightarrow> (ir_graph \<times> nat) option" where
  "unroll_loop fuel st loop factor =
     (case get_loop_header fuel (fst st) loop of
        None \<Rightarrow> None
      | Some None \<Rightarrow> Some st
      | Some (Some header) \<Rightarrow>
          (let (factor, fully_unroll) = find_suitable_factor (fst st) header factor False
           in if factor < 1 \<or> (factor = 1 \<and> \<not> fully_unroll) then Some st
              else
                (case unroll_copies (factor - 1) (clear_links (fst st)) loop header of
                   None \<Rightarrow> None
                 | Some g \<Rightarrow>
                     if fully_unroll then
                       (case rewire_fully_unrolled fuel g loop header factor of
                          None \<Rightarrow> None
                        | Some g' \<Rightarrow> Some (g', (snd st + 1) mod 4294967296))
                     else Some (g, (snd st + 1) mod 4294967296))))"

text \<open>
  What the unroller calls outside the sources at hand: \<^verbatim>\<open>assure_lcssa\<close> and
  \<^verbatim>\<open>assure_irg_properties\<close> (they bring the graph into the form the pass requires and
  leave a graph alone that has it), and the verdict of \<^verbatim>\<open>check_phi\<close>, whose alias
  analysis reads this graph, the graphs of callees and the alias table of the memory
  analysis; \<open>None\<close> stands for a call that does not return.
\<close>

record unroll_externals =
  ext_assure_lcssa :: "ir_graph \<Rightarrow> ir_graph"
  ext_assure_irg_properties :: "ir_graph \<Rightarrow> ir_graph_property set \<Rightarrow> ir_graph"
  ext_check_phi :: "ir_graph \<Rightarrow> nat \<Rightarrow> ir_loop \<Rightarrow> bool option"

definition ir_relation_less :: nat where "ir_relation_less = 2"
definition ir_relation_less_equal :: nat where "ir_relation_less_equal = 3"
definition ir_relation_greater :: nat where "ir_relation_greater = 4"
definition ir_relation_greater_equal :: nat where "ir_relation_greater_equal = 5"

definition get_Cmp_relation :: "ir_graph \<Rightarrow> nat \<Rightarrow> nat option" where
  "get_Cmp_relation g n = (case irn_attr (irg_node g n) of attr_cmp rel \<Rightarrow> Some rel | _ \<Rightarrow> None)"

fun lin_unroll_scan ::
  "unroll_externals \<Rightarrow> ir_graph \<Rightarrow> ir_loop \<Rightarrow> nat \<Rightarrow> nat list \<Rightarrow> bool option" where
  "lin_unroll_scan ext g loop header [] = Some False"
| "lin_unroll_scan ext g loop header (node # outs) =
     (if is_Block g node then None
      else if get_nodes_block g node \<noteq> Some header then lin_unroll_scan ext g loop header outs
      else if \<not> is_Cmp g node then lin_unroll_scan ext g loop header outs
      else
        (case get_Cmp_relation g node of
           None \<Rightarrow> None
         | Some rel \<Rightarrow>
             if rel \<noteq> ir_relation_greater_equal \<and> rel \<noteq> ir_relation_greater \<and>
                rel \<noteq> ir_relation_less_equal \<and> rel \<noteq> ir_relation_less
             then lin_unroll_scan ext g loop header outs
             else
               (case (get_irn_n g node 0, get_irn_n g node 1) of
                  (Some left, Some right) \<Rightarrow>
                    if \<not> is_Phi g left \<and> \<not> is_Phi g right then Some False
                    else
                      (case (if is_Phi g left then ext_check_phi ext g left loop else Some False) of
                         None \<Rightarrow> None
                       | Some ret_left \<Rightarrow>
                           (case (if is_Phi g right then ext_check_phi ext g right loop
                                  else Some False) of
                              None \<Rightarrow> None
                            | Some ret_right \<Rightarrow> Some (ret_left \<or> ret_right)))
                | _ \<Rightarrow> None)))"

definition determine_lin_unroll_info ::
  "unroll_externals \<Rightarrow> nat \<Rightarrow> ir_graph \<Rightarrow> ir_loop \<Rightarrow> bool option" where
  "determine_lin_unroll_info ext fuel g loop =
     (case get_loop_header fuel g loop of
        None \<Rightarrow> None
      | Some None \<Rightarrow> None
      | Some (Some header) \<Rightarrow> lin_unroll_scan ext g loop header (map fst (irg_outs g header)))"

text \<open>
  \<^verbatim>\<open>duplicate_innermost_loops\<close>: the call of \<^verbatim>\<open>unroll_loop\<close> stands inside a comment in the
  source; what runs is the recursion into the nested loops and, for every loop, the
  analysis \<^verbatim>\<open>determine_lin_unroll_info\<close>, whose verdict only selects a debug message.
\<close>

fun duplicate_innermost_loops ::
  "unroll_externals \<Rightarrow> nat \<Rightarrow> ir_graph \<times> nat \<Rightarrow> ir_loop \<Rightarrow> nat \<Rightarrow> nat \<Rightarrow> bool
     \<Rightarrow> (ir_graph \<times> nat) option"
  and duplicate_innermost_sons ::
  "unroll_externals \<Rightarrow> nat \<Rightarrow> ir_graph \<times> nat \<Rightarrow> loop_element list \<Rightarrow> nat \<Rightarrow> nat
     \<Rightarrow> (ir_graph \<times> nat) option" where
  "duplicate_innermost_loops ext fuel st (Loop nr es) factor maxsize outermost =
     (case duplicate_innermost_sons ext fuel st es factor maxsize of
        None \<Rightarrow> None
      | Some st' \<Rightarrow>
          (case determine_lin_unroll_info ext fuel (fst st') (Loop nr es) of
             None \<Rightarrow> None
           | Some can_unroll \<Rightarrow> Some st'))"
| "duplicate_innermost_sons ext fuel st [] factor maxsize = Some st"
| "duplicate_innermost_sons ext fuel st (k_ir_node n # es) factor maxsize =
     duplicate_innermost_sons ext fuel st es factor maxsize"
| "duplicate_innermost_sons ext fuel st (k_ir_loop son # es) factor maxsize =
     (case duplicate_innermost_loops ext fuel st son factor maxsize False of
        None \<Rightarrow> None
      | Some st' \<Rightarrow> duplicate_innermost_sons ext fuel st' es factor maxsize)"

definition ir_reserve_resources :: "ir_graph \<Rightarrow> ir_resources set \<Rightarrow> ir_graph option" where
  "ir_reserve_resources g res =
     (if irg_reserved_resources g \<inter> res \<noteq> {} then None
      else Some (g\<lparr>irg_reserved_resources := irg_reserved_resources g \<union> res\<rparr>))"

definition ir_free_resources :: "ir_graph \<Rightarrow> ir_resources set \<Rightarrow> ir_graph option" where
  "ir_free_resources g res =
     (if \<not> res \<subseteq> irg_reserved_resources g then None
      else Some (g\<lparr>irg_reserved_resources := irg_reserved_resources g - res\<rparr>))"

definition clear_irg_properties :: "ir_graph \<Rightarrow> ir_graph_property set \<Rightarrow> ir_graph" where
  "clear_irg_properties g props = g\<lparr>irg_properties := irg_properties g - props\<rparr>"


subsection \<open>Loop unrolling: the specification's notions\<close>

text \<open>
  The notions the specification uses for the loop header, stated independently of the
  code: a loop is nested in another when the chain of outer loops leads there; a Block is
  inside a loop when its innermost loop is that loop or nested in it; the climb along the
  immediate dominators stays inside the loop; the Blocks of a loop are those of the loop
  and of its sub-loops. The analysis information is well-formed when the outer-loop
  chain and the immediate-dominator chain descend along a depth.
\<close>

inductive nested_in :: "ir_graph \<Rightarrow> nat \<Rightarrow> nat \<Rightarrow> bool" for g where
  direct: "irg_loop_outer g l \<noteq> l \<Longrightarrow> irg_loop_outer g l = p \<Longrightarrow> nested_in g l p"
| further: "irg_loop_outer g l \<noteq> l \<Longrightarrow> nested_in g (irg_loop_outer g l) p \<Longrightarrow> nested_in g l p"

definition inside_loop :: "ir_graph \<Rightarrow> ir_loop \<Rightarrow> nat \<Rightarrow> bool" where
  "inside_loop g loop block =
     (\<exists>l. irg_irn_loop g block = Some l \<and> (l = get_loop_nr loop \<or> nested_in g l (get_loop_nr loop)))"

inductive idom_climb :: "ir_graph \<Rightarrow> ir_loop \<Rightarrow> nat \<Rightarrow> nat \<Rightarrow> bool" for g loop where
  at_root: "irg_idom g b = None \<Longrightarrow> idom_climb g loop b b"
| at_exit: "irg_idom g b = Some d \<Longrightarrow> \<not> inside_loop g loop d \<Longrightarrow> idom_climb g loop b b"
| up: "irg_idom g b = Some d \<Longrightarrow> inside_loop g loop d \<Longrightarrow> idom_climb g loop d h
        \<Longrightarrow> idom_climb g loop b h"

fun loop_blocks :: "ir_loop \<Rightarrow> nat set"
  and element_blocks :: "loop_element list \<Rightarrow> nat set" where
  "loop_blocks (Loop nr es) = element_blocks es"
| "element_blocks [] = {}"
| "element_blocks (k_ir_node n # es) = insert n (element_blocks es)"
| "element_blocks (k_ir_loop son # es) = loop_blocks son \<union> element_blocks es"

definition loop_tree_wf :: "ir_graph \<Rightarrow> (nat \<Rightarrow> nat) \<Rightarrow> nat \<Rightarrow> bool" where
  "loop_tree_wf g ldepth bound =
     (\<forall>l. ldepth l < bound \<and> (irg_loop_outer g l \<noteq> l \<longrightarrow> ldepth (irg_loop_outer g l) < ldepth l))"

definition dominance_wf :: "ir_graph \<Rightarrow> (nat \<Rightarrow> nat) \<Rightarrow> bool" where
  "dominance_wf g depth = (\<forall>b d. irg_idom g b = Some d \<longrightarrow> depth d < depth b)"


subsection \<open>Loop unrolling: example graphs\<close>

text \<open>
  A counting loop in LCSSA form. Blocks: 0 (entry), 1 (header), 2 (body), 3 (after the
  loop). The entry jumps (4) to the header; the header ends in a Cond (13) on the Cmp (14)
  of the counter Phi (9) with the Const (10); its true Proj (5) enters the body, its
  false Proj (6) leaves to Block 3; the body increments the counter (11) and jumps back
  (7). Block 3 holds the loop-closing Phi (12) and End (8). The second graph has the same
  nodes but enters the cycle of Blocks 1 and 2 at both Blocks, so no Block of the cycle
  dominates it.
\<close>

definition mk_node :: "ir_opcode \<Rightarrow> ir_mode \<Rightarrow> nat option \<Rightarrow> nat list \<Rightarrow> irn_attr \<Rightarrow> ir_node" where
  "mk_node opc m blk ins attr =
     \<lparr>irn_op = opc, irn_mode = m, irn_block = blk, irn_in = ins, irn_link = None,
      irn_attr = attr, irn_pinned = True, irn_visited = 0\<rparr>"

definition mode_Iu :: ir_mode where
  "mode_Iu = mode_int 32 False irma_twos_complement 32"

definition mode_Is :: ir_mode where
  "mode_Is = mode_int 32 True irma_twos_complement 32"

definition example_inner_loop :: ir_loop where
  "example_inner_loop = Loop 1 [k_ir_node 2, k_ir_node 1]"

definition example_outer_loop :: ir_loop where
  "example_outer_loop = Loop 0 [k_ir_node 0, k_ir_loop example_inner_loop, k_ir_node 3]"

definition example_nodes :: "nat \<Rightarrow> ir_node" where
  "example_nodes =
     (\<lambda>n. mk_node iro_Bad mode_ANY None [] attr_none)
     (0 := mk_node iro_Block mode_BB None [] attr_none,
      1 := mk_node iro_Block mode_BB None [4, 7] attr_none,
      2 := mk_node iro_Block mode_BB None [5] attr_none,
      3 := mk_node iro_Block mode_BB None [6] attr_none,
      4 := mk_node iro_Jmp mode_X (Some 0) [] attr_none,
      5 := mk_node iro_Proj mode_X (Some 1) [13] (attr_proj 1),
      6 := mk_node iro_Proj mode_X (Some 1) [13] (attr_proj 0),
      7 := mk_node iro_Jmp mode_X (Some 2) [] attr_none,
      8 := mk_node iro_End mode_X (Some 3) [] attr_none,
      9 := mk_node iro_Phi mode_Iu (Some 1) [10, 11] (attr_phi False),
      10 := mk_node iro_Const mode_Iu (Some 0) [] (attr_const (Tarval mode_Iu 1)),
      11 := mk_node iro_Add mode_Iu (Some 2) [9, 10] attr_none,
      12 := mk_node iro_Phi mode_Iu (Some 3) [9] (attr_phi False),
      13 := mk_node iro_Cond mode_T (Some 1) [14] attr_none,
      14 := mk_node iro_Cmp mode_b (Some 1) [9, 10] (attr_cmp 2))"

definition example_outs :: "nat \<Rightarrow> (nat \<times> int) list" where
  "example_outs =
     (\<lambda>n. [])
     (0 := [(4, -1), (10, -1)],
      1 := [(5, -1), (6, -1), (9, -1), (13, -1), (14, -1)],
      2 := [(7, -1), (11, -1)],
      3 := [(8, -1), (12, -1)],
      4 := [(1, 0)],
      5 := [(2, 0)],
      6 := [(3, 0)],
      7 := [(1, 1)],
      9 := [(11, 0), (12, 0), (14, 0)],
      10 := [(9, 0), (11, 1), (14, 1)],
      11 := [(9, 1)],
      13 := [(5, 0), (6, 0)],
      14 := [(13, 0)])"

definition example_graph :: ir_graph where
  "example_graph =
     \<lparr>irg_node = example_nodes,
      irg_last_idx = 15,
      irg_start_block = 0,
      irg_end = 8,
      irg_args = 15,
      irg_no_mem = 15,
      irg_outs = example_outs,
      irg_idom = (\<lambda>b. if b = 1 then Some 0 else if b = 2 then Some 1
                       else if b = 3 then Some 1 else None),
      irg_block_dominates = (\<lambda>a b. a = b \<or> a = 0 \<or> (a = 1 \<and> (b = 2 \<or> b = 3))),
      irg_irn_loop = (\<lambda>b. if b = 1 \<or> b = 2 then Some 1 else if b = 0 \<or> b = 3 then Some 0 else None),
      irg_loop_outer = (\<lambda>l. if l = 1 then 0 else l),
      irg_loop = example_outer_loop,
      irg_backedge = (\<lambda>n i. (n = 1 \<or> n = 9) \<and> i = 1),
      irg_block_phis = (\<lambda>b. []),
      irg_properties = {IR_GRAPH_PROPERTY_CONSISTENT_DOMINANCE, IR_GRAPH_PROPERTY_CONSISTENT_OUTS,
                        IR_GRAPH_PROPERTY_CONSISTENT_LOOPINFO, IR_GRAPH_PROPERTY_NO_BADS,
                        IR_GRAPH_PROPERTY_LCSSA},
      irg_reserved_resources = {},
      irg_visited = 0\<rparr>"

definition example_irreducible_graph :: ir_graph where
  "example_irreducible_graph =
     example_graph
       \<lparr>irg_idom := (\<lambda>b. if b = 1 \<or> b = 2 \<or> b = 3 then Some 0 else None),
        irg_block_dominates := (\<lambda>a b. a = b \<or> a = 0)\<rparr>"


subsection \<open>Double-word lowering: control-flow inputs\<close>

text \<open>
  The lowering keeps the Phis of a Block in the Block's Phi list (\<^verbatim>\<open>get_Block_phis\<close>,
  \<^verbatim>\<open>get_Phi_next\<close>). \<^verbatim>\<open>add_block_cf_input_nr\<close> reads the first \<open>arity\<close> inputs of every
  listed Phi, where \<open>arity\<close> is the arity of the Block; a Phi with fewer inputs fails the
  assertion of \<^verbatim>\<open>get_irn_n\<close>.
\<close>

fun add_cf_input_phis :: "ir_graph \<Rightarrow> nat \<Rightarrow> nat \<Rightarrow> nat list \<Rightarrow> ir_graph option" where
  "add_cf_input_phis g arity nr [] = Some g"
| "add_cf_input_phis g arity nr (phi # phis) =
     (if get_irn_arity g phi < arity then None
      else add_cf_input_phis
             (set_irn_in g phi
                (take arity (irn_in (irg_node g phi)) @ [take arity (irn_in (irg_node g phi)) ! nr]))
             arity nr phis)"

definition add_block_cf_input_nr :: "ir_graph \<Rightarrow> nat \<Rightarrow> nat \<Rightarrow> nat \<Rightarrow> ir_graph option" where
  "add_block_cf_input_nr g block nr cf =
     (let arity = get_irn_arity g block
      in if \<not> nr < arity then None
         else add_cf_input_phis (set_irn_in g block (irn_in (irg_node g block) @ [cf]))
                arity nr (irg_block_phis g block))"

fun find_cf_input :: "nat list \<Rightarrow> nat \<Rightarrow> nat \<Rightarrow> nat option" where
  "find_cf_input [] tmpl i = None"
| "find_cf_input (p # ps) tmpl i = (if p = tmpl then Some i else find_cf_input ps tmpl (Suc i))"

definition add_block_cf_input :: "ir_graph \<Rightarrow> nat \<Rightarrow> nat \<Rightarrow> nat \<Rightarrow> ir_graph option" where
  "add_block_cf_input g block tmpl cf =
     (case find_cf_input (irn_in (irg_node g block)) tmpl 0 of
        None \<Rightarrow> None
      | Some nr \<Rightarrow> add_block_cf_input_nr g block nr cf)"






subsection \<open>Loop unrolling: choosing a factor for a known trip count\<close>

text \<open>
  \<^verbatim>\<open>find_optimal_factor(unsigned long number, unsigned max)\<close>. The C integers are
  modelled as natural numbers with the wrap-around written out: \<^verbatim>\<open>unsigned\<close> is 32 bits
  wide, so the counter \<^verbatim>\<open>i++\<close> wraps modulo \<open>2^32\<close> and the cast
  \<^verbatim>\<open>(unsigned) number\<close> keeps the low 32 bits. The remainder \<^verbatim>\<open>number % i\<close> with a
  wrapped counter \<open>i = 0\<close> is a division by zero, which the model reports as an error.
\<close>

datatype error = DivisionByZero | AssertionFailed | NullDereference | OutOfFuel

function find_optimal_factor_loop :: "nat \<Rightarrow> nat \<Rightarrow> nat \<Rightarrow> error + nat" where
  "find_optimal_factor_loop number maxf i =
     (if i \<le> number div 2 then
        (if i = 0 then Inl DivisionByZero
         else if number mod i = 0 \<and> number div i \<le> maxf \<and>
                 (number mod 4294967296) div i \<noteq> 0 \<and>
                 ((number mod 4294967296) div i) AND ((number mod 4294967296) div i - 1) = 0
              then Inr ((number mod 4294967296) div i)
         else find_optimal_factor_loop number maxf ((i + 1) mod 4294967296))
      else Inr 0)"
  by pat_completeness auto
termination
  by (relation "measure (\<lambda>(number, maxf, i).
        if i = 0 then 0 else if i < 4294967296 then 4294967296 - i else 4294967297)")
     (auto simp: mod_Suc)

declare find_optimal_factor_loop.simps [simp del]

definition find_optimal_factor :: "nat \<Rightarrow> nat \<Rightarrow> error + nat" where
  "find_optimal_factor number maxf =
     (if number \<le> maxf then Inr (number mod 4294967296)
      else find_optimal_factor_loop number maxf 2)"

text \<open>
  The last statements of \<^verbatim>\<open>find_suitable_factor\<close>, from the point where the trip count
  \<^verbatim>\<open>loop_count\<close> (a C \<^verbatim>\<open>long\<close>) has been computed: a count that is not positive
  gives \<^verbatim>\<open>DONT_UNROLL\<close>, otherwise the factor is \<^verbatim>\<open>find_optimal_factor\<close> of the count and
  \<^verbatim>\<open>*fully_unroll\<close> is set when the factor equals the count. In the source these
  statements stand behind the unconditional \<^verbatim>\<open>return 0\<close> at the head of the function.
\<close>

definition factor_for_loop_count :: "int \<Rightarrow> nat \<Rightarrow> bool \<Rightarrow> error + (nat \<times> bool)" where
  "factor_for_loop_count loop_count maxf fully_unroll =
     (if loop_count \<le> 0 then Inr (0, fully_unroll)
      else case find_optimal_factor (nat loop_count) maxf of
             Inl e \<Rightarrow> Inl e
           | Inr factor \<Rightarrow> Inr (factor, if factor = nat loop_count then True else fully_unroll))"

text \<open>The specification's notion: a power of two.\<close>

definition is_pow2 :: "nat \<Rightarrow> bool" where
  "is_pow2 n = (\<exists>k. n = 2 ^ k)"

definition good_divisor :: "nat \<Rightarrow> nat \<Rightarrow> nat \<Rightarrow> bool" where
  "good_divisor number maxf j = (j dvd number \<and> number div j \<le> maxf \<and> is_pow2 (number div j))"

subsection \<open>Double-word lowering: the environment\<close>

text \<open>
  \<^verbatim>\<open>node_entry_t\<close> and \<^verbatim>\<open>lower_env_t\<close>, together with the static tables of the file
  (\<^verbatim>\<open>intrinsic_fkt\<close>, the intrinsic method types) and the graph being rewritten. The flags
  \<^verbatim>\<open>MUST_BE_LOWERED\<close> and \<^verbatim>\<open>CF_CHANGED\<close> are two booleans. \<^verbatim>\<open>create_intrinsic\<close> is the
  factory of the parameters; it may return \<^verbatim>\<open>NULL\<close>. Entities and types are numbers.
\<close>

record node_entry =
  low_word :: "nat option"
  high_word :: "nat option"

record lower_env =
  lenv_irg :: ir_graph
  entries :: "nat \<Rightarrow> node_entry option"
  n_entries :: nat
  waitq :: "nat list"
  proj_2_block :: "nat \<Rightarrow> nat option"
  high_signed :: ir_mode
  high_unsigned :: ir_mode
  low_signed :: ir_mode
  low_unsigned :: ir_mode
  flag_must_be_lowered :: bool
  flag_cf_changed :: bool
  intrinsic_fkt :: "ir_opcode \<times> ir_mode \<times> ir_mode \<Rightarrow> nat option"
  create_intrinsic :: "nat \<Rightarrow> ir_opcode \<Rightarrow> ir_mode \<Rightarrow> ir_mode \<Rightarrow> nat option"
  shiftop_tp_u :: nat
  shiftop_tp_s :: nat
  tv_mode_bits :: tarval
  l_mtp :: "nat option"
  value_param_tp :: "nat option"

text \<open>
  Numbers of the Projs, as the enumerations of the node headers give them (the headers
  are not part of the sources at hand): \<^verbatim>\<open>pn_Cond_false\<close>, \<^verbatim>\<open>pn_Cond_true\<close>, the relation
  bits \<^verbatim>\<open>pn_Cmp_Eq\<close>, \<^verbatim>\<open>pn_Cmp_Lt\<close>, \<^verbatim>\<open>pn_Cmp_Gt\<close> with \<^verbatim>\<open>pn_Cmp_Lg\<close> the union of the
  last two, and \<^verbatim>\<open>pn_Call_T_result\<close>.
\<close>

definition pn_Cond_false :: int where "pn_Cond_false = 0"
definition pn_Cond_true :: int where "pn_Cond_true = 1"
definition pn_Cmp_Eq :: int where "pn_Cmp_Eq = 1"
definition pn_Cmp_Lt :: int where "pn_Cmp_Lt = 2"
definition pn_Cmp_Gt :: int where "pn_Cmp_Gt = 4"
definition pn_Cmp_Lg :: int where "pn_Cmp_Lg = 6"
definition pn_Call_T_result :: int where "pn_Call_T_result = 3"

definition mode_P_code :: ir_mode where "mode_P_code = mode_reference 32"

text \<open>
  Modelled from the spec: the tarval helpers (section 2, ``a mode-tagged constant
  supporting arithmetic, comparison, bit-width conversion, null test''); \<^verbatim>\<open>tv.c\<close> is not
  part of the sources at hand. A tarval of an integer or reference mode is a \<^verbatim>\<open>long\<close>
  when its value fits 64 bits; \<^verbatim>\<open>new_tarval_from_long\<close> reduces the value into the range
  of the mode.
\<close>

fun mode_is_reference :: "ir_mode \<Rightarrow> bool" where
  "mode_is_reference (mode_reference bits) = True"
| "mode_is_reference m = False"

definition tarval_is_long :: "tarval \<Rightarrow> bool" where
  "tarval_is_long tv =
     ((mode_is_int (get_tarval_mode tv) \<or> mode_is_reference (get_tarval_mode tv)) \<and>
      - (2 ^ 63) \<le> get_tarval_int tv \<and> get_tarval_int tv < 2 ^ 63)"

definition get_tarval_long :: "tarval \<Rightarrow> int" where
  "get_tarval_long tv = get_tarval_int tv"

definition new_tarval_from_long :: "int \<Rightarrow> ir_mode \<Rightarrow> tarval" where
  "new_tarval_from_long l m =
     Tarval m
       (if mode_is_signed m
        then (l + 2 ^ (get_mode_size_bits m - 1)) mod 2 ^ get_mode_size_bits m
               - 2 ^ (get_mode_size_bits m - 1)
        else l mod 2 ^ get_mode_size_bits m)"

definition get_mode_null :: "ir_mode \<Rightarrow> tarval" where
  "get_mode_null m = Tarval m 0"

definition tarval_is_null :: "tarval \<Rightarrow> bool" where
  "tarval_is_null tv = (get_tarval_int tv = 0)"

definition get_Const_tarval :: "ir_graph \<Rightarrow> nat \<Rightarrow> tarval option" where
  "get_Const_tarval g n =
     (case irn_attr (irg_node g n) of attr_const tv \<Rightarrow> Some tv | _ \<Rightarrow> None)"

definition is_Const_null :: "ir_graph \<Rightarrow> nat \<Rightarrow> bool" where
  "is_Const_null g n =
     (case get_Const_tarval g n of None \<Rightarrow> False | Some tv \<Rightarrow> tarval_is_null tv)"

definition get_Proj_proj :: "ir_graph \<Rightarrow> nat \<Rightarrow> int option" where
  "get_Proj_proj g n =
     (case irn_attr (irg_node g n) of attr_proj nr \<Rightarrow> if is_Proj g n then Some nr else None
      | _ \<Rightarrow> None)"

text \<open>
  The node constructors (see \<open>new_ir_node\<close>), acting on the graph of the environment.
  Const, SymConst and Dummy nodes live in the start Block; a Block has no Block.
\<close>

definition env_new_node ::
  "lower_env \<Rightarrow> ir_opcode \<Rightarrow> ir_mode \<Rightarrow> nat option \<Rightarrow> nat list \<Rightarrow> irn_attr \<Rightarrow> nat \<times> lower_env" where
  "env_new_node env opc m blk ins attr =
     (let (n, g) = new_ir_node (lenv_irg env) opc m blk ins attr
      in (n, env\<lparr>lenv_irg := g\<rparr>))"

definition new_r_Const :: "lower_env \<Rightarrow> tarval \<Rightarrow> nat \<times> lower_env" where
  "new_r_Const env tv =
     env_new_node env iro_Const (get_tarval_mode tv) (Some (irg_start_block (lenv_irg env))) []
       (attr_const tv)"

definition new_r_Const_long :: "lower_env \<Rightarrow> ir_mode \<Rightarrow> int \<Rightarrow> nat \<times> lower_env" where
  "new_r_Const_long env m l = new_r_Const env (new_tarval_from_long l m)"

definition new_r_Conv :: "lower_env \<Rightarrow> nat \<Rightarrow> nat \<Rightarrow> ir_mode \<Rightarrow> nat \<times> lower_env" where
  "new_r_Conv env block opnd m = env_new_node env iro_Conv m (Some block) [opnd] attr_none"

definition new_r_Shl :: "lower_env \<Rightarrow> nat \<Rightarrow> nat \<Rightarrow> nat \<Rightarrow> ir_mode \<Rightarrow> nat \<times> lower_env" where
  "new_r_Shl env block left right m =
     env_new_node env iro_Shl m (Some block) [left, right] attr_none"

definition new_rd_Or :: "lower_env \<Rightarrow> nat \<Rightarrow> nat \<Rightarrow> nat \<Rightarrow> ir_mode \<Rightarrow> nat \<times> lower_env" where
  "new_rd_Or env block left right m =
     env_new_node env iro_Or m (Some block) [left, right] attr_none"

definition new_rd_Cmp :: "lower_env \<Rightarrow> nat \<Rightarrow> nat \<Rightarrow> nat \<Rightarrow> nat \<times> lower_env" where
  "new_rd_Cmp env block left right =
     env_new_node env iro_Cmp mode_T (Some block) [left, right] attr_none"

definition new_rd_Cond :: "lower_env \<Rightarrow> nat \<Rightarrow> nat \<Rightarrow> nat \<times> lower_env" where
  "new_rd_Cond env block selector =
     env_new_node env iro_Cond mode_T (Some block) [selector] attr_none"

definition new_r_Proj :: "lower_env \<Rightarrow> nat \<Rightarrow> ir_mode \<Rightarrow> int \<Rightarrow> nat \<times> lower_env" where
  "new_r_Proj env pred m nr =
     env_new_node env iro_Proj m (irn_block (irg_node (lenv_irg env) pred)) [pred] (attr_proj nr)"

definition new_r_Block :: "lower_env \<Rightarrow> nat list \<Rightarrow> nat \<times> lower_env" where
  "new_r_Block env ins = env_new_node env iro_Block mode_BB None ins attr_none"

definition new_r_SymConst :: "lower_env \<Rightarrow> ir_mode \<Rightarrow> nat \<Rightarrow> nat \<times> lower_env" where
  "new_r_SymConst env m ent =
     env_new_node env iro_SymConst m (Some (irg_start_block (lenv_irg env))) [] (attr_entity ent)"

definition new_rd_Call :: "lower_env \<Rightarrow> nat \<Rightarrow> nat \<Rightarrow> nat \<Rightarrow> nat list \<Rightarrow> nat \<Rightarrow> nat \<times> lower_env" where
  "new_rd_Call env block store callee ins mtp =
     env_new_node env iro_Call mode_T (Some block) (store # callee # ins) (attr_call mtp)"

definition env_update_graph :: "lower_env \<Rightarrow> (ir_graph \<Rightarrow> ir_graph) \<Rightarrow> lower_env" where
  "env_update_graph env f = env\<lparr>lenv_irg := f (lenv_irg env)\<rparr>"

definition set_low_word :: "lower_env \<Rightarrow> nat \<Rightarrow> nat option \<Rightarrow> lower_env option" where
  "set_low_word env idx w =
     (case entries env idx of
        None \<Rightarrow> None
      | Some e \<Rightarrow> Some (env\<lparr>entries := (entries env)(idx := Some (e\<lparr>low_word := w\<rparr>))\<rparr>))"

definition set_high_word :: "lower_env \<Rightarrow> nat \<Rightarrow> nat option \<Rightarrow> lower_env option" where
  "set_high_word env idx w =
     (case entries env idx of
        None \<Rightarrow> None
      | Some e \<Rightarrow> Some (env\<lparr>entries := (entries env)(idx := Some (e\<lparr>high_word := w\<rparr>))\<rparr>))"

definition pdeq_putr :: "lower_env \<Rightarrow> nat \<Rightarrow> lower_env" where
  "pdeq_putr env node = env\<lparr>waitq := waitq env @ [node]\<rparr>"

definition is_high_mode :: "lower_env \<Rightarrow> ir_mode \<Rightarrow> bool" where
  "is_high_mode env m = (m = high_signed env \<or> m = high_unsigned env)"

subsection \<open>Double-word lowering: shifts\<close>

definition get_intrinsic_address ::
  "lower_env \<Rightarrow> nat \<Rightarrow> ir_opcode \<Rightarrow> ir_mode \<Rightarrow> ir_mode \<Rightarrow> (nat \<times> lower_env) option" where
  "get_intrinsic_address env mtd opc imode omode =
     (case intrinsic_fkt env (opc, imode, omode) of
        Some ent \<Rightarrow> Some (new_r_SymConst env mode_P_code ent)
      | None \<Rightarrow>
          (case create_intrinsic env mtd opc imode omode of
             None \<Rightarrow> None
           | Some ent \<Rightarrow>
               Some (new_r_SymConst
                       (env\<lparr>intrinsic_fkt := (intrinsic_fkt env)((opc, imode, omode) := Some ent)\<rparr>)
                       mode_P_code ent)))"

text \<open>\<^verbatim>\<open>lower_Shiftop\<close>: the intrinsic Call of the general case.\<close>

definition lower_Shiftop :: "lower_env \<Rightarrow> nat \<Rightarrow> ir_mode \<Rightarrow> lower_env option" where
  "lower_Shiftop env node m =
     (let g = lenv_irg env in
      case (get_irn_n g node 0, get_irn_n g node 1) of
        (Some left, Some right) \<Rightarrow>
          (case entries env left of
             None \<Rightarrow> None
           | Some entry \<Rightarrow>
               (case low_word entry of
                  None \<Rightarrow> Some (pdeq_putr env node)
                | Some lo \<Rightarrow>
                    (case (high_word entry, get_nodes_block g node) of
                       (Some hi, Some block) \<Rightarrow>
                         if is_high_mode env (get_irn_mode g right) then None
                         else
                           (let mtp = (if mode_is_signed m then shiftop_tp_s env else shiftop_tp_u env)
                            in case get_intrinsic_address env mtp (get_irn_op g node) m m of
                                 None \<Rightarrow> None
                               | Some (addr, env) \<Rightarrow>
                                   (let (call, env) = new_rd_Call env block (irg_no_mem g) addr
                                                        [lo, hi, right] mtp;
                                        env = env_update_graph env (\<lambda>g'. update_node g' call
                                                (\<lambda>nd. nd\<lparr>irn_pinned := irn_pinned (irg_node g node)\<rparr>));
                                        (res, env) = new_r_Proj env call mode_T pn_Call_T_result
                                    in if \<not> node < n_entries env then None
                                       else
                                         (let (pl, env) = new_r_Proj env res (low_unsigned env) 0
                                          in case set_low_word env node (Some pl) of
                                               None \<Rightarrow> None
                                             | Some env \<Rightarrow>
                                                 (let (ph, env) = new_r_Proj env res m 1
                                                  in set_high_word env node (Some ph)))))
                     | _ \<Rightarrow> None)))
      | _ \<Rightarrow> None)"

text \<open>
  \<^verbatim>\<open>lower_Shl\<close>. The argument \<open>m\<close> is the mode \<^verbatim>\<open>lower_ops\<close> passes: the half-width signed
  mode for a signed double-word operation, the half-width unsigned mode otherwise.
\<close>

definition lower_Shl :: "lower_env \<Rightarrow> nat \<Rightarrow> ir_mode \<Rightarrow> lower_env option" where
  "lower_Shl env node m =
     (let g = lenv_irg env in
      case get_irn_n g node 1 of
        None \<Rightarrow> None
      | Some right \<Rightarrow>
          if get_mode_arithmetic m = irma_twos_complement \<and> is_Const g right \<and>
             (case get_Const_tarval g right of
                None \<Rightarrow> False
              | Some tv \<Rightarrow> tarval_is_long tv \<and> int (get_mode_size_bits m) \<le> get_tarval_long tv)
          then
            (case (get_Const_tarval g right, get_nodes_block g node, get_irn_n g node 0) of
               (Some tv, Some block, Some left) \<Rightarrow>
                 (let shf_cnt = get_tarval_long tv - int (get_mode_size_bits m) in
                  case entries env left of
                    None \<Rightarrow> None
                  | Some entry \<Rightarrow>
                      (case low_word entry of
                         None \<Rightarrow> Some (pdeq_putr env node)
                       | Some lo \<Rightarrow>
                           (let (conv, env) = new_r_Conv env block lo m;
                                mode_l = low_unsigned env
                            in case (if 0 < shf_cnt then
                                       (let (c, env) = new_r_Const_long env mode_l shf_cnt;
                                            (shl, env) = new_r_Shl env block conv c m
                                        in set_high_word env node (Some shl))
                                     else set_high_word env node (Some conv)) of
                                 None \<Rightarrow> None
                               | Some env \<Rightarrow>
                                   (let (zero, env) = new_r_Const env (get_mode_null mode_l)
                                    in set_low_word env node (Some zero)))))
             | _ \<Rightarrow> None)
          else lower_Shiftop env node m)"

subsection \<open>Double-word lowering: Cond\<close>

text \<open>
  The Projs of a node are chained through the link field by \<^verbatim>\<open>prepare_links\<close>; the loop
  \<^verbatim>\<open>for (proj = get_irn_link(node); proj; proj = get_irn_link(proj))\<close> follows the chain.
\<close>

fun link_chain :: "nat \<Rightarrow> ir_graph \<Rightarrow> nat option \<Rightarrow> nat list option" where
  "link_chain fuel g None = Some []"
| "link_chain 0 g (Some n) = None"
| "link_chain (Suc fuel) g (Some n) =
     (case link_chain fuel g (get_irn_link g n) of
        None \<Rightarrow> None
      | Some ns \<Rightarrow> Some (n # ns))"

definition mark_irn_visited :: "ir_graph \<Rightarrow> nat \<Rightarrow> ir_graph" where
  "mark_irn_visited g n = update_node g n (\<lambda>nd. nd\<lparr>irn_visited := irg_visited g\<rparr>)"

text \<open>
  The loop over the Projs of the Cond: it finds \<open>projT\<close> and \<open>projF\<close>, asserts that each
  occurs once and that no other number occurs, and marks every Proj visited.
\<close>

fun cond_projs ::
  "ir_graph \<Rightarrow> nat option \<times> nat option \<Rightarrow> nat list \<Rightarrow> (ir_graph \<times> nat option \<times> nat option) option" where
  "cond_projs g (projT, projF) [] = Some (g, projT, projF)"
| "cond_projs g (projT, projF) (proj # projs) =
     (case get_Proj_proj g proj of
        None \<Rightarrow> None
      | Some proj_nr \<Rightarrow>
          if proj_nr = pn_Cond_true then
            (if projT \<noteq> None then None
             else cond_projs (mark_irn_visited g proj) (Some proj, projF) projs)
          else if proj_nr \<noteq> pn_Cond_false then None
          else if projF \<noteq> None then None
          else cond_projs (mark_irn_visited g proj) (projT, Some proj) projs)"

definition set_Cond_selector :: "ir_graph \<Rightarrow> nat \<Rightarrow> nat \<Rightarrow> ir_graph option" where
  "set_Cond_selector g node sel = set_irn_n g node 0 sel"

text \<open>
  New Projs of a Cond that are marked visited at once:
  \<^verbatim>\<open>proj = new_r_Proj(irn, mode_X, nr); mark_irn_visited(proj);\<close>
\<close>

definition new_visited_Proj :: "lower_env \<Rightarrow> nat \<Rightarrow> int \<Rightarrow> nat \<times> lower_env" where
  "new_visited_Proj env cond nr =
     (let (proj, env) = new_r_Proj env cond mode_X nr
      in (proj, env_update_graph env (\<lambda>g. mark_irn_visited g proj)))"

definition env_add_block_cf_input :: "lower_env \<Rightarrow> nat \<Rightarrow> nat \<Rightarrow> nat \<Rightarrow> lower_env option" where
  "env_add_block_cf_input env block tmpl cf =
     (case add_block_cf_input (lenv_irg env) block tmpl cf of
        None \<Rightarrow> None
      | Some g \<Rightarrow> Some (env\<lparr>lenv_irg := g\<rparr>))"

text \<open>The branch \<open>pnc == pn_Cmp_Eq\<close>: \<open>a == b\<close> as \<open>a_h == b_h && a_l == b_l\<close>.\<close>

definition lower_Cond_Eq ::
  "lower_env \<Rightarrow> nat \<Rightarrow> nat \<Rightarrow> nat \<Rightarrow> nat \<Rightarrow> nat \<Rightarrow> nat \<Rightarrow> nat \<Rightarrow> nat \<Rightarrow> lower_env option" where
  "lower_Cond_Eq env block cmpH projT projF l_low r_low l_high r_high =
     (case proj_2_block env projF of
        None \<Rightarrow> None
      | Some dst_blk \<Rightarrow>
          (let (irn, env) = new_r_Proj env cmpH mode_b pn_Cmp_Eq;
               (irn, env) = new_rd_Cond env block irn;
               (projHF, env) = new_visited_Proj env irn pn_Cond_false;
               env = env_update_graph env (\<lambda>g. exchange g projF projHF);
               (projHT, env) = new_visited_Proj env irn pn_Cond_true;
               (new_bl, env) = new_r_Block env [projHT];
               (cmpL, env) = new_rd_Cmp env new_bl l_low r_low;
               (irn, env) = new_r_Proj env cmpL mode_b pn_Cmp_Eq;
               (irn, env) = new_rd_Cond env new_bl irn;
               (proj, env) = new_visited_Proj env irn pn_Cond_false
           in case env_add_block_cf_input env dst_blk projHF proj of
                None \<Rightarrow> None
              | Some env \<Rightarrow>
                  (let (proj, env) = new_visited_Proj env irn pn_Cond_true
                   in Some (env_update_graph env (\<lambda>g. exchange g projT proj)))))"

text \<open>The branch \<open>pnc == pn_Cmp_Lg\<close>: \<open>a != b\<close> as \<open>a_h != b_h || a_l != b_l\<close>.\<close>

definition lower_Cond_Lg ::
  "lower_env \<Rightarrow> nat \<Rightarrow> nat \<Rightarrow> nat \<Rightarrow> nat \<Rightarrow> nat \<Rightarrow> nat \<Rightarrow> nat \<Rightarrow> nat \<Rightarrow> lower_env option" where
  "lower_Cond_Lg env block cmpH projT projF l_low r_low l_high r_high =
     (case proj_2_block env projT of
        None \<Rightarrow> None
      | Some dst_blk \<Rightarrow>
          (let (irn, env) = new_r_Proj env cmpH mode_b pn_Cmp_Lg;
               (irn, env) = new_rd_Cond env block irn;
               (projHT, env) = new_visited_Proj env irn pn_Cond_true;
               env = env_update_graph env (\<lambda>g. exchange g projT projHT);
               (projHF, env) = new_visited_Proj env irn pn_Cond_false;
               (new_bl, env) = new_r_Block env [projHF];
               (cmpL, env) = new_rd_Cmp env new_bl l_low r_low;
               (irn, env) = new_r_Proj env cmpL mode_b pn_Cmp_Lg;
               (irn, env) = new_rd_Cond env new_bl irn;
               (proj, env) = new_visited_Proj env irn pn_Cond_true
           in case env_add_block_cf_input env dst_blk projHT proj of
                None \<Rightarrow> None
              | Some env \<Rightarrow>
                  (let (proj, env) = new_visited_Proj env irn pn_Cond_false
                   in Some (env_update_graph env (\<lambda>g. exchange g projF proj)))))"

text \<open>
  The remaining relations: \<open>a rel b\<close> as \<open>a_h REL b_h || (a_h == b_h && a_l rel b_l)\<close>,
  where \<open>REL\<close> is \<open>pnc & ~pn_Cmp_Eq\<close>.
\<close>

definition lower_Cond_rel ::
  "lower_env \<Rightarrow> nat \<Rightarrow> nat \<Rightarrow> int \<Rightarrow> nat \<Rightarrow> nat \<Rightarrow> nat \<Rightarrow> nat \<Rightarrow> nat \<Rightarrow> nat \<Rightarrow> lower_env option" where
  "lower_Cond_rel env block cmpH pnc projT projF l_low r_low l_high r_high =
     (case (proj_2_block env projT, proj_2_block env projF) of
        (Some dstT, Some dstF) \<Rightarrow>
          (let (irn, env) = new_r_Proj env cmpH mode_b (pnc AND NOT pn_Cmp_Eq);
               (irn, env) = new_rd_Cond env block irn;
               (projHT, env) = new_visited_Proj env irn pn_Cond_true;
               env = env_update_graph env (\<lambda>g. exchange g projT projHT);
               projT = projHT;
               (projHF, env) = new_visited_Proj env irn pn_Cond_false;
               (newbl_eq, env) = new_r_Block env [projHF];
               (irn, env) = new_r_Proj env cmpH mode_b pn_Cmp_Eq;
               (irn, env) = new_rd_Cond env newbl_eq irn;
               (proj, env) = new_visited_Proj env irn pn_Cond_false;
               env = env_update_graph env (\<lambda>g. exchange g projF proj);
               projF = proj;
               (proj, env) = new_visited_Proj env irn pn_Cond_true;
               (newbl_l, env) = new_r_Block env [proj];
               (cmpL, env) = new_rd_Cmp env newbl_l l_low r_low;
               (irn, env) = new_r_Proj env cmpL mode_b pnc;
               (irn, env) = new_rd_Cond env newbl_l irn;
               (proj, env) = new_visited_Proj env irn pn_Cond_true
           in case env_add_block_cf_input env dstT projT proj of
                None \<Rightarrow> None
              | Some env \<Rightarrow>
                  (let (proj, env) = new_visited_Proj env irn pn_Cond_false
                   in env_add_block_cf_input env dstF projF proj))
      | _ \<Rightarrow> None)"

text \<open>``All right, build the code'': the part of \<^verbatim>\<open>lower_Cond\<close> after both pairs are ready.\<close>

definition lower_Cond_build ::
  "nat \<Rightarrow> lower_env \<Rightarrow> nat \<Rightarrow> nat \<Rightarrow> nat \<Rightarrow> nat \<Rightarrow> node_entry \<Rightarrow> node_entry \<Rightarrow> lower_env option" where
  "lower_Cond_build fuel env node sel cmp right lentry rentry =
     (let g = lenv_irg env in
      case link_chain fuel g (get_irn_link g node) of
        None \<Rightarrow> None
      | Some projs \<Rightarrow>
          (case cond_projs g (None, None) projs of
             Some (g, Some projT, Some projF) \<Rightarrow>
               (let env = env\<lparr>lenv_irg := g\<rparr> in
                case (get_nodes_block g node, get_Proj_proj g sel, low_word lentry, low_word rentry) of
                  (Some block, Some pnc, Some l_low, Some r_low) \<Rightarrow>
                    if is_Const g right \<and> is_Const_null g right \<and>
                       (pnc = pn_Cmp_Eq \<or> pnc = pn_Cmp_Lg)
                    then
                      (case high_word lentry of
                         None \<Rightarrow> None
                       | Some l_high \<Rightarrow>
                           (let mode = low_unsigned env;
                                (low, env) = new_r_Conv env block l_low mode;
                                (high, env) = new_r_Conv env block l_high mode;
                                (or_node, env) = new_rd_Or env block low high mode;
                                (zero, env) = new_r_Const_long env mode 0;
                                (cmp', env) = new_rd_Cmp env block or_node zero;
                                (proj, env) = new_r_Proj env cmp' mode_b pnc
                            in case set_Cond_selector (lenv_irg env) node proj of
                                 None \<Rightarrow> None
                               | Some g' \<Rightarrow> Some (env\<lparr>lenv_irg := g'\<rparr>)))
                    else
                      (case (high_word lentry, high_word rentry) of
                         (Some l_high, Some r_high) \<Rightarrow>
                           (let (cmpH, env) = new_rd_Cmp env block l_high r_high
                            in case (if pnc = pn_Cmp_Eq
                                     then lower_Cond_Eq env block cmpH projT projF
                                            l_low r_low l_high r_high
                                     else if pnc = pn_Cmp_Lg
                                     then lower_Cond_Lg env block cmpH projT projF
                                            l_low r_low l_high r_high
                                     else lower_Cond_rel env block cmpH pnc projT projF
                                            l_low r_low l_high r_high) of
                                 None \<Rightarrow> None
                               | Some env \<Rightarrow> Some (env\<lparr>flag_cf_changed := True\<rparr>))
                       | _ \<Rightarrow> None)
                | _ \<Rightarrow> None)
           | _ \<Rightarrow> None))"

text \<open>
  \<^verbatim>\<open>lower_Cond\<close>. A selector of mode \<open>b\<close> that is the Proj of a Cmp of double-word values
  is rewritten; a selector that is itself a double-word value is replaced by the low word
  of its pair.
\<close>

definition lower_Cond :: "nat \<Rightarrow> lower_env \<Rightarrow> nat \<Rightarrow> ir_mode \<Rightarrow> lower_env option" where
  "lower_Cond fuel env node m =
     (let g = lenv_irg env in
      case get_irn_n g node 0 of
        None \<Rightarrow> None
      | Some sel \<Rightarrow>
          if get_irn_mode g sel = mode_b then
            (if \<not> is_Proj g sel then Some env
             else
               (case get_irn_n g sel 0 of
                  None \<Rightarrow> None
                | Some cmp \<Rightarrow>
                    if \<not> is_Cmp g cmp then Some env
                    else
                      (case (get_irn_n g cmp 0, get_irn_n g cmp 1) of
                         (Some left, Some right) \<Rightarrow>
                           (case entries env left of
                              None \<Rightarrow> Some env
                            | Some lentry \<Rightarrow>
                                (case entries env right of
                                   None \<Rightarrow> None
                                 | Some rentry \<Rightarrow>
                                     if low_word lentry = None \<or> low_word rentry = None
                                     then Some (pdeq_putr env node)
                                     else lower_Cond_build fuel env node sel cmp right lentry rentry))
                       | _ \<Rightarrow> None)))
          else
            (case entries env sel of
               None \<Rightarrow> Some env
             | Some entry \<Rightarrow>
                 (case low_word entry of
                    None \<Rightarrow> Some (pdeq_putr env node)
                  | Some lo \<Rightarrow>
                      (case set_Cond_selector g node lo of
                         None \<Rightarrow> None
                       | Some g' \<Rightarrow> Some (env\<lparr>lenv_irg := g'\<rparr>)))))"

subsection \<open>Double-word lowering: reading results\<close>


definition const_is :: "ir_graph \<Rightarrow> nat \<Rightarrow> tarval \<Rightarrow> bool" where
  "const_is g n tv =
     (irn_op (irg_node g n) = iro_Const \<and> irn_mode (irg_node g n) = get_tarval_mode tv \<and>
      irn_attr (irg_node g n) = attr_const tv)"

definition entry_low :: "lower_env \<Rightarrow> nat \<Rightarrow> nat option" where
  "entry_low env idx = (case entries env idx of None \<Rightarrow> None | Some e \<Rightarrow> low_word e)"

definition entry_high :: "lower_env \<Rightarrow> nat \<Rightarrow> nat option" where
  "entry_high env idx = (case entries env idx of None \<Rightarrow> None | Some e \<Rightarrow> high_word e)"

definition lowered_low :: "lower_env option \<Rightarrow> nat \<Rightarrow> nat option" where
  "lowered_low r idx = (case r of None \<Rightarrow> None | Some env \<Rightarrow> entry_low env idx)"



text \<open>
  Example: the shift \<open>a << c\<close> of a 64-bit value. Node 0 is the start Block, node 1 the
  double-word value \<open>a\<close> (a parameter Proj), node 2 the Const \<open>c\<close>, node 3 the Shl, and
  nodes 4 and 5 the low and high word that the lowering has already created for \<open>a\<close>.
  The mode of the operation and the count are parameters of the example.
\<close>

definition mode_Lu :: ir_mode where
  "mode_Lu = mode_int 64 False irma_twos_complement 64"

definition mode_Ls :: ir_mode where
  "mode_Ls = mode_int 64 True irma_twos_complement 64"


definition example_lower_env :: "ir_graph \<Rightarrow> (nat \<Rightarrow> node_entry option) \<Rightarrow> lower_env" where
  "example_lower_env g es =
     \<lparr>lenv_irg = g,
      entries = es,
      n_entries = 32,
      waitq = [],
      proj_2_block = (\<lambda>n. None),
      high_signed = mode_Ls,
      high_unsigned = mode_Lu,
      low_signed = mode_Is,
      low_unsigned = mode_Iu,
      flag_must_be_lowered = True,
      flag_cf_changed = False,
      intrinsic_fkt = (\<lambda>k. None),
      create_intrinsic = (\<lambda>mtd opc imode omode. Some 0),
      shiftop_tp_u = 0,
      shiftop_tp_s = 1,
      tv_mode_bits = Tarval mode_Iu 32,
      l_mtp = None,
      value_param_tp = None\<rparr>"


subsection \<open>Reachability from End\<close>

text \<open>
  A node uses its inputs and its Block. The nodes of a graph that count are those
  reachable from the End node along these edges; a node that no reachable node uses
  any more is dead and is dropped by the next pass that walks the graph from End.
\<close>

definition uses :: "ir_graph \<Rightarrow> nat \<Rightarrow> nat \<Rightarrow> bool" where
  "uses g n x = (x \<in> set (irn_in (irg_node g n)) \<or> irn_block (irg_node g n) = Some x)"

inductive reachable :: "ir_graph \<Rightarrow> nat \<Rightarrow> nat \<Rightarrow> bool" for g :: ir_graph and root :: nat where
  reachable_root: "reachable g root root"
| reachable_step: "reachable g root n \<Longrightarrow> uses g n x \<Longrightarrow> reachable g root x"






subsection \<open>Types and entities as the verifier reads them\<close>

text \<open>
  Modelled from the spec: the type and entity representation (section 3, ``Type \<open>&\<close>
  Entity''). The verifier reads types and entities only through accessor functions of
  \<^verbatim>\<open>typerep.h\<close>, which are not part of the sources at hand; the records below have one
  field per accessor that \<^verbatim>\<open>tr_verify.c\<close> calls. Types, entities and graphs are referred
  to by index; a member slot of a compound type may be \<open>NULL\<close>.
\<close>

datatype tp_opcode =
    tpo_uninitialized | tpo_struct | tpo_union | tpo_class | tpo_method | tpo_array
  | tpo_pointer | tpo_primitive | tpo_code | tpo_unknown

record ir_type =
  type_tpop_code :: tp_opcode
  type_mode :: "ir_mode option"
  compound_members :: "nat option list"
  class_n_supertypes :: nat
  array_bounds :: "(bool \<times> bool) list"
  array_element_type :: nat
  type_is_segment :: bool
  type_is_frame :: bool

datatype ir_linkage =
    IR_LINKAGE_CONSTANT | IR_LINKAGE_WEAK | IR_LINKAGE_GARBAGE_COLLECT | IR_LINKAGE_MERGE
  | IR_LINKAGE_HIDDEN_USER | IR_LINKAGE_NO_CODEGEN | IR_LINKAGE_NO_IDENTITY

datatype ir_visibility =
    ir_visibility_external | ir_visibility_external_private | ir_visibility_external_protected
  | ir_visibility_local | ir_visibility_private

datatype ir_entity_kind =
    IR_ENTITY_ALIAS | IR_ENTITY_COMPOUND_MEMBER | IR_ENTITY_LABEL | IR_ENTITY_METHOD
  | IR_ENTITY_NORMAL | IR_ENTITY_PARAMETER | IR_ENTITY_UNKNOWN | IR_ENTITY_GOTENTRY

datatype ir_peculiarity = peculiarity_existent | peculiarity_description | peculiarity_inherited

text \<open>
  An initializer is \<open>NULL\<close>-valued, a tarval, a Const node of the const-code graph, or a
  list of initializers; \<open>IR_INITIALIZER_INVALID\<close> stands for a kind outside the
  enumeration, for which the \<^verbatim>\<open>switch\<close> of \<^verbatim>\<open>check_initializer\<close> has no case.
\<close>

datatype ir_initializer =
    IR_INITIALIZER_NULL
  | IR_INITIALIZER_TARVAL tarval
  | IR_INITIALIZER_CONST nat
  | IR_INITIALIZER_COMPOUND "ir_initializer list"
  | IR_INITIALIZER_INVALID

record ir_entity =
  entity_owner :: nat
  entity_type :: nat
  entity_initializer :: "ir_initializer option"
  entity_linkage :: "ir_linkage set"
  entity_visibility :: ir_visibility
  entity_kind :: ir_entity_kind
  entity_irg :: "nat option"
  entity_n_overwrites :: nat
  entity_ld_ident :: "string option"
  entity_ld_name :: string
  entity_peculiarity :: ir_peculiarity
  entity_impl :: "nat option"
  entity_has_definition :: bool

datatype ir_segment =
    IR_SEGMENT_GLOBAL | IR_SEGMENT_THREAD_LOCAL | IR_SEGMENT_CONSTRUCTORS
  | IR_SEGMENT_DESTRUCTORS | IR_SEGMENT_JCR

datatype tore = a_type nat | an_entity nat

text \<open>
  The program: its types and entities, the order in which \<^verbatim>\<open>type_walk\<close> presents them to
  its callback, the segment types, the code type, the const-code graph with the
  predicate \<^verbatim>\<open>node_is_in_irgs_storage\<close> for its nodes, and the entity of each graph.
\<close>

record ir_prog =
  prog_type :: "nat \<Rightarrow> ir_type"
  prog_entity :: "nat \<Rightarrow> ir_entity"
  prog_type_walk :: "tore list"
  prog_segment_type :: "ir_segment \<Rightarrow> nat"
  prog_code_type :: nat
  prog_const_code_irg :: ir_graph
  prog_in_irgs_storage :: "nat \<Rightarrow> bool"
  prog_irg_entity :: "nat \<Rightarrow> nat"

definition get_compound_n_members :: "ir_prog \<Rightarrow> nat \<Rightarrow> nat" where
  "get_compound_n_members p tp = length (compound_members (prog_type p tp))"

definition is_Class_type :: "ir_prog \<Rightarrow> nat \<Rightarrow> bool" where
  "is_Class_type p tp = (type_tpop_code (prog_type p tp) = tpo_class)"

definition is_Array_type :: "ir_prog \<Rightarrow> nat \<Rightarrow> bool" where
  "is_Array_type p tp = (type_tpop_code (prog_type p tp) = tpo_array)"

definition is_Method_type :: "ir_prog \<Rightarrow> nat \<Rightarrow> bool" where
  "is_Method_type p tp = (type_tpop_code (prog_type p tp) = tpo_method)"

definition is_compound_type :: "ir_prog \<Rightarrow> nat \<Rightarrow> bool" where
  "is_compound_type p tp =
     (type_tpop_code (prog_type p tp) \<in> {tpo_struct, tpo_union, tpo_class})"

definition is_segment_type :: "ir_prog \<Rightarrow> nat \<Rightarrow> bool" where
  "is_segment_type p tp = type_is_segment (prog_type p tp)"

definition is_frame_type :: "ir_prog \<Rightarrow> nat \<Rightarrow> bool" where
  "is_frame_type p tp = type_is_frame (prog_type p tp)"

definition is_method_entity :: "ir_prog \<Rightarrow> nat \<Rightarrow> bool" where
  "is_method_entity p e = (entity_kind (prog_entity p e) = IR_ENTITY_METHOD)"

subsection \<open>The verifier\<close>

text \<open>
  \<^verbatim>\<open>report_error\<close> prints one line, ``Verify warning: '' and the formatted message, on
  \<open>stderr\<close>. The model records the line as the format string with its arguments. Every
  checking function returns its result together with the lines it printed, in order.
\<close>

datatype fmt_arg = arg_entity nat | arg_type nat | arg_node nat | arg_graph | arg_num nat
  | arg_str string

type_synonym warning = "string \<times> fmt_arg list"

definition report_error :: "string \<Rightarrow> fmt_arg list \<Rightarrow> warning list" where
  "report_error fmt args = [(fmt, args)]"

definition check_class_member :: "ir_prog \<Rightarrow> nat \<Rightarrow> nat \<Rightarrow> bool \<times> warning list" where
  "check_class_member p tp entity =
     (if entity_n_overwrites (prog_entity p entity) > class_n_supertypes (prog_type p tp)
      then (False, report_error ''member %+F of %+F has too many overwrites''
                     [arg_entity entity, arg_type tp])
      else (True, []))"

text \<open>The loop of \<^verbatim>\<open>check_compound_type\<close> over the members, from the first on.\<close>

fun check_compound_members ::
  "ir_prog \<Rightarrow> nat \<Rightarrow> bool \<Rightarrow> nat option list \<Rightarrow> bool \<times> warning list" where
  "check_compound_members p tp is_class [] = (True, [])"
| "check_compound_members p tp is_class (None # ms) =
     (let w = report_error (''%+F has a NULL member'' @ [CHR 0x0A]) [arg_type tp];
          (fine, ws) = check_compound_members p tp is_class ms
      in (False, w @ ws))"
| "check_compound_members p tp is_class (Some member # ms) =
     (let owner = entity_owner (prog_entity p member);
          (f1, w1) = (if owner \<noteq> tp
                      then (False, report_error (''member %+F of %+F has owner %+F'' @ [CHR 0x0A])
                                     [arg_entity member, arg_type tp, arg_type owner])
                      else (True, []));
          (f2, w2) = (if is_class then check_class_member p tp member else (True, []));
          (fine, ws) = check_compound_members p tp is_class ms
      in (f1 \<and> f2 \<and> fine, w1 @ w2 @ ws))"

definition check_compound_type :: "ir_prog \<Rightarrow> nat \<Rightarrow> bool \<times> warning list" where
  "check_compound_type p tp =
     check_compound_members p tp (is_Class_type p tp) (compound_members (prog_type p tp))"

fun check_array_dims :: "nat \<Rightarrow> nat \<Rightarrow> (bool \<times> bool) list \<Rightarrow> bool \<times> warning list" where
  "check_array_dims tp i [] = (True, [])"
| "check_array_dims tp i ((has_lower, has_upper) # bs) =
     (let (f, w) = (if \<not> has_lower \<and> \<not> has_upper
                    then (False, report_error ''missing array bound in %+F in dimension %zu''
                                   [arg_type tp, arg_num i])
                    else (True, []));
          (fine, ws) = check_array_dims tp (Suc i) bs
      in (f \<and> fine, w @ ws))"

definition check_array_type :: "ir_prog \<Rightarrow> nat \<Rightarrow> bool \<times> warning list" where
  "check_array_type p tp = check_array_dims tp 0 (array_bounds (prog_type p tp))"

definition check_type_mode :: "ir_prog \<Rightarrow> nat \<Rightarrow> bool \<times> warning list" where
  "check_type_mode p tp =
     (if type_mode (prog_type p tp) = None
      then (False, report_error ''type %+F has no mode'' [arg_type tp])
      else (True, []))"

definition check_primitive_type :: "ir_prog \<Rightarrow> nat \<Rightarrow> bool \<times> warning list" where
  "check_primitive_type p tp = check_type_mode p tp"

definition check_pointer_type :: "ir_prog \<Rightarrow> nat \<Rightarrow> bool \<times> warning list" where
  "check_pointer_type p tp = check_type_mode p tp"

definition check_type :: "ir_prog \<Rightarrow> nat \<Rightarrow> bool \<times> warning list" where
  "check_type p tp =
     (case type_tpop_code (prog_type p tp) of
        tpo_union \<Rightarrow> check_compound_type p tp
      | tpo_struct \<Rightarrow> check_compound_type p tp
      | tpo_class \<Rightarrow> check_compound_type p tp
      | tpo_array \<Rightarrow> check_array_type p tp
      | tpo_primitive \<Rightarrow> check_primitive_type p tp
      | tpo_pointer \<Rightarrow> check_pointer_type p tp
      | _ \<Rightarrow> (True, []))"

definition check_visited_flag :: "ir_graph \<Rightarrow> nat \<Rightarrow> bool \<times> warning list" where
  "check_visited_flag irg n =
     (if irn_visited (irg_node irg n) > irg_visited irg
      then (False, report_error
                     ''visited flag of %+F is larger than that of corresponding irg %+F''
                     [arg_node n, arg_graph])
      else (True, []))"

text \<open>
  \<^verbatim>\<open>on_irg_storage\<close> is the callback of the walk in \<^verbatim>\<open>constant_on_correct_irg\<close>; the
  walk visits the nodes reachable from the initializer's value.
\<close>

definition on_irg_storage :: "ir_prog \<Rightarrow> nat \<Rightarrow> bool \<times> warning list \<Rightarrow> bool \<times> warning list" where
  "on_irg_storage p n env =
     (let (fine, ws) = env;
          (f, w) = check_visited_flag (prog_const_code_irg p) n
      in (fine \<and> prog_in_irgs_storage p n \<and> f, ws @ w))"

definition constant_on_correct_irg :: "ir_prog \<Rightarrow> nat \<Rightarrow> bool \<times> warning list" where
  "constant_on_correct_irg p n =
     fold (on_irg_storage p)
       (irg_walk_from (irg_walk_fuel (prog_const_code_irg p)) (prog_const_code_irg p) [n] [])
       (True, [])"

text \<open>
  \<^verbatim>\<open>check_initializer\<close>. The two loops over the entries of a compound initializer call
  \<^verbatim>\<open>check_initializer\<close> for each entry and drop what it returns; the lines it printed
  stay printed. A \<open>NULL\<close> member of the compound type is dereferenced
  (\<^verbatim>\<open>get_entity_type(member)\<close>): the result \<open>None\<close>.
\<close>

fun check_initializer ::
    "ir_prog \<Rightarrow> ir_initializer \<Rightarrow> nat \<Rightarrow> nat \<Rightarrow> (bool \<times> warning list) option"
  and check_array_entries ::
    "ir_prog \<Rightarrow> ir_initializer list \<Rightarrow> nat \<Rightarrow> nat \<Rightarrow> warning list option"
  and check_compound_entries ::
    "ir_prog \<Rightarrow> ir_initializer list \<Rightarrow> nat option list \<Rightarrow> nat \<Rightarrow> warning list option"
where
  "check_initializer p IR_INITIALIZER_NULL type context = Some (True, [])"
| "check_initializer p (IR_INITIALIZER_TARVAL tv) type context =
     (if type_mode (prog_type p type) \<noteq> Some (get_tarval_mode tv)
      then Some (False, report_error ''initializer for entity %+F has wrong mode''
                          [arg_entity context])
      else Some (True, []))"
| "check_initializer p (IR_INITIALIZER_CONST v) type context =
     (let (f1, w1) = (if type_mode (prog_type p type)
                           \<noteq> Some (get_irn_mode (prog_const_code_irg p) v)
                      then (False, report_error ''initializer for entity %+F has wrong mode''
                                     [arg_entity context])
                      else (True, []));
          (on_irg, w2) = constant_on_correct_irg p v;
          (f3, w3) = (if \<not> on_irg
                      then (False, report_error
                              ''initializer const value %+F for entity %+F not on const-code irg''
                              [arg_node v, arg_entity context])
                      else (True, []))
      in Some (f1 \<and> f3, w1 @ w2 @ w3))"
| "check_initializer p (IR_INITIALIZER_COMPOUND subs) type context =
     (if is_Array_type p type then
        (case check_array_entries p subs (array_element_type (prog_type p type)) context of
           None \<Rightarrow> None
         | Some ws \<Rightarrow> Some (True, ws))
      else if is_compound_type p type then
        (let (f, w) = (if length subs > get_compound_n_members p type
                       then (False, report_error
                                      ''too many values in compound initializer of %+F''
                                      [arg_entity context])
                       else (True, []))
         in case check_compound_entries p subs (compound_members (prog_type p type)) context of
              None \<Rightarrow> None
            | Some ws \<Rightarrow> Some (f, w @ ws))
      else Some (False, report_error
                          ''compound initiailizer for non-array/compound type in entity %+F''
                          [arg_entity context]))"
| "check_initializer p IR_INITIALIZER_INVALID type context =
     Some (False, report_error ''invalid initializer for entity %+F'' [arg_entity context])"
| "check_array_entries p [] element_type context = Some []"
| "check_array_entries p (sub # subs) element_type context =
     (case check_initializer p sub element_type context of
        None \<Rightarrow> None
      | Some (fine, w) \<Rightarrow>
          (case check_array_entries p subs element_type context of
             None \<Rightarrow> None
           | Some ws \<Rightarrow> Some (w @ ws)))"
| "check_compound_entries p [] members context = Some []"
| "check_compound_entries p (sub # subs) [] context = Some []"
| "check_compound_entries p (sub # subs) (None # members) context = None"
| "check_compound_entries p (sub # subs) (Some member # members) context =
     (case check_initializer p sub (entity_type (prog_entity p member)) context of
        None \<Rightarrow> None
      | Some (fine, w) \<Rightarrow>
          (case check_compound_entries p subs members context of
             None \<Rightarrow> None
           | Some ws \<Rightarrow> Some (w @ ws)))"

definition check_external_linkage ::
  "ir_prog \<Rightarrow> nat \<Rightarrow> ir_linkage \<Rightarrow> string \<Rightarrow> bool \<times> warning list" where
  "check_external_linkage p entity linkage linkage_name =
     (if linkage \<notin> entity_linkage (prog_entity p entity) then (True, [])
      else
        (let (f1, w1) = (if entity_visibility (prog_entity p entity) \<noteq> ir_visibility_external
                         then (False, report_error
                                 ''entity %+F has IR_LINKAGE_%s but is not externally visible''
                                 [arg_entity entity, arg_str linkage_name])
                         else (True, []));
             (f2, w2) = (if \<not> entity_has_definition (prog_entity p entity)
                         then (False, report_error
                                 ''entity %+F has IR_LINKAGE_%s but is just a declaration''
                                 [arg_entity entity, arg_str linkage_name])
                         else (True, []))
         in (f1 \<and> f2, w1 @ w2)))"

definition is_data_type :: "ir_prog \<Rightarrow> nat \<Rightarrow> bool" where
  "is_data_type p type = (type \<noteq> prog_code_type p \<and> \<not> is_Method_type p type)"

text \<open>
  Two shorthands for the pattern \<^verbatim>\<open>if (c) { report_error(...); fine = false; }\<close> and for
  running one check after another.
\<close>

definition report_if :: "bool \<Rightarrow> string \<Rightarrow> fmt_arg list \<Rightarrow> bool \<times> warning list" where
  "report_if c fmt args = (if c then (False, report_error fmt args) else (True, []))"

definition and_then :: "bool \<times> warning list \<Rightarrow> bool \<times> warning list \<Rightarrow> bool \<times> warning list" where
  "and_then a b = (fst a \<and> fst b, snd a @ snd b)"

text \<open>The part of \<^verbatim>\<open>check_entity\<close> on \<open>IR_LINKAGE_NO_CODEGEN\<close>.\<close>

definition check_entity_no_codegen :: "ir_prog \<Rightarrow> nat \<Rightarrow> bool \<times> warning list" where
  "check_entity_no_codegen p entity =
     (if IR_LINKAGE_NO_CODEGEN \<in> entity_linkage (prog_entity p entity) then
        and_then
          (if \<not> is_method_entity p entity
           then (False, report_error ''entity %+F has IR_LINKAGE_NO_CODEGEN but is not a function''
                          [arg_entity entity])
           else report_if (entity_irg (prog_entity p entity) = None)
                  ''entity %+F has IR_LINKAGE_NO_CODEGEN but has no ir-graph anyway''
                  [arg_entity entity])
          (report_if (entity_visibility (prog_entity p entity) \<noteq> ir_visibility_external)
             ''entity %+F has IR_LINKAGE_NO_CODEGEN but is not externally visible''
             [arg_entity entity])
      else (True, []))"

text \<open>The \<^verbatim>\<open>switch (get_entity_kind(entity))\<close> of \<^verbatim>\<open>check_entity\<close>.\<close>

definition check_entity_kind :: "ir_prog \<Rightarrow> nat \<Rightarrow> bool \<times> warning list" where
  "check_entity_kind p entity =
     (let e = prog_entity p entity;
          initializer = entity_initializer e;
          type = entity_type e;
          owner = entity_owner e
      in case entity_kind e of
           IR_ENTITY_ALIAS \<Rightarrow>
             and_then
               (report_if (\<not> is_segment_type p owner)
                  ''alias entity %+F has non-segment owner %+F'' [arg_entity entity, arg_type owner])
               (report_if (initializer \<noteq> None)
                  ''alias entity %+F has initializer'' [arg_entity entity])
         | IR_ENTITY_NORMAL \<Rightarrow>
             report_if (\<not> is_data_type p type)
               ''normal entity %+F has non-data type %+F'' [arg_entity entity, arg_type type]
         | IR_ENTITY_COMPOUND_MEMBER \<Rightarrow>
             and_then
               (report_if (\<not> is_compound_type p owner)
                  ''compound member entity %+F has non-compound owner %+F''
                  [arg_entity entity, arg_type owner])
               (report_if (initializer \<noteq> None)
                  ''compound member entity %+F has initializer'' [arg_entity entity])
         | IR_ENTITY_LABEL \<Rightarrow>
             and_then
               (report_if (type \<noteq> prog_code_type p)
                  ''label entity %+F has non-code type %+F'' [arg_entity entity, arg_type type])
               (report_if (initializer \<noteq> None)
                  ''label entity %+F has initializer'' [arg_entity entity])
         | IR_ENTITY_METHOD \<Rightarrow>
             and_then
               (report_if (\<not> is_Method_type p type)
                  ''method entity %+F has non-method type %+F'' [arg_entity entity, arg_type type])
               (and_then
                  (case entity_irg e of
                     None \<Rightarrow> (True, [])
                   | Some irg \<Rightarrow>
                       report_if (prog_irg_entity p irg \<noteq> entity)
                         ''entity(%+F)->irg->entity(%+F) relation invalid''
                         [arg_entity entity, arg_entity (prog_irg_entity p irg)])
                  (if entity_peculiarity e = peculiarity_existent
                   then report_if (entity_impl e = None)
                          ''inherited method entity %+F must have constant pointing to existent entity.''
                          [arg_entity entity]
                   else (True, [])))
         | IR_ENTITY_PARAMETER \<Rightarrow>
             and_then
               (report_if (\<not> is_frame_type p owner)
                  ''parameter entity %+F has non-frame owner %+F''
                  [arg_entity entity, arg_type owner])
               (and_then
                  (report_if (\<not> is_data_type p type)
                     ''parameter entity %+F has non-data type %+F''
                     [arg_entity entity, arg_type type])
                  (report_if (initializer \<noteq> None)
                     ''parameter entity %+F has initializer'' [arg_entity entity]))
         | IR_ENTITY_UNKNOWN \<Rightarrow> (True, [])
         | IR_ENTITY_GOTENTRY \<Rightarrow> (True, []))"

text \<open>
  \<^verbatim>\<open>check_entity\<close>. The three calls of \<^verbatim>\<open>check_external_linkage\<close> are statements of
  their own: what they print is printed, what they return is not used.
\<close>

definition check_entity :: "ir_prog \<Rightarrow> nat \<Rightarrow> (bool \<times> warning list) option" where
  "check_entity p entity =
     (let initializer = entity_initializer (prog_entity p entity);
          type = entity_type (prog_entity p entity)
      in case (case initializer of
                 None \<Rightarrow> Some (True, [])
               | Some i \<Rightarrow> check_initializer p i type entity) of
           None \<Rightarrow> None
         | Some (f0, w0) \<Rightarrow>
             (let (f1, w1) = check_entity_no_codegen p entity;
                  (r2, w2) = check_external_linkage p entity IR_LINKAGE_WEAK ''WEAK'';
                  (r3, w3) = check_external_linkage p entity IR_LINKAGE_GARBAGE_COLLECT
                               ''GARBAGE_COLLECT'';
                  (r4, w4) = check_external_linkage p entity IR_LINKAGE_MERGE ''MERGE'';
                  (f5, w5) = check_entity_kind p entity
              in Some (f0 \<and> f1 \<and> f5, w0 @ w1 @ w2 @ w3 @ w4 @ w5)))"

text \<open>
  \<^verbatim>\<open>check_tore\<close> is the callback of \<^verbatim>\<open>type_walk\<close>, which hands over each type and each
  entity of the program; the accumulator is the flag \<open>fine\<close> of \<^verbatim>\<open>tr_verify\<close> with the
  lines printed so far.
\<close>

definition check_tore :: "ir_prog \<Rightarrow> tore \<Rightarrow> bool \<times> warning list \<Rightarrow> (bool \<times> warning list) option" where
  "check_tore p t env =
     (case t of
        a_type type \<Rightarrow> Some (and_then env (check_type p type))
      | an_entity entity \<Rightarrow>
          (case check_entity p entity of
             None \<Rightarrow> None
           | Some r \<Rightarrow> Some (and_then env r)))"

fun type_walk :: "ir_prog \<Rightarrow> tore list \<Rightarrow> bool \<times> warning list \<Rightarrow> (bool \<times> warning list) option" where
  "type_walk p [] env = Some env"
| "type_walk p (t # ts) env =
     (case check_tore p t env of
        None \<Rightarrow> None
      | Some env' \<Rightarrow> type_walk p ts env')"

text \<open>
  The loops of \<^verbatim>\<open>tr_verify\<close> over the members of the segment types. A \<open>NULL\<close> member is
  dereferenced by the first accessor: the result \<open>None\<close>.
\<close>

fun check_segment_members :: "ir_prog \<Rightarrow> nat option list \<Rightarrow> (bool \<times> warning list) option" where
  "check_segment_members p [] = Some (True, [])"
| "check_segment_members p (None # ms) = None"
| "check_segment_members p (Some entity # ms) =
     (case check_segment_members p ms of
        None \<Rightarrow> None
      | Some rest \<Rightarrow>
          Some (and_then
                  (report_if (entity_ld_ident (prog_entity p entity) = None \<and>
                              entity_visibility (prog_entity p entity) \<noteq> ir_visibility_private)
                     ''public segment member %+F has no name'' [arg_entity entity])
                  rest))"

fun check_segments :: "ir_prog \<Rightarrow> ir_segment list \<Rightarrow> (bool \<times> warning list) option" where
  "check_segments p [] = Some (True, [])"
| "check_segments p (s # ss) =
     (case check_segment_members p (compound_members (prog_type p (prog_segment_type p s))) of
        None \<Rightarrow> None
      | Some r \<Rightarrow>
          (case check_segments p ss of
             None \<Rightarrow> None
           | Some rest \<Rightarrow> Some (and_then r rest)))"

fun check_structors :: "ir_prog \<Rightarrow> string \<Rightarrow> string \<Rightarrow> nat option list \<Rightarrow> (bool \<times> warning list) option" where
  "check_structors p fmt1 fmt2 [] = Some (True, [])"
| "check_structors p fmt1 fmt2 (None # ms) = None"
| "check_structors p fmt1 fmt2 (Some entity # ms) =
     (case check_structors p fmt1 fmt2 ms of
        None \<Rightarrow> None
      | Some rest \<Rightarrow>
          Some (and_then
                  (and_then
                     (report_if (IR_LINKAGE_HIDDEN_USER \<notin> entity_linkage (prog_entity p entity))
                        fmt1 [arg_entity entity])
                     (report_if (entity_ld_name (prog_entity p entity) \<noteq> [])
                        fmt2 [arg_entity entity]))
                  rest))"

fun check_thread_locals :: "ir_prog \<Rightarrow> nat option list \<Rightarrow> (bool \<times> warning list) option" where
  "check_thread_locals p [] = Some (True, [])"
| "check_thread_locals p (None # ms) = None"
| "check_thread_locals p (Some entity # ms) =
     (case check_thread_locals p ms of
        None \<Rightarrow> None
      | Some rest \<Rightarrow>
          Some (and_then
                  (and_then
                     (report_if (is_method_entity p entity)
                        ''method %+F in thread local segment'' [])
                     (report_if (IR_LINKAGE_CONSTANT \<in> entity_linkage (prog_entity p entity))
                        ''entity %+F in thread local segment is constant'' []))
                  rest))"

definition tr_verify :: "ir_prog \<Rightarrow> (bool \<times> warning list) option" where
  "tr_verify p =
     (case type_walk p (prog_type_walk p) (True, []) of
        None \<Rightarrow> None
      | Some r0 \<Rightarrow>
     (case check_segments p
             [IR_SEGMENT_GLOBAL, IR_SEGMENT_THREAD_LOCAL, IR_SEGMENT_CONSTRUCTORS,
              IR_SEGMENT_DESTRUCTORS, IR_SEGMENT_JCR] of
        None \<Rightarrow> None
      | Some r1 \<Rightarrow>
     (case check_structors p
             ''entity %+F in constructors without LINKAGE_HIDDEN_USER''
             ''entity %+F in constructors must not have an ld_name''
             (compound_members (prog_type p (prog_segment_type p IR_SEGMENT_CONSTRUCTORS))) of
        None \<Rightarrow> None
      | Some r2 \<Rightarrow>
     (case check_structors p
             ''entity %+F in destructors without LINKAGE_HIDDEN_USER''
             ''entity %+F in destructors must not have an ld_name''
             (compound_members (prog_type p (prog_segment_type p IR_SEGMENT_DESTRUCTORS))) of
        None \<Rightarrow> None
      | Some r3 \<Rightarrow>
     (case check_thread_locals p
             (compound_members (prog_type p (prog_segment_type p IR_SEGMENT_THREAD_LOCAL))) of
        None \<Rightarrow> None
      | Some r4 \<Rightarrow> Some (and_then r0 (and_then r1 (and_then r2 (and_then r3 r4)))))))))"

text \<open>
  Example programs for the verifier. Types 0 to 4 are the segment types (global,
  thread-local, constructors, destructors, JCR), type 5 is the primitive type of mode
  \<open>Iu\<close>, type 6 the code type and type 7 an array of type 5 with both bounds. Entity 0 is
  the only member of the global segment: a defined variable \<open>x\<close> of type \<open>ty\<close> with the
  linkage, visibility and initializer given.
\<close>

definition example_segment_type :: "nat option list \<Rightarrow> ir_type" where
  "example_segment_type ms =
     \<lparr>type_tpop_code = tpo_struct, type_mode = None, compound_members = ms,
      class_n_supertypes = 0, array_bounds = [], array_element_type = 0,
      type_is_segment = True, type_is_frame = False\<rparr>"

definition example_types :: "nat \<Rightarrow> ir_type" where
  "example_types =
     (\<lambda>n. example_segment_type [])
     (0 := example_segment_type [Some 0],
      5 := \<lparr>type_tpop_code = tpo_primitive, type_mode = Some mode_Iu, compound_members = [],
             class_n_supertypes = 0, array_bounds = [], array_element_type = 0,
             type_is_segment = False, type_is_frame = False\<rparr>,
      6 := \<lparr>type_tpop_code = tpo_code, type_mode = None, compound_members = [],
             class_n_supertypes = 0, array_bounds = [], array_element_type = 0,
             type_is_segment = False, type_is_frame = False\<rparr>,
      7 := \<lparr>type_tpop_code = tpo_array, type_mode = None, compound_members = [],
             class_n_supertypes = 0, array_bounds = [(True, True)], array_element_type = 5,
             type_is_segment = False, type_is_frame = False\<rparr>)"

definition example_variable ::
  "nat \<Rightarrow> ir_linkage set \<Rightarrow> ir_visibility \<Rightarrow> ir_initializer option \<Rightarrow> ir_entity" where
  "example_variable ty linkage visibility initializer =
     \<lparr>entity_owner = 0, entity_type = ty, entity_initializer = initializer,
      entity_linkage = linkage, entity_visibility = visibility,
      entity_kind = IR_ENTITY_NORMAL, entity_irg = None, entity_n_overwrites = 0,
      entity_ld_ident = Some ''x'', entity_ld_name = ''x'',
      entity_peculiarity = peculiarity_description, entity_impl = None,
      entity_has_definition = True\<rparr>"

definition example_prog :: "ir_entity \<Rightarrow> ir_prog" where
  "example_prog x =
     \<lparr>prog_type = example_types,
      prog_entity = (\<lambda>n. x),
      prog_type_walk = [a_type 0, a_type 1, a_type 2, a_type 3, a_type 4, a_type 5, a_type 6,
                        a_type 7, an_entity 0],
      prog_segment_type = (\<lambda>s. case s of IR_SEGMENT_GLOBAL \<Rightarrow> 0
                            | IR_SEGMENT_THREAD_LOCAL \<Rightarrow> 1 | IR_SEGMENT_CONSTRUCTORS \<Rightarrow> 2
                            | IR_SEGMENT_DESTRUCTORS \<Rightarrow> 3 | IR_SEGMENT_JCR \<Rightarrow> 4),
      prog_code_type = 6,
      prog_const_code_irg = example_graph,
      prog_in_irgs_storage = (\<lambda>n. True),
      prog_irg_entity = (\<lambda>g. 0)\<rparr>"

subsection \<open>Double-word lowering: method types\<close>

text \<open>
  Modelled from the spec: the types of the lowering (section 3, ``Type \<open>&\<close> Entity'', and
  section 4.2, ``Method-type lowering''). \<^verbatim>\<open>type.c\<close> of this version of the library is not
  part of the sources at hand; the records have one field per accessor that
  \<^verbatim>\<open>lower_mtp\<close> and its callers use. A method type has its parameter and result slots
  (\<open>NULL\<close> until set), the parameter names, the type of its value parameters once that
  was built, the flag \<open>lowered\<close> and the associated type that \<^verbatim>\<open>set_lowered_type\<close>
  records. The file-level variables \<^verbatim>\<open>lowered_type\<close> (the map from a method type to its
  lowered type), \<^verbatim>\<open>tp_u\<close> and \<^verbatim>\<open>tp_s\<close> are fields of the type environment, together
  with the two name suffixes of the lowering environment.
\<close>

record lw_type =
  tp_op :: tp_opcode
  tp_mode :: "ir_mode option"
  tp_params :: "nat option list"
  tp_ress :: "nat option list"
  tp_param_idents :: "string option list"
  tp_value_params :: "nat option"
  tp_members :: "nat list"
  tp_lowered :: bool
  tp_assoc :: "nat option"

record lw_entity =
  ent_ident :: "string option"
  ent_type :: "nat option"
  ent_link :: "nat option"

record type_env =
  te_type :: "nat \<Rightarrow> lw_type"
  te_n_types :: nat
  te_entity :: "nat \<Rightarrow> lw_entity"
  te_n_entities :: nat
  lowered_type :: "nat \<Rightarrow> nat option"
  tp_u :: nat
  tp_s :: nat
  first_id :: string
  next_id :: string

definition is_lowered_type :: "type_env \<Rightarrow> nat \<Rightarrow> bool" where
  "is_lowered_type te tp = tp_lowered (te_type te tp)"

definition is_Primitive_type :: "type_env \<Rightarrow> nat \<Rightarrow> bool" where
  "is_Primitive_type te tp = (tp_op (te_type te tp) = tpo_primitive)"

definition get_type_mode :: "type_env \<Rightarrow> nat \<Rightarrow> ir_mode option" where
  "get_type_mode te tp = tp_mode (te_type te tp)"

definition get_method_n_params :: "type_env \<Rightarrow> nat \<Rightarrow> nat" where
  "get_method_n_params te mtp = length (tp_params (te_type te mtp))"

definition get_method_n_ress :: "type_env \<Rightarrow> nat \<Rightarrow> nat" where
  "get_method_n_ress te mtp = length (tp_ress (te_type te mtp))"

definition update_type :: "type_env \<Rightarrow> nat \<Rightarrow> (lw_type \<Rightarrow> lw_type) \<Rightarrow> type_env" where
  "update_type te tp f = te\<lparr>te_type := (te_type te)(tp := f (te_type te tp))\<rparr>"

definition update_entity :: "type_env \<Rightarrow> nat \<Rightarrow> (lw_entity \<Rightarrow> lw_entity) \<Rightarrow> type_env" where
  "update_entity te e f = te\<lparr>te_entity := (te_entity te)(e := f (te_entity te e))\<rparr>"

definition new_type_method :: "type_env \<Rightarrow> nat \<Rightarrow> nat \<Rightarrow> nat \<times> type_env" where
  "new_type_method te n_param n_res =
     (te_n_types te,
      te\<lparr>te_type := (te_type te)(te_n_types te :=
            \<lparr>tp_op = tpo_method, tp_mode = None, tp_params = replicate n_param None,
             tp_ress = replicate n_res None, tp_param_idents = replicate n_param None,
             tp_value_params = None, tp_members = [], tp_lowered = False, tp_assoc = None\<rparr>),
         te_n_types := Suc (te_n_types te)\<rparr>)"

text \<open>
  \<^verbatim>\<open>set_method_param_type\<close> also sets the type of the value-parameter entity when the
  value parameters were built already. A position outside the slots is an error.
\<close>

definition set_method_param_type :: "type_env \<Rightarrow> nat \<Rightarrow> nat \<Rightarrow> nat \<Rightarrow> type_env option" where
  "set_method_param_type te method pos tp =
     (if pos < length (tp_params (te_type te method)) then
        (let te = update_type te method (\<lambda>t. t\<lparr>tp_params := (tp_params t)[pos := Some tp]\<rparr>)
         in case tp_value_params (te_type te method) of
              None \<Rightarrow> Some te
            | Some vt \<Rightarrow>
                if pos < length (tp_members (te_type te vt))
                then Some (update_entity te (tp_members (te_type te vt) ! pos)
                             (\<lambda>e. e\<lparr>ent_type := Some tp\<rparr>))
                else None)
      else None)"

definition set_method_res_type :: "type_env \<Rightarrow> nat \<Rightarrow> nat \<Rightarrow> nat \<Rightarrow> type_env option" where
  "set_method_res_type te method pos tp =
     (if pos < length (tp_ress (te_type te method))
      then Some (update_type te method (\<lambda>t. t\<lparr>tp_ress := (tp_ress t)[pos := Some tp]\<rparr>))
      else None)"

definition set_lowered_type :: "type_env \<Rightarrow> nat \<Rightarrow> nat \<Rightarrow> type_env" where
  "set_lowered_type te tp lowered =
     (let te = update_type te lowered (\<lambda>t. t\<lparr>tp_lowered := True\<rparr>);
          te = update_type te tp (\<lambda>t. t\<lparr>tp_assoc := Some lowered\<rparr>)
      in update_type te lowered (\<lambda>t. t\<lparr>tp_assoc := Some tp\<rparr>))"

definition pmap_insert :: "type_env \<Rightarrow> nat \<Rightarrow> nat \<Rightarrow> type_env" where
  "pmap_insert te key v = te\<lparr>lowered_type := (lowered_type te)(key := Some v)\<rparr>"

definition get_method_value_param_type :: "type_env \<Rightarrow> nat \<Rightarrow> nat option" where
  "get_method_value_param_type te mtp = tp_value_params (te_type te mtp)"

text \<open>
  \<^verbatim>\<open>build_value_type\<close>: a new struct type with one new entity per parameter, named after
  the parameter and of the parameter's type (the struct type itself while that slot is
  \<open>NULL\<close>).
\<close>

fun build_value_entities ::
  "type_env \<Rightarrow> nat \<Rightarrow> (nat option \<times> string option) list \<Rightarrow> nat list \<times> type_env" where
  "build_value_entities te vt [] = ([], te)"
| "build_value_entities te vt ((tp, ident) # ps) =
     (let e = te_n_entities te;
          te = te\<lparr>te_entity := (te_entity te)(e :=
                    \<lparr>ent_ident = ident,
                     ent_type = Some (case tp of None \<Rightarrow> vt | Some t \<Rightarrow> t),
                     ent_link = None\<rparr>),
                  te_n_entities := Suc e\<rparr>;
          (es, te) = build_value_entities te vt ps
      in (e # es, te))"

definition build_value_type :: "type_env \<Rightarrow> nat \<Rightarrow> nat \<times> type_env" where
  "build_value_type te method =
     (let vt = te_n_types te;
          te = te\<lparr>te_n_types := Suc vt\<rparr>;
          (es, te) = build_value_entities te vt
                       (zip (tp_params (te_type te method)) (tp_param_idents (te_type te method)));
          te = te\<lparr>te_type := (te_type te)(vt :=
                    \<lparr>tp_op = tpo_struct, tp_mode = None, tp_params = [], tp_ress = [],
                     tp_param_idents = [], tp_value_params = None, tp_members = es,
                     tp_lowered = False, tp_assoc = None\<rparr>)\<rparr>
      in (vt, te))"

text \<open>
  \<^verbatim>\<open>get_method_value_param_ent\<close> builds the value-parameter type of the method when it
  does not exist yet and returns the entity at the position, which must exist.
\<close>

definition get_method_value_param_ent :: "type_env \<Rightarrow> nat \<Rightarrow> nat \<Rightarrow> (nat \<times> type_env) option" where
  "get_method_value_param_ent te method pos =
     (let (vt, te) = (case tp_value_params (te_type te method) of
                        Some vt \<Rightarrow> (vt, te)
                      | None \<Rightarrow>
                          (let (vt, te) = build_value_type te method
                           in (vt, update_type te method (\<lambda>t. t\<lparr>tp_value_params := Some vt\<rparr>))))
      in if pos < length (tp_members (te_type te vt))
         then Some (tp_members (te_type te vt) ! pos, te)
         else None)"

definition set_method_param_ident :: "type_env \<Rightarrow> nat \<Rightarrow> nat \<Rightarrow> string \<Rightarrow> type_env option" where
  "set_method_param_ident te method pos ident =
     (if pos < length (tp_param_idents (te_type te method))
      then Some (update_type te method
                   (\<lambda>t. t\<lparr>tp_param_idents := (tp_param_idents t)[pos := Some ident]\<rparr>))
      else None)"

definition set_entity_ident :: "type_env \<Rightarrow> nat \<Rightarrow> string \<Rightarrow> type_env" where
  "set_entity_ident te e ident = update_entity te e (\<lambda>x. x\<lparr>ent_ident := Some ident\<rparr>)"

definition set_entity_link :: "type_env \<Rightarrow> nat \<Rightarrow> nat \<Rightarrow> type_env" where
  "set_entity_link te e l = update_entity te e (\<lambda>x. x\<lparr>ent_link := Some l\<rparr>)"

definition id_mangle :: "string \<Rightarrow> string \<Rightarrow> string" where
  "id_mangle first scnd = first @ scnd"

text \<open>
  The test \<^verbatim>\<open>is_Primitive_type(tp)\<close> with a mode \<^verbatim>\<open>env->high_signed\<close> or
  \<^verbatim>\<open>env->high_unsigned\<close>, which \<^verbatim>\<open>lower_mtp\<close> and \<^verbatim>\<open>mtp_must_be_lowered\<close> apply to
  parameter and result types.
\<close>

definition is_high_primitive :: "lower_env \<Rightarrow> type_env \<Rightarrow> nat \<Rightarrow> bool" where
  "is_high_primitive env te tp =
     (is_Primitive_type te tp \<and>
      (get_type_mode te tp = Some (high_signed env) \<or>
       get_type_mode te tp = Some (high_unsigned env)))"

text \<open>
  The loops ``count new number of params'' and ``count new number of results'': the
  number of slots of double-word type. A \<open>NULL\<close> slot is dereferenced.
\<close>

fun count_high :: "lower_env \<Rightarrow> type_env \<Rightarrow> nat option list \<Rightarrow> nat option" where
  "count_high env te [] = Some 0"
| "count_high env te (None # tps) = None"
| "count_high env te (Some tp # tps) =
     (case count_high env te tps of
        None \<Rightarrow> None
      | Some c \<Rightarrow> Some (if is_high_primitive env te tp then Suc c else c))"

text \<open>The loop ``set param types'': \<open>n_param\<close> is the next free slot of \<open>res\<close>.\<close>

fun lower_mtp_params ::
  "lower_env \<Rightarrow> type_env \<Rightarrow> nat \<Rightarrow> nat \<Rightarrow> nat option list \<Rightarrow> type_env option" where
  "lower_mtp_params env te res n_param [] = Some te"
| "lower_mtp_params env te res n_param (None # tps) = None"
| "lower_mtp_params env te res n_param (Some tp # tps) =
     (if is_Primitive_type te tp \<and> get_type_mode te tp = Some (high_signed env) then
        (case set_method_param_type te res n_param (tp_u te) of
           None \<Rightarrow> None
         | Some te \<Rightarrow>
             (case set_method_param_type te res (n_param + 1) (tp_s te) of
                None \<Rightarrow> None
              | Some te \<Rightarrow> lower_mtp_params env te res (n_param + 2) tps))
      else if is_Primitive_type te tp \<and> get_type_mode te tp = Some (high_unsigned env) then
        (case set_method_param_type te res n_param (tp_u te) of
           None \<Rightarrow> None
         | Some te \<Rightarrow>
             (case set_method_param_type te res (n_param + 1) (tp_u te) of
                None \<Rightarrow> None
              | Some te \<Rightarrow> lower_mtp_params env te res (n_param + 2) tps))
      else
        (case set_method_param_type te res n_param tp of
           None \<Rightarrow> None
         | Some te \<Rightarrow> lower_mtp_params env te res (n_param + 1) tps))"

text \<open>The loop ``set result types''.\<close>

fun lower_mtp_ress ::
  "lower_env \<Rightarrow> type_env \<Rightarrow> nat \<Rightarrow> nat \<Rightarrow> nat option list \<Rightarrow> type_env option" where
  "lower_mtp_ress env te res n_res [] = Some te"
| "lower_mtp_ress env te res n_res (None # tps) = None"
| "lower_mtp_ress env te res n_res (Some tp # tps) =
     (if is_Primitive_type te tp \<and> get_type_mode te tp = Some (high_signed env) then
        (case set_method_res_type te res n_res (tp_u te) of
           None \<Rightarrow> None
         | Some te \<Rightarrow>
             (case set_method_res_type te res (n_res + 1) (tp_s te) of
                None \<Rightarrow> None
              | Some te \<Rightarrow> lower_mtp_ress env te res (n_res + 2) tps))
      else if is_Primitive_type te tp \<and> get_type_mode te tp = Some (high_unsigned env) then
        (case set_method_res_type te res n_res (tp_u te) of
           None \<Rightarrow> None
         | Some te \<Rightarrow>
             (case set_method_res_type te res (n_res + 1) (tp_u te) of
                None \<Rightarrow> None
              | Some te \<Rightarrow> lower_mtp_ress env te res (n_res + 2) tps))
      else
        (case set_method_res_type te res n_res tp of
           None \<Rightarrow> None
         | Some te \<Rightarrow> lower_mtp_ress env te res (n_res + 1) tps))"

text \<open>
  Naming one parameter of \<open>res\<close> and its value-parameter entity:
  \<^verbatim>\<open>set_method_param_ident(res, n, id); set_entity_ident(get_method_value_param_ent(res, n), id);\<close>
\<close>

definition name_value_param :: "type_env \<Rightarrow> nat \<Rightarrow> nat \<Rightarrow> string \<Rightarrow> type_env option" where
  "name_value_param te res n ident =
     (case set_method_param_ident te res n ident of
        None \<Rightarrow> None
      | Some te \<Rightarrow>
          (case get_method_value_param_ent te res n of
             None \<Rightarrow> None
           | Some (e, te) \<Rightarrow> Some (set_entity_ident te e ident)))"

text \<open>The loop ``set new param positions''; \<open>i\<close> is the position in \<open>mtp\<close>.\<close>

fun lower_mtp_value_params ::
  "lower_env \<Rightarrow> type_env \<Rightarrow> nat \<Rightarrow> nat \<Rightarrow> nat \<Rightarrow> nat \<Rightarrow> nat option list \<Rightarrow> type_env option" where
  "lower_mtp_value_params env te mtp res i n_param [] = Some te"
| "lower_mtp_value_params env te mtp res i n_param (None # tps) = None"
| "lower_mtp_value_params env te mtp res i n_param (Some tp # tps) =
     (let ident = (if i < length (tp_param_idents (te_type te mtp))
                   then tp_param_idents (te_type te mtp) ! i else None)
      in case get_method_value_param_ent te mtp i of
           None \<Rightarrow> None
         | Some (ent, te) \<Rightarrow>
             (let te = set_entity_link te ent n_param
              in if is_high_primitive env te tp then
                   (case ident of
                      None \<Rightarrow> lower_mtp_value_params env te mtp res (Suc i) (n_param + 2) tps
                    | Some idn \<Rightarrow>
                        (case name_value_param te res n_param (id_mangle idn (first_id te)) of
                           None \<Rightarrow> None
                         | Some te \<Rightarrow>
                             (case name_value_param te res (n_param + 1)
                                     (id_mangle idn (next_id te)) of
                                None \<Rightarrow> None
                              | Some te \<Rightarrow>
                                  lower_mtp_value_params env te mtp res (Suc i) (n_param + 2) tps)))
                 else
                   (case ident of
                      None \<Rightarrow> lower_mtp_value_params env te mtp res (Suc i) (n_param + 1) tps
                    | Some idn \<Rightarrow>
                        (case name_value_param te res n_param idn of
                           None \<Rightarrow> None
                         | Some te \<Rightarrow>
                             lower_mtp_value_params env te mtp res (Suc i) (n_param + 1) tps))))"

text \<open>
  \<^verbatim>\<open>lower_mtp\<close>: a type marked lowered is returned as it is; a type found in the map
  \<^verbatim>\<open>lowered_type\<close> gives the type stored there; otherwise the lowered type is built,
  marked and stored.
\<close>

definition lower_mtp :: "lower_env \<Rightarrow> type_env \<Rightarrow> nat \<Rightarrow> (nat \<times> type_env) option" where
  "lower_mtp env te mtp =
     (if is_lowered_type te mtp then Some (mtp, te)
      else
        (case lowered_type te mtp of
           Some res \<Rightarrow> Some (res, te)
         | None \<Rightarrow>
             (let params = tp_params (te_type te mtp);
                  ress = tp_ress (te_type te mtp)
              in case (count_high env te (rev params), count_high env te (rev ress)) of
                   (Some cp, Some cr) \<Rightarrow>
                     (let (res, te) = new_type_method te (length params + cp) (length ress + cr)
                      in case lower_mtp_params env te res 0 params of
                           None \<Rightarrow> None
                         | Some te \<Rightarrow>
                             (case lower_mtp_ress env te res 0 ress of
                                None \<Rightarrow> None
                              | Some te \<Rightarrow>
                                  (let te = set_lowered_type te mtp res;
                                       te = pmap_insert te mtp res
                                   in case get_method_value_param_type te mtp of
                                        None \<Rightarrow> Some (res, te)
                                      | Some value_type \<Rightarrow>
                                          (case get_method_value_param_ent te res 0 of
                                             None \<Rightarrow> None
                                           | Some (e0, te) \<Rightarrow>
                                               (case lower_mtp_value_params env te mtp res 0 0 params of
                                                  None \<Rightarrow> None
                                                | Some te \<Rightarrow>
                                                    (case get_method_value_param_type te res of
                                                       None \<Rightarrow> None
                                                     | Some vt \<Rightarrow>
                                                         Some (res, set_lowered_type te value_type vt)))))))
                 | _ \<Rightarrow> None)))"

text \<open>
  \<^verbatim>\<open>mtp_must_be_lowered\<close>: whether a parameter has a double-word type. The loop returns
  at the first such parameter.
\<close>

fun has_high_param :: "lower_env \<Rightarrow> type_env \<Rightarrow> nat option list \<Rightarrow> bool option" where
  "has_high_param env te [] = Some False"
| "has_high_param env te (None # tps) = None"
| "has_high_param env te (Some tp # tps) =
     (if is_high_primitive env te tp then Some True else has_high_param env te tps)"

definition mtp_must_be_lowered :: "lower_env \<Rightarrow> type_env \<Rightarrow> nat \<Rightarrow> bool option" where
  "mtp_must_be_lowered env te mtp = has_high_param env te (tp_params (te_type te mtp))"

subsection \<open>Double-word lowering: preparing a graph\<close>

text \<open>
  The state of the pass: the lowering environment with the graph at hand, and the
  types. \<^verbatim>\<open>get_irn_op_mode\<close> is the ``operational'' mode of a node; the positions of the
  inputs it reads are those of the node headers (Store: memory, address, value; Div, Mod
  and DivMod: memory, left, right; Cmp: left, right).
\<close>

type_synonym lower_state = "lower_env \<times> type_env"

definition is_Mux :: "ir_graph \<Rightarrow> nat \<Rightarrow> bool" where
  "is_Mux g n = (get_irn_op g n = iro_Mux)"

definition is_Conv :: "ir_graph \<Rightarrow> nat \<Rightarrow> bool" where
  "is_Conv g n = (get_irn_op g n = iro_Conv)"

definition is_Rotl :: "ir_graph \<Rightarrow> nat \<Rightarrow> bool" where
  "is_Rotl g n = (get_irn_op g n = iro_Rotl)"

definition get_irn_op_mode :: "ir_graph \<Rightarrow> nat \<Rightarrow> ir_mode option" where
  "get_irn_op_mode g node =
     (case get_irn_op g node of
        iro_Load \<Rightarrow> (case irn_attr (irg_node g node) of attr_load m \<Rightarrow> Some m | _ \<Rightarrow> None)
      | iro_Store \<Rightarrow> map_option (get_irn_mode g) (get_irn_n g node 2)
      | iro_DivMod \<Rightarrow> map_option (get_irn_mode g) (get_irn_n g node 1)
      | iro_Div \<Rightarrow> map_option (get_irn_mode g) (get_irn_n g node 1)
      | iro_Mod \<Rightarrow> map_option (get_irn_mode g) (get_irn_n g node 1)
      | iro_Cmp \<Rightarrow> map_option (get_irn_mode g) (get_irn_n g node 0)
      | _ \<Rightarrow> Some (get_irn_mode g node))"

definition add_Block_phi :: "ir_graph \<Rightarrow> nat \<Rightarrow> nat \<Rightarrow> ir_graph" where
  "add_Block_phi g block phi =
     g\<lparr>irg_block_phis := (irg_block_phis g)(block := phi # irg_block_phis g block)\<rparr>"

text \<open>
  The second half of \<^verbatim>\<open>prepare_links\<close>: a Proj is put in front of the Proj chain of its
  predecessor, a Phi on the Phi list of its Block, and for a Block every control-flow
  predecessor that is a Proj is entered in \<^verbatim>\<open>proj_2_block\<close>.
\<close>

definition prepare_links_chain :: "lower_env \<Rightarrow> nat \<Rightarrow> lower_env option" where
  "prepare_links_chain env node =
     (let g = lenv_irg env in
      if is_Proj g node then
        (case get_irn_n g node 0 of
           None \<Rightarrow> None
         | Some pred \<Rightarrow>
             Some (env\<lparr>lenv_irg :=
                     set_irn_link (set_irn_link g node (get_irn_link g pred)) pred (Some node)\<rparr>))
      else if is_Phi g node then
        (case get_nodes_block g node of
           None \<Rightarrow> None
         | Some block \<Rightarrow> Some (env\<lparr>lenv_irg := add_Block_phi g block node\<rparr>))
      else if is_Block g node then
        Some (env\<lparr>proj_2_block :=
                fold (\<lambda>pred m. if is_Proj g pred then m(pred := Some node) else m)
                  (rev (irn_in (irg_node g node))) (proj_2_block env)\<rparr>)
      else Some env)"

text \<open>
  \<^verbatim>\<open>prepare_links\<close>: a node of double-word operational mode gets an empty pair and sets
  \<^verbatim>\<open>MUST_BE_LOWERED\<close>; the array of pairs is enlarged to \<open>idx + (idx >> 3)\<close> entries when
  the index lies outside, and a write that is still outside is an error. A Conv from a
  double-word value sets the flag only.
\<close>

definition prepare_links :: "lower_env \<Rightarrow> nat \<Rightarrow> lower_env option" where
  "prepare_links env node =
     (let g = lenv_irg env in
      case get_irn_op_mode g node of
        None \<Rightarrow> None
      | Some mode \<Rightarrow>
          if is_high_mode env mode then
            (let env = (if node \<ge> n_entries env
                        then env\<lparr>n_entries := node + drop_bit 3 node\<rparr> else env)
             in if node \<ge> n_entries env then None
                else prepare_links_chain
                       (env\<lparr>entries := (entries env)
                                (node := Some \<lparr>low_word = None, high_word = None\<rparr>),
                            flag_must_be_lowered := True\<rparr>)
                       node)
          else if is_Conv g node then
            (case get_irn_n g node 0 of
               None \<Rightarrow> None
             | Some pred \<Rightarrow>
                 Some (if is_high_mode env (get_irn_mode g pred)
                       then env\<lparr>flag_must_be_lowered := True\<rparr> else env))
          else prepare_links_chain env node)"

definition new_rd_Sub :: "lower_env \<Rightarrow> nat \<Rightarrow> nat \<Rightarrow> nat \<Rightarrow> ir_mode \<Rightarrow> nat \<times> lower_env" where
  "new_rd_Sub env block left right m =
     env_new_node env iro_Sub m (Some block) [left, right] attr_none"

definition new_rd_Shr :: "lower_env \<Rightarrow> nat \<Rightarrow> nat \<Rightarrow> nat \<Rightarrow> ir_mode \<Rightarrow> nat \<times> lower_env" where
  "new_rd_Shr env block left right m =
     env_new_node env iro_Shr m (Some block) [left, right] attr_none"

definition new_rd_And :: "lower_env \<Rightarrow> nat \<Rightarrow> nat \<Rightarrow> nat \<Rightarrow> ir_mode \<Rightarrow> nat \<times> lower_env" where
  "new_rd_And env block left right m =
     env_new_node env iro_And m (Some block) [left, right] attr_none"

text \<open>
  \<^verbatim>\<open>prepare_links_and_handle_rotl\<close>, the callback of the first walk. A double-word Rotl
  is replaced by \<open>Or(Shl(x, y), Shr(x, size - y))\<close> and the new nodes are prepared, unless
  its count is the Const equal to the size of its mode: that Rotl is left alone, and
  not prepared either. Any other node is prepared.
\<close>

definition prepare_links_and_handle_rotl :: "nat \<Rightarrow> lower_state \<Rightarrow> lower_state option" where
  "prepare_links_and_handle_rotl node st =
     (let (env, te) = st; g = lenv_irg env in
      if is_Rotl g node then
        (case get_irn_op_mode g node of
           None \<Rightarrow> None
         | Some mode \<Rightarrow>
             if is_high_mode env mode then
               (case (get_irn_n g node 0, get_irn_n g node 1, get_nodes_block g node) of
                  (Some left, Some right, Some block) \<Rightarrow>
                    if get_mode_arithmetic mode = irma_twos_complement \<and> is_Const g right \<and>
                       (case get_Const_tarval g right of
                          None \<Rightarrow> False
                        | Some tv \<Rightarrow> tarval_is_long tv \<and>
                                     get_tarval_long tv = int (get_mode_size_bits mode))
                    then Some st
                    else
                      (let omode = get_irn_mode g node;
                           (shl, env) = new_r_Shl env block left right omode;
                           rmode = get_irn_mode g right;
                           (c, env) = new_r_Const_long env rmode (int (get_mode_size_bits omode));
                           (sub, env) = new_rd_Sub env block c right rmode;
                           (shr, env) = new_rd_Shr env block left sub omode;
                           (or_node, env) = new_rd_Or env block shl shr omode;
                           env = env_update_graph env (\<lambda>g. exchange g node or_node)
                       in case prepare_links env shl of None \<Rightarrow> None | Some env \<Rightarrow>
                         (case prepare_links env c of None \<Rightarrow> None | Some env \<Rightarrow>
                         (case prepare_links env sub of None \<Rightarrow> None | Some env \<Rightarrow>
                         (case prepare_links env shr of None \<Rightarrow> None | Some env \<Rightarrow>
                         (case prepare_links env or_node of None \<Rightarrow> None | Some env \<Rightarrow>
                            Some (env, te))))))
                | _ \<Rightarrow> None)
             else Some st)
      else (case prepare_links env node of None \<Rightarrow> None | Some env \<Rightarrow> Some (env, te)))"

text \<open>
  Modelled from the spec: \<^verbatim>\<open>firm_clear_node_and_phi_links\<close>, the callback that runs
  before a node's inputs are walked (section 4.2, ``Prepare''); it is not part of the
  sources at hand. It clears the link of the node and the Phi list of a Block.
\<close>

definition firm_clear_node_and_phi_links :: "nat \<Rightarrow> lower_state \<Rightarrow> lower_state option" where
  "firm_clear_node_and_phi_links node st =
     (let (env, te) = st; g = set_irn_link (lenv_irg env) node None
      in Some (env\<lparr>lenv_irg := (if is_Block g node
                                then g\<lparr>irg_block_phis := (irg_block_phis g)(node := [])\<rparr>
                                else g)\<rparr>, te))"

text \<open>
  Modelled from the spec: the graph walk with a callback before and a callback after the
  inputs of a node (section 4.1, ``Graph walk (pre/post callbacks) starting from End'');
  the walker is not part of the sources at hand. A walk raises the visited counter of
  the graph; a node is entered when its visited mark is below the counter and is marked
  at once; then come the first callback, the Block of the node, its inputs from the
  last to the first, and the second callback. The fuel bounds the depth of the walk.
\<close>

definition irn_not_visited :: "lower_state \<Rightarrow> nat \<Rightarrow> bool" where
  "irn_not_visited st n =
     (irn_visited (irg_node (lenv_irg (fst st)) n) < irg_visited (lenv_irg (fst st)))"

definition mark_visited_state :: "lower_state \<Rightarrow> nat \<Rightarrow> lower_state" where
  "mark_visited_state st n = (env_update_graph (fst st) (\<lambda>g. mark_irn_visited g n), snd st)"

definition walk_positions :: "lower_state \<Rightarrow> nat \<Rightarrow> int list" where
  "walk_positions st n =
     (let g = lenv_irg (fst st)
      in (if is_Block g n then [] else [-1]) @ rev (map int [0..<get_irn_arity g n]))"

function irg_walk_2 ::
    "nat \<Rightarrow> (nat \<Rightarrow> lower_state \<Rightarrow> lower_state option) \<Rightarrow> (nat \<Rightarrow> lower_state \<Rightarrow> lower_state option) \<Rightarrow>
       nat \<Rightarrow> lower_state \<Rightarrow> lower_state option"
  and irg_walk_preds ::
    "nat \<Rightarrow> (nat \<Rightarrow> lower_state \<Rightarrow> lower_state option) \<Rightarrow> (nat \<Rightarrow> lower_state \<Rightarrow> lower_state option) \<Rightarrow>
       nat \<Rightarrow> int list \<Rightarrow> lower_state \<Rightarrow> lower_state option"
where
  "irg_walk_2 0 pre post node st = None"
| "irg_walk_2 (Suc fuel) pre post node st =
     (case pre node (mark_visited_state st node) of
        None \<Rightarrow> None
      | Some st \<Rightarrow>
          (case irg_walk_preds fuel pre post node (walk_positions st node) st of
             None \<Rightarrow> None
           | Some st \<Rightarrow> post node st))"
| "irg_walk_preds fuel pre post node [] st = Some st"
| "irg_walk_preds fuel pre post node (pos # poss) st =
     (case get_irn_n (lenv_irg (fst st)) node pos of
        None \<Rightarrow> None
      | Some pred \<Rightarrow>
          (case (if irn_not_visited st pred then irg_walk_2 fuel pre post pred st else Some st) of
             None \<Rightarrow> None
           | Some st \<Rightarrow> irg_walk_preds fuel pre post node poss st))"
  by pat_completeness auto

termination
  by (relation "inv_image (less_than <*lex*> less_than)
        (\<lambda>x. case x of
                Inl (fuel, pre, post, node, st) \<Rightarrow> (fuel, 0)
              | Inr (fuel, pre, post, node, poss, st) \<Rightarrow> (fuel, Suc (length poss)))")
     auto

definition irg_walk_graph ::
  "nat \<Rightarrow> (nat \<Rightarrow> lower_state \<Rightarrow> lower_state option) \<Rightarrow> (nat \<Rightarrow> lower_state \<Rightarrow> lower_state option) \<Rightarrow>
     lower_state \<Rightarrow> lower_state option" where
  "irg_walk_graph fuel pre post st =
     (let st = (env_update_graph (fst st) (\<lambda>g. g\<lparr>irg_visited := Suc (irg_visited g)\<rparr>), snd st)
      in irg_walk_2 fuel pre post (irg_end (lenv_irg (fst st))) st)"

subsection \<open>Double-word lowering: lowering a node\<close>

text \<open>
  Modelled from the spec: two more tarval helpers (section 2, ``bit-width conversion''),
  \<^verbatim>\<open>tv.c\<close> being outside the sources at hand. \<^verbatim>\<open>tarval_convert_to\<close> between integer modes
  reduces the value into the range of the new mode; \<^verbatim>\<open>tarval_shrs\<close> shifts the value,
  read as a signed number of the width of its mode, to the right.
\<close>

definition tarval_convert_to :: "tarval \<Rightarrow> ir_mode \<Rightarrow> tarval" where
  "tarval_convert_to tv m = new_tarval_from_long (get_tarval_int tv) m"

definition tarval_shrs :: "tarval \<Rightarrow> tarval \<Rightarrow> tarval" where
  "tarval_shrs tv cnt =
     (let bits = get_mode_size_bits (get_tarval_mode tv);
          sv = (get_tarval_int tv + 2 ^ (bits - 1)) mod 2 ^ bits - 2 ^ (bits - 1)
      in new_tarval_from_long (sv div 2 ^ nat (get_tarval_int cnt)) (get_tarval_mode tv))"

text \<open>\<^verbatim>\<open>lower_Const\<close>: two new Consts, the low and the high half of the value.\<close>

definition lower_Const :: "lower_env \<Rightarrow> nat \<Rightarrow> ir_mode \<Rightarrow> lower_env option" where
  "lower_Const env node m =
     (case get_Const_tarval (lenv_irg env) node of
        None \<Rightarrow> None
      | Some tv \<Rightarrow>
          (let tv_l = tarval_convert_to tv (low_unsigned env);
               (low, env) = new_r_Const env tv_l;
               tv_h = tarval_convert_to (tarval_shrs tv (tv_mode_bits env)) m;
               (high, env) = new_r_Const env tv_h
           in if \<not> node < n_entries env then None
              else
                (case entries env node of
                   None \<Rightarrow> None
                 | Some e \<Rightarrow>
                     Some (env\<lparr>entries := (entries env)
                              (node := Some \<lparr>low_word = Some low, high_word = Some high\<rparr>)\<rparr>))))"

text \<open>
  \<^verbatim>\<open>lower_boolean_Proj_Cmp\<close>: the value of a Proj of a Cmp of double-word values, built
  from the two Cmps of the words; the result is \<open>NULL\<close> while a pair is not ready. The
  Projs that are arguments of one constructor call are created from left to right.
\<close>

definition lower_boolean_Proj_Cmp ::
  "lower_env \<Rightarrow> nat \<Rightarrow> nat \<Rightarrow> (nat option \<times> lower_env) option" where
  "lower_boolean_Proj_Cmp env proj cmp =
     (let g = lenv_irg env in
      case (get_irn_n g cmp 0, get_irn_n g cmp 1) of
        (Some l, Some r) \<Rightarrow>
          (case entries env l of
             None \<Rightarrow> None
           | Some lentry \<Rightarrow>
               if low_word lentry = None then Some (None, env)
               else
                 (case entries env r of
                    None \<Rightarrow> None
                  | Some rentry \<Rightarrow>
                      if low_word rentry = None then Some (None, env)
                      else
                        (case (get_Proj_proj g proj, get_nodes_block g cmp,
                               low_word lentry, low_word rentry,
                               high_word lentry, high_word rentry) of
                           (Some pnc, Some blk, Some l_low, Some r_low, Some l_high, Some r_high) \<Rightarrow>
                             (let (low, env) = new_rd_Cmp env blk l_low r_low;
                                  (high, env) = new_rd_Cmp env blk l_high r_high
                              in if pnc = pn_Cmp_Eq then
                                   (let (p1, env) = new_r_Proj env low mode_b pnc;
                                        (p2, env) = new_r_Proj env high mode_b pnc;
                                        (res, env) = new_rd_And env blk p1 p2 mode_b
                                    in Some (Some res, env))
                                 else if pnc = pn_Cmp_Lg then
                                   (let (p1, env) = new_r_Proj env low mode_b pnc;
                                        (p2, env) = new_r_Proj env high mode_b pnc;
                                        (res, env) = new_rd_Or env blk p1 p2 mode_b
                                    in Some (Some res, env))
                                 else
                                   (let (p1, env) = new_r_Proj env low mode_b pnc;
                                        (p2, env) = new_r_Proj env high mode_b pn_Cmp_Eq;
                                        (t, env) = new_rd_And env blk p1 p2 mode_b;
                                        (p3, env) = new_r_Proj env high mode_b (pnc AND NOT pn_Cmp_Eq);
                                        (res, env) = new_rd_Or env blk p3 t mode_b
                                    in Some (Some res, env)))
                         | _ \<Rightarrow> None)))
      | _ \<Rightarrow> None)"

definition set_entity_type :: "type_env \<Rightarrow> nat \<Rightarrow> nat \<Rightarrow> type_env" where
  "set_entity_type te ent tp = update_entity te ent (\<lambda>e. e\<lparr>ent_type := Some tp\<rparr>)"

text \<open>
  \<^verbatim>\<open>lower_Return\<close> for the graph of the entity \<open>ent\<close>. The first loop waits for the pairs
  of the results of double-word mode; when there is none the Return stays as it is.
  Otherwise the method type of the entity is lowered and the Return gets the memory
  and, for every result, either the two words of its pair or the result itself. The
  array of the new inputs has room for the results of the lowered type and the memory.
\<close>

fun return_ready :: "lower_env \<Rightarrow> nat list \<Rightarrow> bool \<Rightarrow> (bool option) option" where
  "return_ready env [] need_conv = Some (Some need_conv)"
| "return_ready env (pred # preds) need_conv =
     (case get_irn_op_mode (lenv_irg env) pred of
        None \<Rightarrow> None
      | Some mode \<Rightarrow>
          if is_high_mode env mode then
            (case entries env pred of
               None \<Rightarrow> None
             | Some e \<Rightarrow>
                 if low_word e = None then Some None
                 else return_ready env preds True)
          else return_ready env preds need_conv)"

fun return_inputs :: "lower_env \<Rightarrow> nat list \<Rightarrow> nat list option" where
  "return_inputs env [] = Some []"
| "return_inputs env (pred # preds) =
     (if \<not> pred < n_entries env then None
      else
        (case return_inputs env preds of
           None \<Rightarrow> None
         | Some ins \<Rightarrow>
             (case entries env pred of
                None \<Rightarrow> Some (pred # ins)
              | Some e \<Rightarrow>
                  (case (low_word e, high_word e) of
                     (Some lo, Some hi) \<Rightarrow> Some (lo # hi # ins)
                   | _ \<Rightarrow> None))))"

definition lower_Return :: "nat \<Rightarrow> nat \<Rightarrow> ir_mode \<Rightarrow> lower_state \<Rightarrow> lower_state option" where
  "lower_Return ent node m st =
     (let (env, te) = st; g = lenv_irg env
      in case irn_in (irg_node g node) of
           [] \<Rightarrow> None
         | mem # ress \<Rightarrow>
             (case return_ready env ress False of
                None \<Rightarrow> None
              | Some None \<Rightarrow> Some (pdeq_putr env node, te)
              | Some (Some need_conv) \<Rightarrow>
                  if \<not> need_conv then Some st
                  else
                    (case ent_type (te_entity te ent) of
                       None \<Rightarrow> None
                     | Some mtp \<Rightarrow>
                         (case lower_mtp env te mtp of
                            None \<Rightarrow> None
                          | Some (mtp, te) \<Rightarrow>
                              (let te = set_entity_type te ent mtp
                               in case return_inputs env ress of
                                    None \<Rightarrow> None
                                  | Some ins \<Rightarrow>
                                      if length ins > get_method_n_ress te mtp then None
                                      else Some (env\<lparr>lenv_irg := set_irn_in g node (mem # ins)\<rparr>,
                                                 te))))))"

text \<open>
  \<^verbatim>\<open>lower_Start\<close>. \<open>new_projs\<close> holds the new number of every parameter of the original
  method type. When a parameter is a double word the method type of the entity is
  lowered and every Proj of the arguments is renumbered; one that has a pair gets its
  two words as new Projs.
\<close>

fun start_new_projs :: "lower_env \<Rightarrow> type_env \<Rightarrow> nat \<Rightarrow> nat option list \<Rightarrow> (nat list \<times> nat) option" where
  "start_new_projs env te j [] = Some ([], j)"
| "start_new_projs env te j (None # tps) = None"
| "start_new_projs env te j (Some tp # tps) =
     (case start_new_projs env te (if is_high_primitive env te tp then j + 2 else j + 1) tps of
        None \<Rightarrow> None
      | Some (new_projs, j') \<Rightarrow> Some (j # new_projs, j'))"

definition set_Proj_proj :: "ir_graph \<Rightarrow> nat \<Rightarrow> int \<Rightarrow> ir_graph" where
  "set_Proj_proj g n nr = update_node g n (\<lambda>nd. nd\<lparr>irn_attr := attr_proj nr\<rparr>)"

fun start_projs :: "lower_env \<Rightarrow> nat \<Rightarrow> nat list \<Rightarrow> nat list \<Rightarrow> lower_env option" where
  "start_projs env args new_projs [] = Some env"
| "start_projs env args new_projs (proj # projs) =
     (case get_irn_n (lenv_irg env) proj 0 of
        None \<Rightarrow> None
      | Some pred \<Rightarrow>
          (let env = env_update_graph env (\<lambda>g. mark_irn_visited g proj)
           in if pred \<noteq> args then start_projs env args new_projs projs
              else
                (case get_Proj_proj (lenv_irg env) proj of
                   None \<Rightarrow> None
                 | Some proj_nr \<Rightarrow>
                     if proj_nr < 0 \<or> \<not> nat proj_nr < length new_projs then None
                     else
                       (let nr = int (new_projs ! nat proj_nr);
                            env = env_update_graph env (\<lambda>g. set_Proj_proj g proj nr)
                        in case entries env proj of
                             None \<Rightarrow> start_projs env args new_projs projs
                           | Some e \<Rightarrow>
                               (let mode = (if get_irn_mode (lenv_irg env) proj = high_signed env
                                            then low_signed env else low_unsigned env);
                                    (lo, env) = new_r_Proj env args (low_unsigned env) nr;
                                    (hi, env) = new_r_Proj env args mode (nr + 1);
                                    env = env\<lparr>entries := (entries env)
                                            (proj := Some \<lparr>low_word = Some lo, high_word = Some hi\<rparr>)\<rparr>
                                in start_projs env args new_projs projs)))))"

definition lower_Start :: "nat \<Rightarrow> nat \<Rightarrow> nat \<Rightarrow> ir_mode \<Rightarrow> lower_state \<Rightarrow> lower_state option" where
  "lower_Start fuel ent node m st =
     (let (env, te) = st
      in case ent_type (te_entity te ent) of
           None \<Rightarrow> None
         | Some tp \<Rightarrow>
             (case (if is_lowered_type te tp then tp_assoc (te_type te tp) else Some tp) of
                None \<Rightarrow> None
              | Some mtp \<Rightarrow>
                  if is_lowered_type te mtp then None
                  else if get_method_n_params te mtp = 0 then Some st
                  else
                    (case start_new_projs env te 0 (tp_params (te_type te mtp)) of
                       None \<Rightarrow> None
                     | Some (new_projs, j) \<Rightarrow>
                         if get_method_n_params te mtp = j then Some st
                         else
                           (case lower_mtp env te mtp of
                              None \<Rightarrow> None
                            | Some (ltp, te) \<Rightarrow>
                                (let te = set_entity_type te ent ltp
                                 in case link_chain fuel (lenv_irg env)
                                           (get_irn_link (lenv_irg env) node) of
                                      None \<Rightarrow> None
                                    | Some projs \<Rightarrow>
                                        (case start_projs env (irg_args (lenv_irg env))
                                                new_projs projs of
                                           None \<Rightarrow> None
                                         | Some env \<Rightarrow> Some (env, te)))))))"

text \<open>
  The lowering functions that are entered in the operations but not translated here
  are parameters of the pass; every statement about the pass holds for each behaviour
  they may have.
\<close>

type_synonym lower_func = "nat \<Rightarrow> ir_mode \<Rightarrow> lower_state \<Rightarrow> lower_state option"

record lower_funcs =
  lower_Binop :: lower_func
  lower_And :: lower_func
  lower_ASM :: lower_func
  lower_Call :: lower_func
  lower_Conv :: lower_func
  lower_Div :: lower_func
  lower_DivMod :: lower_func
  lower_Eor :: lower_func
  lower_Load :: lower_func
  lower_Unop :: lower_func
  lower_Mod :: lower_func
  lower_Mux :: lower_func
  lower_Not :: lower_func
  lower_Or :: lower_func
  lower_Phi :: lower_func
  lower_Rotl :: lower_func
  lower_Sel :: lower_func
  lower_Shr :: lower_func
  lower_Shrs :: lower_func
  lower_Store :: lower_func
  lower_Unknown :: lower_func

definition on_env :: "(lower_env \<Rightarrow> nat \<Rightarrow> ir_mode \<Rightarrow> lower_env option) \<Rightarrow> lower_func" where
  "on_env f node m st = map_option (\<lambda>env. (env, snd st)) (f (fst st) node m)"

text \<open>
  The table that \<^verbatim>\<open>lower_dw_ops\<close> sets up with \<^verbatim>\<open>enter_lower_func\<close>, after clearing the
  generic function of every operation; \<open>ent\<close> is the entity of the graph at hand.
\<close>

definition generic_func :: "lower_funcs \<Rightarrow> nat \<Rightarrow> nat \<Rightarrow> ir_opcode \<Rightarrow> lower_func option" where
  "generic_func fs fuel ent opc =
     (case opc of
        iro_Add \<Rightarrow> Some (lower_Binop fs)
      | iro_And \<Rightarrow> Some (lower_And fs)
      | iro_ASM \<Rightarrow> Some (lower_ASM fs)
      | iro_Call \<Rightarrow> Some (lower_Call fs)
      | iro_Cond \<Rightarrow> Some (on_env (lower_Cond fuel))
      | iro_Const \<Rightarrow> Some (on_env lower_Const)
      | iro_Conv \<Rightarrow> Some (lower_Conv fs)
      | iro_Div \<Rightarrow> Some (lower_Div fs)
      | iro_DivMod \<Rightarrow> Some (lower_DivMod fs)
      | iro_Eor \<Rightarrow> Some (lower_Eor fs)
      | iro_Load \<Rightarrow> Some (lower_Load fs)
      | iro_Minus \<Rightarrow> Some (lower_Unop fs)
      | iro_Mod \<Rightarrow> Some (lower_Mod fs)
      | iro_Mul \<Rightarrow> Some (lower_Binop fs)
      | iro_Mux \<Rightarrow> Some (lower_Mux fs)
      | iro_Not \<Rightarrow> Some (lower_Not fs)
      | iro_Or \<Rightarrow> Some (lower_Or fs)
      | iro_Phi \<Rightarrow> Some (lower_Phi fs)
      | iro_Return \<Rightarrow> Some (lower_Return ent)
      | iro_Rotl \<Rightarrow> Some (lower_Rotl fs)
      | iro_Sel \<Rightarrow> Some (lower_Sel fs)
      | iro_Shl \<Rightarrow> Some (on_env lower_Shl)
      | iro_Shr \<Rightarrow> Some (lower_Shr fs)
      | iro_Shrs \<Rightarrow> Some (lower_Shrs fs)
      | iro_Start \<Rightarrow> Some (lower_Start fuel ent)
      | iro_Store \<Rightarrow> Some (lower_Store fs)
      | iro_Sub \<Rightarrow> Some (lower_Binop fs)
      | iro_Unknown \<Rightarrow> Some (lower_Unknown fs)
      | _ \<Rightarrow> None)"

definition always_lower :: "ir_opcode \<Rightarrow> bool" where
  "always_lower code =
     (code \<in> {iro_ASM, iro_Proj, iro_Start, iro_Call, iro_Return, iro_Cond, iro_Conv, iro_Sel})"

text \<open>
  The first part of \<^verbatim>\<open>lower_ops\<close>, for a node of mode \<open>b\<close>, a Mux or a Conv: every input
  that is the Proj of a Cmp of double-word values is replaced by its lowered value. The
  flag of the result says that the node was put on the wait queue instead.
\<close>

fun lower_ops_inputs :: "lower_env \<Rightarrow> nat \<Rightarrow> nat list \<Rightarrow> (bool \<times> lower_env) option" where
  "lower_ops_inputs env node [] = Some (False, env)"
| "lower_ops_inputs env node (i # poss) =
     (let g = lenv_irg env in
      case get_irn_n g node (int i) of
        None \<Rightarrow> None
      | Some proj \<Rightarrow>
          if \<not> is_Proj g proj then lower_ops_inputs env node poss
          else
            (case get_irn_n g proj 0 of
               None \<Rightarrow> None
             | Some cmp \<Rightarrow>
                 if \<not> is_Cmp g cmp then lower_ops_inputs env node poss
                 else
                   (case get_irn_n g cmp 0 of
                      None \<Rightarrow> None
                    | Some arg \<Rightarrow>
                        if \<not> is_high_mode env (get_irn_mode g arg)
                        then lower_ops_inputs env node poss
                        else
                          (case lower_boolean_Proj_Cmp env proj cmp of
                             None \<Rightarrow> None
                           | Some (None, env) \<Rightarrow> Some (True, pdeq_putr env node)
                           | Some (Some res, env) \<Rightarrow>
                               (case set_irn_n (lenv_irg env) node i res of
                                  None \<Rightarrow> None
                                | Some g' \<Rightarrow>
                                    lower_ops_inputs (env\<lparr>lenv_irg := g'\<rparr>) node poss)))))"

definition lower_ops :: "lower_funcs \<Rightarrow> nat \<Rightarrow> nat \<Rightarrow> nat \<Rightarrow> lower_state \<Rightarrow> lower_state option" where
  "lower_ops fs fuel ent node st =
     (let (env, te) = st; g = lenv_irg env
      in case lower_ops_inputs env node
                (if get_irn_mode g node = mode_b \<or> is_Mux g node \<or> is_Conv g node
                 then rev [0..<get_irn_arity g node] else []) of
           None \<Rightarrow> None
         | Some (True, env) \<Rightarrow> Some (env, te)
         | Some (False, env) \<Rightarrow>
             (let g = lenv_irg env;
                  entry = (if node < n_entries env then entries env node else None)
              in if entry \<noteq> None \<or> always_lower (get_irn_op g node) then
                   (case generic_func fs fuel ent (get_irn_op g node) of
                      None \<Rightarrow> Some (env, te)
                    | Some func \<Rightarrow>
                        (case get_irn_op_mode g node of
                           None \<Rightarrow> None
                         | Some mode \<Rightarrow>
                             func node (if mode = high_signed env then low_signed env
                                        else low_unsigned env) (env, te)))
                 else Some (env, te)))"

text \<open>
  ``Last step: all waiting nodes'': the queue is emptied from the left while lowering
  may put nodes back at the right. The loop need not end; the fuel bounds the number of
  nodes taken from the queue.
\<close>

fun lower_waiting :: "lower_funcs \<Rightarrow> nat \<Rightarrow> nat \<Rightarrow> nat \<Rightarrow> lower_state \<Rightarrow> lower_state option" where
  "lower_waiting fs fuel ent n st =
     (case waitq (fst st) of
        [] \<Rightarrow> Some st
      | node # q \<Rightarrow>
          (case n of
             0 \<Rightarrow> None
           | Suc n' \<Rightarrow>
               (case lower_ops fs fuel ent node ((fst st)\<lparr>waitq := q\<rparr>, snd st) of
                  None \<Rightarrow> None
                | Some st' \<Rightarrow> lower_waiting fs fuel ent n' st')))"

subsection \<open>Double-word lowering: the pass\<close>

text \<open>
  \<^verbatim>\<open>setup_modes\<close>: the search for the signed and the unsigned integer mode of the
  double-word size among the modes of the program, its assertions, and the two new
  modes of half the size. A panic or a failed assertion is the result \<open>None\<close>.
\<close>

fun find_doubleword_modes ::
  "nat \<Rightarrow> ir_mode list \<Rightarrow> ir_mode option \<times> ir_mode option \<Rightarrow> (ir_mode option \<times> ir_mode option) option" where
  "find_doubleword_modes size_bits [] found = Some found"
| "find_doubleword_modes size_bits (m # ms) (doubleword_signed, doubleword_unsigned) =
     (if \<not> mode_is_int m then
        find_doubleword_modes size_bits ms (doubleword_signed, doubleword_unsigned)
      else if get_mode_size_bits m \<noteq> size_bits then
        find_doubleword_modes size_bits ms (doubleword_signed, doubleword_unsigned)
      else if mode_is_signed m then
        (if doubleword_signed \<noteq> None then None
         else find_doubleword_modes size_bits ms (Some m, doubleword_unsigned))
      else
        (if doubleword_unsigned \<noteq> None then None
         else find_doubleword_modes size_bits ms (doubleword_signed, Some m)))"

definition setup_modes :: "nat \<Rightarrow> ir_mode list \<Rightarrow> (ir_mode \<times> ir_mode \<times> ir_mode \<times> ir_mode) option" where
  "setup_modes size_bits modes =
     (case find_doubleword_modes size_bits modes (None, None) of
        Some (Some doubleword_signed, Some doubleword_unsigned) \<Rightarrow>
          (let arithmetic = get_mode_arithmetic doubleword_signed;
               modulo_shift = get_mode_modulo_shift doubleword_signed
           in if get_mode_size_bits doubleword_unsigned \<noteq> size_bits \<or> size_bits mod 2 \<noteq> 0 \<or>
                 \<not> mode_is_signed doubleword_signed \<or> mode_is_signed doubleword_unsigned \<or>
                 \<not> mode_is_int doubleword_signed \<or> \<not> mode_is_int doubleword_unsigned \<or>
                 get_mode_arithmetic doubleword_unsigned \<noteq> arithmetic \<or>
                 get_mode_modulo_shift doubleword_unsigned \<noteq> modulo_shift
              then None
              else if modulo_shift \<noteq> size_bits \<and> modulo_shift \<noteq> 0 then None
              else
                (let modulo_shift = (if modulo_shift = size_bits then modulo_shift div 2
                                     else modulo_shift);
                     size_bits = size_bits div 2
                 in Some (doubleword_signed, doubleword_unsigned,
                          mode_int size_bits True arithmetic modulo_shift,
                          mode_int size_bits False arithmetic modulo_shift)))
      | _ \<Rightarrow> None)"

text \<open>
  The body of the loop ``transform all graphs'' of \<^verbatim>\<open>lower_dw_ops\<close>, for the graph \<open>irg\<close>
  with the entity \<open>ent\<close>: the pairs are allocated, the method type of the entity is
  lowered when a parameter asks for it, the graph is prepared, and when that set
  \<^verbatim>\<open>MUST_BE_LOWERED\<close> the nodes are lowered and the waiting nodes finished; then the
  resources are freed and the analysis information invalidated. The result is the
  state with the graph in its environment. (Extended-block information is not part of
  the graph model.)
\<close>

definition lower_irg ::
  "lower_funcs \<Rightarrow> nat \<Rightarrow> lower_state \<Rightarrow> ir_graph \<Rightarrow> nat \<Rightarrow> lower_state option" where
  "lower_irg fs fuel st irg ent =
     (let (env, te) = st;
          n_idx = irg_last_idx irg + drop_bit 2 (irg_last_idx irg)
      in case ir_reserve_resources irg {IR_RESOURCE_PHI_LIST, IR_RESOURCE_IRN_LINK} of
           None \<Rightarrow> None
         | Some g \<Rightarrow>
     (let env = env\<lparr>n_entries := n_idx, entries := (\<lambda>idx. None), lenv_irg := g,
                    l_mtp := None, flag_must_be_lowered := False, flag_cf_changed := False,
                    proj_2_block := (\<lambda>n. None), value_param_tp := None\<rparr>
      in case ent_type (te_entity te ent) of
           None \<Rightarrow> None
         | Some mtp \<Rightarrow>
     (case mtp_must_be_lowered env te mtp of
        None \<Rightarrow> None
      | Some must \<Rightarrow>
     (case (if must then
              (case lower_mtp env te mtp of
                 None \<Rightarrow> None
               | Some (ltp, te) \<Rightarrow>
                   Some (env\<lparr>flag_must_be_lowered := True, l_mtp := Some ltp,
                             value_param_tp := get_method_value_param_type te mtp\<rparr>,
                         set_entity_type te ent ltp))
            else Some (env, te)) of
        None \<Rightarrow> None
      | Some st \<Rightarrow>
     (case irg_walk_graph fuel firm_clear_node_and_phi_links prepare_links_and_handle_rotl st of
        None \<Rightarrow> None
      | Some st \<Rightarrow>
          if flag_must_be_lowered (fst st) then
            (case irg_walk_graph fuel (\<lambda>n st. Some st) (lower_ops fs fuel ent) st of
               None \<Rightarrow> None
             | Some st \<Rightarrow>
            (case lower_waiting fs fuel ent fuel st of
               None \<Rightarrow> None
             | Some (env, te) \<Rightarrow>
            (case ir_free_resources (lenv_irg env)
                    {IR_RESOURCE_PHI_LIST, IR_RESOURCE_IRN_LINK} of
               None \<Rightarrow> None
             | Some g \<Rightarrow>
                 (let g = clear_irg_properties g {IR_GRAPH_PROPERTY_CONSISTENT_OUTS};
                      g = (if flag_cf_changed env
                           then clear_irg_properties g
                                  {IR_GRAPH_PROPERTY_CONSISTENT_DOMINANCE,
                                   IR_GRAPH_PROPERTY_CONSISTENT_LOOPINFO}
                           else g)
                  in Some (env\<lparr>lenv_irg := g\<rparr>, te)))))
          else
            (case ir_free_resources (lenv_irg (fst st))
                    {IR_RESOURCE_PHI_LIST, IR_RESOURCE_IRN_LINK} of
               None \<Rightarrow> None
             | Some g \<Rightarrow> Some ((fst st)\<lparr>lenv_irg := g\<rparr>, snd st)))))))"

text \<open>
  The loop over the graphs of the program, from the last to the first; \<open>irgs\<close> pairs each
  graph with its entity. The result lists the graphs in the order of the program.
\<close>

fun lower_irgs ::
  "lower_funcs \<Rightarrow> nat \<Rightarrow> lower_state \<Rightarrow> (ir_graph \<times> nat) list \<Rightarrow>
     ((ir_graph \<times> nat) list \<times> lower_state) option" where
  "lower_irgs fs fuel st [] = Some ([], st)"
| "lower_irgs fs fuel st ((irg, ent) # irgs) =
     (case lower_irgs fs fuel st irgs of
        None \<Rightarrow> None
      | Some (irgs', st) \<Rightarrow>
          (case lower_irg fs fuel st irg ent of
             None \<Rightarrow> None
           | Some st \<Rightarrow> Some ((lenv_irg (fst st), ent) # irgs', st)))"

text \<open>
  \<^verbatim>\<open>lower_dw_ops\<close>. The program consists of its modes, its graphs with their entities,
  and the state of the lowering: the types with the file-level variables, and the
  environment with the tables of the file. The tables and the intrinsic method types,
  which the first call creates when they are still \<open>NULL\<close>, are taken as created. The
  two half-width modes that \<^verbatim>\<open>setup_modes\<close> makes with \<^verbatim>\<open>new_ir_mode\<close> join the modes of
  the program unless they are among them. A \<open>NULL\<close> parameter leaves everything as it is.
\<close>

definition register_mode :: "ir_mode list \<Rightarrow> ir_mode \<Rightarrow> ir_mode list" where
  "register_mode modes m = (if m \<in> set modes then modes else modes @ [m])"

record lwrdw_param =
  little_endian :: bool
  doubleword_size :: nat

record dw_prog =
  irp_modes :: "ir_mode list"
  irp_irgs :: "(ir_graph \<times> nat) list"
  irp_state :: lower_state

definition lower_dw_ops :: "lower_funcs \<Rightarrow> nat \<Rightarrow> lwrdw_param option \<Rightarrow> dw_prog \<Rightarrow> dw_prog option" where
  "lower_dw_ops fs fuel param prog =
     (case param of
        None \<Rightarrow> Some prog
      | Some p \<Rightarrow>
          (case setup_modes (doubleword_size p) (irp_modes prog) of
             None \<Rightarrow> None
           | Some (hs, hu, ls, lu) \<Rightarrow>
               (let (env, te) = irp_state prog;
                    env = env\<lparr>high_signed := hs, high_unsigned := hu, low_signed := ls,
                              low_unsigned := lu,
                              tv_mode_bits := new_tarval_from_long
                                                (int (doubleword_size p div 2)) lu,
                              waitq := []\<rparr>;
                    te = te\<lparr>first_id := (if little_endian p then ''.l'' else ''.h''),
                            next_id := (if little_endian p then ''.h'' else ''.l'')\<rparr>
                in case lower_irgs fs fuel (env, te) (irp_irgs prog) of
                     None \<Rightarrow> None
                   | Some (irgs, st) \<Rightarrow>
                       Some (prog\<lparr>irp_modes := register_mode (register_mode (irp_modes prog) ls) lu,
                                  irp_irgs := irgs, irp_state := st\<rparr>))))"

text \<open>
  Example: the graph of a procedure without parameters and results that is entered and
  returns at once, in which the End node keeps a 64-bit Const alive. Node 0 is the start
  Block with the Start node 1 and its Projs 2 (control flow), 3 (memory) and 9 (the
  arguments); node 4 is the Block of the body with the Return 5; node 6 is the end Block
  and node 7 the End node, whose keep-alive input is the Const 8 of value \<open>2^32 + 5\<close>.
  Entity 0 is the procedure, type 0 its method type, types 1 and 2 the primitive types
  of the two half-width modes.
\<close>

definition example_keep_graph :: ir_graph where
  "example_keep_graph =
     example_graph
       \<lparr>irg_node :=
          (\<lambda>n. mk_node iro_Bad mode_ANY None [] attr_none)
          (0 := mk_node iro_Block mode_BB None [] attr_none,
           1 := mk_node iro_Start mode_T (Some 0) [] attr_none,
           2 := mk_node iro_Proj mode_X (Some 0) [1] (attr_proj 0),
           3 := mk_node iro_Proj mode_M (Some 0) [1] (attr_proj 1),
           4 := mk_node iro_Block mode_BB None [2] attr_none,
           5 := mk_node iro_Return mode_X (Some 4) [3] attr_none,
           6 := mk_node iro_Block mode_BB None [5] attr_none,
           7 := mk_node iro_End mode_X (Some 6) [8] attr_none,
           8 := mk_node iro_Const mode_Lu (Some 0) [] (attr_const (Tarval mode_Lu 4294967301)),
           9 := mk_node iro_Proj mode_T (Some 0) [1] (attr_proj 4)),
        irg_last_idx := 10,
        irg_start_block := 0,
        irg_end := 7,
        irg_args := 9,
        irg_outs := (\<lambda>n. []),
        irg_properties := {}\<rparr>"

definition example_type_env :: type_env where
  "example_type_env =
     \<lparr>te_type =
        (\<lambda>n. \<lparr>tp_op = tpo_primitive, tp_mode = Some mode_Is, tp_params = [], tp_ress = [],
               tp_param_idents = [], tp_value_params = None, tp_members = [],
               tp_lowered = False, tp_assoc = None\<rparr>)
        (0 := \<lparr>tp_op = tpo_method, tp_mode = None, tp_params = [], tp_ress = [],
               tp_param_idents = [], tp_value_params = None, tp_members = [],
               tp_lowered = False, tp_assoc = None\<rparr>,
         1 := \<lparr>tp_op = tpo_primitive, tp_mode = Some mode_Iu, tp_params = [], tp_ress = [],
               tp_param_idents = [], tp_value_params = None, tp_members = [],
               tp_lowered = False, tp_assoc = None\<rparr>),
      te_n_types = 3,
      te_entity = (\<lambda>e. \<lparr>ent_ident = Some ''f'', ent_type = Some 0, ent_link = None\<rparr>),
      te_n_entities = 1,
      lowered_type = (\<lambda>tp. None),
      tp_u = 1,
      tp_s = 2,
      first_id = ''.l'',
      next_id = ''.h''\<rparr>"

definition example_keep_prog :: dw_prog where
  "example_keep_prog =
     \<lparr>irp_modes = [mode_Is, mode_Iu, mode_Ls, mode_Lu],
      irp_irgs = [(example_keep_graph, 0)],
      irp_state = (example_lower_env example_keep_graph (\<lambda>n. None), example_type_env)\<rparr>"

definition example_param :: lwrdw_param where
  "example_param = \<lparr>little_endian = True, doubleword_size = 64\<rparr>"

text \<open>
  The environment with which the loop over the graphs starts for this program: the
  modes that \<^verbatim>\<open>setup_modes\<close> finds and makes for the double-word size 64.
\<close>

definition example_keep_env :: lower_env where
  "example_keep_env = (example_lower_env example_keep_graph (\<lambda>n. None))
      \<lparr>high_signed := mode_Ls, high_unsigned := mode_Lu, low_signed := mode_Is,
        low_unsigned := mode_Iu, tv_mode_bits := new_tarval_from_long 32 mode_Iu, waitq := []\<rparr>"

subsection \<open>Lowered graphs\<close>

text \<open>
  Two graphs that differ only in what the passes use as scratch space: the links and
  visited marks of the nodes, the visited counter, the Phi lists of the Blocks and the
  reserved resources. The same for two environments, with the map \<^verbatim>\<open>proj_2_block\<close>.
\<close>

definition scratch_eq :: "ir_graph \<Rightarrow> ir_graph \<Rightarrow> bool" where
  "scratch_eq g g' =
     (g' = g\<lparr>irg_node := (\<lambda>n. (irg_node g n)\<lparr>irn_link := irn_link (irg_node g' n),
                                                irn_visited := irn_visited (irg_node g' n)\<rparr>),
             irg_block_phis := irg_block_phis g',
             irg_visited := irg_visited g',
             irg_reserved_resources := irg_reserved_resources g'\<rparr>)"

definition env_scratch_eq :: "lower_env \<Rightarrow> lower_env \<Rightarrow> bool" where
  "env_scratch_eq env env' =
     (env' = env\<lparr>lenv_irg := lenv_irg env', proj_2_block := proj_2_block env'\<rparr> \<and>
      scratch_eq (lenv_irg env) (lenv_irg env'))"

text \<open>
  A node with nothing left to lower: its operational mode is not a double-word mode,
  and if it is a Conv, neither is the mode of its operand. The node has the inputs that
  the preparation reads: its Block, and the predecessor of a Proj.
\<close>

definition node_lowered :: "lower_env \<Rightarrow> ir_graph \<Rightarrow> nat \<Rightarrow> bool" where
  "node_lowered env g n =
     ((case get_irn_op_mode g n of None \<Rightarrow> False | Some m \<Rightarrow> \<not> is_high_mode env m) \<and>
      (is_Conv g n \<longrightarrow>
         (case get_irn_n g n 0 of
            None \<Rightarrow> False
          | Some p \<Rightarrow> \<not> is_high_mode env (get_irn_mode g p))) \<and>
      (is_Proj g n \<longrightarrow> get_irn_n g n 0 \<noteq> None) \<and>
      (\<not> is_Block g n \<longrightarrow> irn_block (irg_node g n) \<noteq> None))"

text \<open>
  A lowered graph with its entity: every node that End reaches is a node of the graph
  with nothing left to lower and a visited mark not above the counter, the resources
  of the pass are free, and the method type of the entity has no parameter of a
  double-word type.
\<close>

definition irg_lowered :: "lower_env \<Rightarrow> type_env \<Rightarrow> ir_graph \<Rightarrow> nat \<Rightarrow> bool" where
  "irg_lowered env te irg ent =
     ((\<forall>n. reachable irg (irg_end irg) n \<longrightarrow>
           n < irg_last_idx irg \<and> node_lowered env irg n \<and>
           irn_visited (irg_node irg n) \<le> irg_visited irg) \<and>
      irg_reserved_resources irg \<inter> {IR_RESOURCE_PHI_LIST, IR_RESOURCE_IRN_LINK} = {} \<and>
      (case ent_type (te_entity te ent) of
         None \<Rightarrow> False
       | Some mtp \<Rightarrow> mtp_must_be_lowered env te mtp = Some False))"

section \<open>Properties\<close>

subsection \<open>The loop header\<close>

lemma nested_in_iff:
  "nested_in g l p =
     (irg_loop_outer g l \<noteq> l \<and> (irg_loop_outer g l = p \<or> nested_in g (irg_loop_outer g l) p))"
  by (auto intro: nested_in.intros elim: nested_in.cases)

lemma is_inner_loop_nested:
  "is_inner_loop fuel g outer_loop inner_loop = Some r \<Longrightarrow> r = nested_in g inner_loop outer_loop"
proof (induction fuel arbitrary: inner_loop)
  case 0
  then show ?case by simp
next
  case (Suc fuel)
  let ?p = "irg_loop_outer g inner_loop"
  show ?case
  proof (cases "?p \<noteq> inner_loop \<and> ?p \<noteq> outer_loop")
    case True
    with Suc.prems have "is_inner_loop fuel g outer_loop ?p = Some r" by (simp add: Let_def)
    then have "r = nested_in g ?p outer_loop" by (rule Suc.IH)
    with True show ?thesis by (subst nested_in_iff) simp
  next
    case False
    with Suc.prems have r: "r = (?p \<noteq> inner_loop)" by (auto simp: Let_def)
    with False show ?thesis by (subst nested_in_iff) auto
  qed
qed

lemma block_is_inside_loop_spec:
  "block_is_inside_loop fuel g block loop = Some r \<Longrightarrow> r = inside_loop g loop block"
  by (auto simp: block_is_inside_loop_def inside_loop_def split: option.splits if_splits
           dest: is_inner_loop_nested)

lemma walk_up_idom_climb:
  "walk_up_idom fuel g loop start = Some h \<Longrightarrow> idom_climb g loop start h"
proof (induction fuel arbitrary: start)
  case 0
  then show ?case by simp
next
  case (Suc fuel)
  show ?case
  proof (cases "irg_idom g start")
    case None
    with Suc.prems show ?thesis by (auto intro: idom_climb.at_root)
  next
    case (Some d)
    show ?thesis
    proof (cases "block_is_inside_loop fuel g d loop")
      case None
      with Some Suc.prems show ?thesis by simp
    next
      case inside: (Some r)
      then have r: "r = inside_loop g loop d" by (rule block_is_inside_loop_spec)
      show ?thesis
      proof (cases r)
        case True
        with Some inside Suc.prems have "walk_up_idom fuel g loop d = Some h" by simp
        then have "idom_climb g loop d h" by (rule Suc.IH)
        with Some True r show ?thesis by (auto intro: idom_climb.up)
      next
        case False
        with Some inside Suc.prems have "h = start" by simp
        with Some False r show ?thesis by (auto intro: idom_climb.at_exit)
      qed
    qed
  qed
qed

lemma block_dominates_loop_spec:
  "block_dominates_loop g b loop = Some r \<Longrightarrow> r = (\<forall>x \<in> loop_blocks loop. irg_block_dominates g b x)"
  "block_dominates_elements g b es = Some r \<Longrightarrow> r = (\<forall>x \<in> element_blocks es. irg_block_dominates g b x)"
proof (induction g b loop and g b es arbitrary: r and r rule: block_dominates_loop_block_dominates_elements.induct)
  case (1 g block nr es)
  then show ?case by simp
next
  case (2 g block)
  then show ?case by simp
next
  case (3 g block n es)
  then show ?case by (auto split: if_splits)
next
  case (4 g block son es)
  from "4.prems" obtain d where d: "block_dominates_loop g block son = Some d"
    by (auto split: option.splits)
  have dspec: "d = (\<forall>x \<in> loop_blocks son. irg_block_dominates g block x)"
    using d by (rule "4.IH"(1))
  show ?case
  proof (cases d)
    case True
    with "4.prems" d have es: "block_dominates_elements g block es = Some r" by simp
    have "r = (\<forall>x \<in> element_blocks es. irg_block_dominates g block x)"
      using d _ es by (rule "4.IH"(2)) (simp add: True)
    with True dspec show ?thesis by auto
  next
    case False
    with "4.prems" d have "r = False" by simp
    with False dspec show ?thesis by auto
  qed
qed

lemma is_inner_loop_returns:
  assumes "\<forall>l. irg_loop_outer g l \<noteq> l \<longrightarrow> ldepth (irg_loop_outer g l) < ldepth l"
  shows "ldepth inner_loop < fuel \<Longrightarrow> is_inner_loop fuel g outer_loop inner_loop \<noteq> None"
proof (induction fuel arbitrary: inner_loop)
  case 0
  then show ?case by simp
next
  case (Suc fuel)
  show ?case
  proof (cases "irg_loop_outer g inner_loop \<noteq> inner_loop \<and> irg_loop_outer g inner_loop \<noteq> outer_loop")
    case True
    then have "ldepth (irg_loop_outer g inner_loop) < ldepth inner_loop" using assms by simp
    with Suc.prems have "ldepth (irg_loop_outer g inner_loop) < fuel" by simp
    then have "is_inner_loop fuel g outer_loop (irg_loop_outer g inner_loop) \<noteq> None"
      by (rule Suc.IH)
    with True show ?thesis by (simp add: Let_def)
  next
    case False
    then show ?thesis by (auto simp: Let_def)
  qed
qed

lemma block_is_inside_loop_returns:
  assumes "loop_tree_wf g ldepth bound" "bound \<le> fuel"
  shows "block_is_inside_loop fuel g block loop \<noteq> None"
proof (cases "irg_irn_loop g block")
  case None
  then show ?thesis by (simp add: block_is_inside_loop_def)
next
  case (Some l)
  have "ldepth l < fuel" using assms by (auto simp: loop_tree_wf_def intro: less_le_trans)
  moreover have "\<forall>l. irg_loop_outer g l \<noteq> l \<longrightarrow> ldepth (irg_loop_outer g l) < ldepth l"
    using assms(1) by (simp add: loop_tree_wf_def)
  ultimately have "is_inner_loop fuel g (get_loop_nr loop) l \<noteq> None"
    by (intro is_inner_loop_returns)
  with Some show ?thesis by (auto simp: block_is_inside_loop_def)
qed

lemma walk_up_idom_returns:
  assumes "loop_tree_wf g ldepth bound" "dominance_wf g depth"
  shows "depth start + bound < fuel \<Longrightarrow> walk_up_idom fuel g loop start \<noteq> None"
proof (induction fuel arbitrary: start)
  case 0
  then show ?case by simp
next
  case (Suc fuel)
  show ?case
  proof (cases "irg_idom g start")
    case None
    then show ?thesis by simp
  next
    case (Some d)
    have le: "bound \<le> fuel" using Suc.prems by simp
    from block_is_inside_loop_returns [OF assms(1) le]
    obtain r where r: "block_is_inside_loop fuel g d loop = Some r" by blast
    have "depth d < depth start" using assms(2) Some by (simp add: dominance_wf_def)
    with Suc.prems have "depth d + bound < fuel" by simp
    then have "walk_up_idom fuel g loop d \<noteq> None" by (rule Suc.IH)
    with Some r show ?thesis by (cases r) simp_all
  qed
qed

lemma block_dominates_loop_returns:
  "\<forall>x \<in> loop_blocks loop. is_Block g x \<Longrightarrow> block_dominates_loop g b loop \<noteq> None"
  "\<forall>x \<in> element_blocks es. is_Block g x \<Longrightarrow> block_dominates_elements g b es \<noteq> None"
proof (induction g b loop and g b es rule: block_dominates_loop_block_dominates_elements.induct)
  case (1 g block nr es)
  then show ?case by simp
next
  case (2 g block)
  then show ?case by simp
next
  case (3 g block n es)
  then show ?case by auto
next
  case (4 g block son es)
  from "4.prems" have s: "\<forall>x \<in> loop_blocks son. is_Block g x"
    and e: "\<forall>x \<in> element_blocks es. is_Block g x" by simp_all
  from "4.IH"(1) [OF s] obtain d where d: "block_dominates_loop g block son = Some d" by blast
  show ?case
  proof (cases d)
    case True
    have "block_dominates_elements g block es \<noteq> None"
      using d _ e by (rule "4.IH"(2)) (simp add: True)
    with d True show ?thesis by simp
  next
    case False
    with d show ?thesis by simp
  qed
qed

lemma first_loop_block_in_loop:
  "first_loop_block es = Some start \<Longrightarrow> start \<in> element_blocks es"
  by (induction es rule: first_loop_block.induct) auto

lemma get_loop_header_returns:
  assumes "loop_tree_wf g ldepth bound" "dominance_wf g depth"
    and "first_loop_block (get_loop_elements loop) = Some start"
    and "\<forall>x \<in> loop_blocks loop. is_Block g x"
    and "depth start + bound < fuel"
  shows "get_loop_header fuel g loop \<noteq> None"
proof -
  have "start \<in> loop_blocks loop"
    using first_loop_block_in_loop [OF assms(3)] by (cases loop) simp
  then have blk: "is_Block g start" using assms(4) by blast
  from walk_up_idom_returns [OF assms(1,2,5)]
  obtain h where h: "walk_up_idom fuel g loop start = Some h" by blast
  from block_dominates_loop_returns(1) [OF assms(4)]
  obtain d where d: "block_dominates_loop g h loop = Some d" by blast
  show ?thesis using assms(3) blk h d by (cases d) (simp_all add: get_loop_header_def)
qed

lemma get_loop_header_result:
  assumes "get_loop_header fuel g loop = Some r"
  shows "\<exists>start cand. first_loop_block (get_loop_elements loop) = Some start \<and>
           idom_climb g loop start cand \<and>
           r = (if \<forall>b \<in> loop_blocks loop. irg_block_dominates g cand b then Some cand else None)"
proof -
  from assms obtain start where s: "first_loop_block (get_loop_elements loop) = Some start"
    by (auto simp: get_loop_header_def split: option.splits)
  from assms s obtain cand where c: "walk_up_idom fuel g loop start = Some cand"
    by (auto simp: get_loop_header_def split: option.splits if_splits)
  from assms s c obtain d where d: "block_dominates_loop g cand loop = Some d"
    by (auto simp: get_loop_header_def split: option.splits if_splits)
  have r: "r = (if d then Some cand else None)"
    using assms s c d by (auto simp: get_loop_header_def split: option.splits if_splits)
  have "d = (\<forall>b \<in> loop_blocks loop. irg_block_dominates g cand b)"
    using d by (rule block_dominates_loop_spec(1))
  with r s walk_up_idom_climb [OF c] show ?thesis by blast
qed

lemma unroll_loop_unchanged:
  "unroll_loop fuel st loop factor = map_option (\<lambda>header. st) (get_loop_header fuel (fst st) loop)"
  by (simp add: unroll_loop_def find_suitable_factor_def split: option.splits)

lemma duplicate_innermost_loops_unchanged:
  "duplicate_innermost_loops ext fuel st loop factor maxsize outermost = Some st' \<Longrightarrow> st' = st"
  "duplicate_innermost_sons ext fuel st es factor maxsize = Some st' \<Longrightarrow> st' = st"
proof (induction ext fuel st loop factor maxsize outermost and ext fuel st es factor maxsize
       arbitrary: st' and st'
       rule: duplicate_innermost_loops_duplicate_innermost_sons.induct)
  case (1 ext fuel st nr es factor maxsize outermost)
  then show ?case by (auto split: option.splits)
next
  case (2 ext fuel st factor maxsize)
  then show ?case by simp
next
  case (3 ext fuel st n es factor maxsize)
  then show ?case by simp
next
  case (4 ext fuel st son es factor maxsize)
  from "4.prems" obtain st1 where
    a: "duplicate_innermost_loops ext fuel st son factor maxsize False = Some st1"
    and b: "duplicate_innermost_sons ext fuel st1 es factor maxsize = Some st'"
    by (auto split: option.splits)
  have "st1 = st" using a by (rule "4.IH"(1))
  moreover have "st' = st1" using a b by (rule "4.IH"(2))
  ultimately show ?case by simp
qed



lemma example_inner_header:
  "get_loop_header 4 example_graph example_inner_loop = Some (Some 1)"
  by (simp add: get_loop_header_def example_inner_loop_def example_graph_def example_nodes_def
        is_Block_def get_irn_op_def mk_node_def block_is_inside_loop_def numeral_nat Let_def)

lemma example_irreducible_header:
  "get_loop_header 4 example_irreducible_graph example_inner_loop = Some None"
  by (simp add: get_loop_header_def example_inner_loop_def example_irreducible_graph_def
        example_graph_def example_nodes_def is_Block_def get_irn_op_def mk_node_def
        block_is_inside_loop_def numeral_nat Let_def)

lemma example_graph_wf:
  "loop_tree_wf example_graph (\<lambda>l. if l = 1 then 1 else 0) 2"
  "dominance_wf example_graph (\<lambda>b. if b = 0 then 0 else if b = 1 then 1 else 2)"
  "\<forall>x \<in> loop_blocks example_inner_loop. is_Block example_graph x"
  by (auto simp: loop_tree_wf_def dominance_wf_def example_graph_def example_inner_loop_def
        example_nodes_def is_Block_def get_irn_op_def mk_node_def split: if_splits)

text \<open>
  Claim C4. Whenever \<^verbatim>\<open>get_loop_header\<close> returns, its result is determined as the
  specification says: it starts at the first Block listed in the loop, climbs the
  immediate dominators while they are inside the loop, and returns the Block \<open>cand\<close> it
  reached exactly if \<open>cand\<close> dominates every Block of the loop and of its sub-loops,
  \<^verbatim>\<open>NULL\<close> otherwise. When it returns \<^verbatim>\<open>NULL\<close>, \<^verbatim>\<open>unroll_loop\<close> returns the state it was given.
  On well-formed loop and dominance information, for a loop whose elements are Blocks and
  that lists a Block, the call returns once the fuel exceeds the depths involved.
\<close>

theorem get_loop_header_spec:
  "(get_loop_header fuel g loop = Some r \<longrightarrow>
      (\<exists>start cand. first_loop_block (get_loop_elements loop) = Some start \<and>
         idom_climb g loop start cand \<and>
         r = (if \<forall>b \<in> loop_blocks loop. irg_block_dominates g cand b then Some cand else None))) \<and>
   (get_loop_header fuel (fst st) loop = Some None \<longrightarrow> unroll_loop fuel st loop factor = Some st) \<and>
   (loop_tree_wf g ldepth bound \<and> dominance_wf g depth \<and>
    first_loop_block (get_loop_elements loop) = Some first_block \<and>
    (\<forall>x \<in> loop_blocks loop. is_Block g x) \<and> depth first_block + bound < fuel
      \<longrightarrow> get_loop_header fuel g loop \<noteq> None)"
proof (intro conjI impI)
  assume "get_loop_header fuel g loop = Some r"
  then show "\<exists>start cand. first_loop_block (get_loop_elements loop) = Some start \<and>
         idom_climb g loop start cand \<and>
         r = (if \<forall>b \<in> loop_blocks loop. irg_block_dominates g cand b then Some cand else None)"
    by (rule get_loop_header_result)
next
  assume "get_loop_header fuel (fst st) loop = Some None"
  then show "unroll_loop fuel st loop factor = Some st"
    by (simp add: unroll_loop_unchanged)
next
  assume a: "loop_tree_wf g ldepth bound \<and> dominance_wf g depth \<and>
    first_loop_block (get_loop_elements loop) = Some first_block \<and>
    (\<forall>x \<in> loop_blocks loop. is_Block g x) \<and> depth first_block + bound < fuel"
  then show "get_loop_header fuel g loop \<noteq> None"
    using get_loop_header_returns [of g ldepth bound depth loop first_block fuel] by blast
qed

theorem get_loop_header_spec_witness:
  "get_loop_header 4 example_graph example_inner_loop = Some (Some 1) \<and>
   idom_climb example_graph example_inner_loop 2 1 \<and>
   irg_block_dominates example_graph 1 2 \<and>
   get_loop_header 4 example_irreducible_graph example_inner_loop = Some None \<and>
   unroll_loop 4 (example_irreducible_graph, 7) example_inner_loop 4
     = Some (example_irreducible_graph, 7) \<and>
   loop_tree_wf example_graph (\<lambda>l. if l = 1 then 1 else 0) 2 \<and>
   dominance_wf example_graph (\<lambda>b. if b = 0 then 0 else if b = 1 then 1 else 2) \<and>
   get_loop_header 5 example_graph example_inner_loop \<noteq> None"
proof -
  note spec1 = get_loop_header_spec
    [where fuel = 4 and g = example_graph and loop = example_inner_loop and r = "Some 1"
       and st = "(example_irreducible_graph, 7)" and factor = 4]
  from spec1 example_inner_header
  obtain start cand where s: "first_loop_block (get_loop_elements example_inner_loop) = Some start"
    and c: "idom_climb example_graph example_inner_loop start cand"
    and r: "Some 1 = (if \<forall>b \<in> loop_blocks example_inner_loop. irg_block_dominates example_graph cand b
                      then Some cand else None)"
    by blast
  from s have "start = 2" by (simp add: example_inner_loop_def)
  moreover from r have "cand = 1" by (auto split: if_splits)
  ultimately have climb: "idom_climb example_graph example_inner_loop 2 1" using c by simp
  have dom: "irg_block_dominates example_graph 1 2" by (simp add: example_graph_def)
  have null_case: "unroll_loop 4 (example_irreducible_graph, 7) example_inner_loop 4
     = Some (example_irreducible_graph, 7)"
    using spec1 example_irreducible_header by simp
  have first: "first_loop_block (get_loop_elements example_inner_loop) = Some 2"
    by (simp add: example_inner_loop_def)
  have "get_loop_header 5 example_graph example_inner_loop \<noteq> None"
    using get_loop_header_spec
      [where fuel = 5 and g = example_graph and loop = example_inner_loop
         and ldepth = "\<lambda>l. if l = 1 then 1 else 0" and bound = 2
         and depth = "\<lambda>b. if b = 0 then 0 else if b = 1 then 1 else 2" and first_block = 2]
      example_graph_wf first by simp
  with example_inner_header climb dom example_irreducible_header null_case example_graph_wf
  show ?thesis by blast
qed



subsection \<open>Phi arity\<close>


lemma set_irn_in_node:
  "irg_node (set_irn_in g n ins) = (irg_node g)(n := (irg_node g n)\<lparr>irn_in := ins\<rparr>)"
  by (simp add: set_irn_in_def update_node_def)

lemma set_irn_in_other [simp]:
  "irg_outs (set_irn_in g n ins) = irg_outs g"
  "irg_block_phis (set_irn_in g n ins) = irg_block_phis g"
  by (simp_all add: set_irn_in_def update_node_def)

lemma set_irn_in_preserves [simp]:
  "is_Phi (set_irn_in g n ins) x = is_Phi g x"
  "is_Block (set_irn_in g n ins) x = is_Block g x"
  "get_nodes_block (set_irn_in g n ins) x = get_nodes_block g x"
  "get_irn_link (set_irn_in g n ins) x = get_irn_link g x"
  by (simp_all add: set_irn_in_node is_Phi_def is_Block_def get_irn_op_def get_nodes_block_def
        get_irn_link_def)






lemma add_edge_preserves [simp]:
  "is_Phi (add_edge g n v) x = is_Phi g x"
  "is_Block (add_edge g n v) x = is_Block g x"
  "get_nodes_block (add_edge g n v) x = get_nodes_block g x"
  "get_irn_link (add_edge g n v) x = get_irn_link g x"
  "irg_outs (add_edge g n v) = irg_outs g"
  "linked_or_self (add_edge g n v) x = linked_or_self g x"
  by (simp_all add: add_edge_def linked_or_self_def)










subsection \<open>The unroll factor\<close>

lemma and_pred_pow2: "0 < n \<Longrightarrow> (n AND (n - 1) = 0) = is_pow2 n"
proof (induction n rule: less_induct)
  case (less n)
  show ?case
  proof (cases "even n")
    case True
    then obtain m where m: "n = 2 * m" by (auto elim: evenE)
    with less.prems have mpos: "0 < m" by simp
    have "n - 1 = 2 * (m - 1) + 1" using m mpos by simp
    then have "n AND (n - 1) = 2 * (m AND (m - 1))"
      using m by (simp add: and_nat_rec [of "2 * m"])
    moreover have "(m AND (m - 1) = 0) = is_pow2 m"
      using less.IH [of m] m mpos by simp
    moreover have "is_pow2 n = is_pow2 m"
    proof
      assume "is_pow2 n"
      then obtain k where k: "n = 2 ^ k" by (auto simp: is_pow2_def)
      with m mpos have "k \<noteq> 0" by (cases k) auto
      then obtain j where "k = Suc j" by (cases k) auto
      with k m have "m = 2 ^ j" by simp
      then show "is_pow2 m" by (auto simp: is_pow2_def)
    next
      assume "is_pow2 m"
      then obtain k where "m = 2 ^ k" by (auto simp: is_pow2_def)
      with m have "n = 2 ^ Suc k" by simp
      then show "is_pow2 n" unfolding is_pow2_def by blast
    qed
    ultimately show ?thesis by simp
  next
    case False
    then obtain m where m: "n = 2 * m + 1" by (auto elim: oddE)
    have "n AND (n - 1) = 2 * m"
      using m by (subst and_nat_rec) simp
    moreover have "is_pow2 n = (m = 0)"
    proof
      assume "is_pow2 n"
      then obtain k where k: "n = 2 ^ k" by (auto simp: is_pow2_def)
      show "m = 0"
      proof (cases k)
        case 0 with k m show ?thesis by simp
      next
        case (Suc j) with k have "even n" by simp
        with False show ?thesis by simp
      qed
    next
      assume "m = 0"
      with m have "n = 2 ^ 0" by simp
      then show "is_pow2 n" unfolding is_pow2_def by blast
    qed
    ultimately show ?thesis by simp
  qed
qed


lemma find_optimal_factor_loop_result:
  shows "number < 4294967296 \<Longrightarrow> 0 < i \<Longrightarrow> i \<le> number div 2 + 1 \<Longrightarrow>
     \<exists>r. find_optimal_factor_loop number maxf i = Inr r \<and>
        ((r = 0 \<and> (\<forall>j. i \<le> j \<and> j \<le> number div 2 \<longrightarrow> \<not> good_divisor number maxf j)) \<or>
         (\<exists>j. i \<le> j \<and> j \<le> number div 2 \<and> good_divisor number maxf j \<and> r = number div j \<and>
              (\<forall>j'. i \<le> j' \<and> j' < j \<longrightarrow> \<not> good_divisor number maxf j')))"
proof (induction number maxf i rule: find_optimal_factor_loop.induct)
  case (1 number maxf i)
  from "1.prems" have small: "number < 4294967296" by simp
  show ?case
  proof (cases "i \<le> number div 2")
    case False
    then show ?thesis
      by (subst find_optimal_factor_loop.simps) auto
  next
    case True
    with "1.prems" have ipos: "i \<noteq> 0" by simp
    have nm: "number mod 4294967296 = number" using small by simp
    have i2: "2 * i \<le> number" using True by simp
    have cpos: "number div i \<noteq> 0" using i2 ipos
      by (simp add: div_greater_zero_iff)
    have gd: "good_divisor number maxf i =
       (number mod i = 0 \<and> number div i \<le> maxf \<and>
        number div i \<noteq> 0 \<and> (number div i) AND (number div i - 1) = 0)"
      using cpos and_pred_pow2 [of "number div i"]
      by (auto simp: good_divisor_def dvd_eq_mod_eq_0)
    show ?thesis
    proof (cases "good_divisor number maxf i")
      case g: True
      then have "find_optimal_factor_loop number maxf i = Inr (number div i)"
        using True ipos gd nm by (subst find_optimal_factor_loop.simps) simp
      with g True show ?thesis by auto
    next
      case ng: False
      have next_i: "(i + 1) mod 4294967296 = i + 1" using True small by simp
      have rec: "find_optimal_factor_loop number maxf i =
                 find_optimal_factor_loop number maxf (i + 1)"
        using True ipos gd nm ng next_i
        by (subst find_optimal_factor_loop.simps) auto
      have cond: "\<not> (number mod i = 0 \<and> number div i \<le> maxf \<and>
                 (number mod 4294967296) div i \<noteq> 0 \<and>
                 ((number mod 4294967296) div i) AND ((number mod 4294967296) div i - 1) = 0)"
        using ng gd nm by simp
      have "\<exists>r. find_optimal_factor_loop number maxf ((i + 1) mod 4294967296) = Inr r \<and>
        ((r = 0 \<and> (\<forall>j. (i + 1) mod 4294967296 \<le> j \<and> j \<le> number div 2 \<longrightarrow> \<not> good_divisor number maxf j)) \<or>
         (\<exists>j. (i + 1) mod 4294967296 \<le> j \<and> j \<le> number div 2 \<and> good_divisor number maxf j \<and> r = number div j \<and>
              (\<forall>j'. (i + 1) mod 4294967296 \<le> j' \<and> j' < j \<longrightarrow> \<not> good_divisor number maxf j')))"
        using "1.IH" [OF True ipos cond] small True next_i by simp
      then obtain r where r: "find_optimal_factor_loop number maxf (i + 1) = Inr r"
        and alt: "(r = 0 \<and> (\<forall>j. i + 1 \<le> j \<and> j \<le> number div 2 \<longrightarrow> \<not> good_divisor number maxf j)) \<or>
         (\<exists>j. i + 1 \<le> j \<and> j \<le> number div 2 \<and> good_divisor number maxf j \<and> r = number div j \<and>
              (\<forall>j'. i + 1 \<le> j' \<and> j' < j \<longrightarrow> \<not> good_divisor number maxf j'))"
        unfolding next_i by blast
      have step: "\<And>j. i \<le> j \<Longrightarrow> j = i \<or> i + 1 \<le> j" by auto
      from alt show ?thesis
      proof
        assume a: "r = 0 \<and> (\<forall>j. i + 1 \<le> j \<and> j \<le> number div 2 \<longrightarrow> \<not> good_divisor number maxf j)"
        then have "\<forall>j. i \<le> j \<and> j \<le> number div 2 \<longrightarrow> \<not> good_divisor number maxf j"
          using ng step by blast
        with a r rec show ?thesis by simp
      next
        assume "\<exists>j. i + 1 \<le> j \<and> j \<le> number div 2 \<and> good_divisor number maxf j \<and> r = number div j \<and>
              (\<forall>j'. i + 1 \<le> j' \<and> j' < j \<longrightarrow> \<not> good_divisor number maxf j')"
        then obtain j where j: "i + 1 \<le> j" "j \<le> number div 2" "good_divisor number maxf j" "r = number div j"
          and least: "\<forall>j'. i + 1 \<le> j' \<and> j' < j \<longrightarrow> \<not> good_divisor number maxf j'" by blast
        have l2: "\<forall>j'. i \<le> j' \<and> j' < j \<longrightarrow> \<not> good_divisor number maxf j'"
          using least ng step by blast
        have ij: "i \<le> j" using j(1) by simp
        have res: "find_optimal_factor_loop number maxf i = Inr r" using r rec by simp
        have "\<exists>j. i \<le> j \<and> j \<le> number div 2 \<and> good_divisor number maxf j \<and> r = number div j \<and>
              (\<forall>j'. i \<le> j' \<and> j' < j \<longrightarrow> \<not> good_divisor number maxf j')"
          using ij j(2,3,4) l2 by blast
        with res show ?thesis by blast
      qed
    qed
  qed
qed


lemma quotient_good:
  assumes d: "2 \<le> d" "d \<le> maxf" "d dvd number" "is_pow2 d" and lt: "maxf < number"
  shows "2 \<le> number div d \<and> number div d \<le> number div 2 \<and> good_divisor number maxf (number div d)
         \<and> number div (number div d) = d"
proof -
  from d(3) obtain q where q: "number = d * q" by (auto elim: dvdE)
  have dpos: "0 < d" using d(1) by simp
  have qd: "number div d = q" using q dpos by simp
  have "d < number" using d(2) lt by simp
  then have "d * 1 < d * q" using q by simp
  then have q2: "2 \<le> q" using dpos by simp
  have "q * 2 \<le> q * d" using d(1) by simp
  then have "2 * q \<le> number" using q by (simp add: mult.commute)
  then have "q \<le> number div 2" by arith
  moreover have "number div q = d" using q q2 by simp
  moreover have "q dvd number" using q by simp
  ultimately show ?thesis using qd q2 d by (simp add: good_divisor_def)
qed

lemma find_optimal_factor_large:
  assumes small: "number < 4294967296" and lt: "maxf < number"
  shows "\<exists>r. find_optimal_factor number maxf = Inr r \<and>
     (if \<exists>d. 2 \<le> d \<and> d \<le> maxf \<and> d dvd number \<and> is_pow2 d
      then 2 \<le> r \<and> r \<le> maxf \<and> r dvd number \<and> is_pow2 r \<and>
           (\<forall>d. d \<le> maxf \<and> d dvd number \<and> is_pow2 d \<longrightarrow> d \<le> r)
      else r = 0)"
proof -
  have npos: "0 < number" using lt by simp
  have "2 \<le> number div 2 + 1 \<or> number div 2 = 0" by auto
  have eq: "find_optimal_factor number maxf = find_optimal_factor_loop number maxf 2"
    using lt by (simp add: find_optimal_factor_def)
  have "\<exists>r. find_optimal_factor_loop number maxf 2 = Inr r \<and>
        ((r = 0 \<and> (\<forall>j. 2 \<le> j \<and> j \<le> number div 2 \<longrightarrow> \<not> good_divisor number maxf j)) \<or>
         (\<exists>j. 2 \<le> j \<and> j \<le> number div 2 \<and> good_divisor number maxf j \<and> r = number div j \<and>
              (\<forall>j'. 2 \<le> j' \<and> j' < j \<longrightarrow> \<not> good_divisor number maxf j')))"
  proof (cases "2 \<le> number div 2 + 1")
    case True
    then show ?thesis using find_optimal_factor_loop_result [OF small, of 2 maxf] by simp
  next
    case False
    then have "\<not> 2 \<le> number div 2" by simp
    then have "find_optimal_factor_loop number maxf 2 = Inr 0"
      by (subst find_optimal_factor_loop.simps) simp
    with False show ?thesis by auto
  qed
  then obtain r where r: "find_optimal_factor_loop number maxf 2 = Inr r"
    and alt: "(r = 0 \<and> (\<forall>j. 2 \<le> j \<and> j \<le> number div 2 \<longrightarrow> \<not> good_divisor number maxf j)) \<or>
         (\<exists>j. 2 \<le> j \<and> j \<le> number div 2 \<and> good_divisor number maxf j \<and> r = number div j \<and>
              (\<forall>j'. 2 \<le> j' \<and> j' < j \<longrightarrow> \<not> good_divisor number maxf j'))" by blast
  from alt have "if \<exists>d. 2 \<le> d \<and> d \<le> maxf \<and> d dvd number \<and> is_pow2 d
      then 2 \<le> r \<and> r \<le> maxf \<and> r dvd number \<and> is_pow2 r \<and>
           (\<forall>d. d \<le> maxf \<and> d dvd number \<and> is_pow2 d \<longrightarrow> d \<le> r)
      else r = 0"
  proof
    assume a: "r = 0 \<and> (\<forall>j. 2 \<le> j \<and> j \<le> number div 2 \<longrightarrow> \<not> good_divisor number maxf j)"
    have "\<not> (\<exists>d. 2 \<le> d \<and> d \<le> maxf \<and> d dvd number \<and> is_pow2 d)"
    proof
      assume "\<exists>d. 2 \<le> d \<and> d \<le> maxf \<and> d dvd number \<and> is_pow2 d"
      then obtain d where d: "2 \<le> d" "d \<le> maxf" "d dvd number" "is_pow2 d" by blast
      from quotient_good [OF d lt] a show False by blast
    qed
    with a show ?thesis by simp
  next
    assume "\<exists>j. 2 \<le> j \<and> j \<le> number div 2 \<and> good_divisor number maxf j \<and> r = number div j \<and>
              (\<forall>j'. 2 \<le> j' \<and> j' < j \<longrightarrow> \<not> good_divisor number maxf j')"
    then obtain j where j: "2 \<le> j" "j \<le> number div 2" "good_divisor number maxf j" "r = number div j"
      and least: "\<forall>j'. 2 \<le> j' \<and> j' < j \<longrightarrow> \<not> good_divisor number maxf j'" by blast
    from j(3) obtain q where q: "number = j * q" by (auto simp: good_divisor_def elim: dvdE)
    have jpos: "0 < j" using j(1) by simp
    have rq: "r = q" using q j(4) jpos by simp
    have "2 * j \<le> number" using j(2) by arith
    then have "j * 2 \<le> j * q" using q by (simp add: mult.commute)
    then have r2: "2 \<le> r" using rq jpos by simp
    have rdvd: "r dvd number" using q rq by simp
    have rmax: "r \<le> maxf" and rpow: "is_pow2 r" using j(3,4) by (auto simp: good_divisor_def)
    have maxi: "\<forall>d. d \<le> maxf \<and> d dvd number \<and> is_pow2 d \<longrightarrow> d \<le> r"
    proof (intro allI impI)
      fix d assume dd: "d \<le> maxf \<and> d dvd number \<and> is_pow2 d"
      show "d \<le> r"
      proof (cases "2 \<le> d")
        case False with r2 show ?thesis by simp
      next
        case True
        with dd have qg: "2 \<le> number div d \<and> number div d \<le> number div 2 \<and>
            good_divisor number maxf (number div d) \<and> number div (number div d) = d"
          using quotient_good [of d maxf number] lt by blast
        with least have "\<not> number div d < j" by blast
        then have "j \<le> number div d" by simp
        then have "number div (number div d) \<le> number div j"
          using jpos by (intro div_le_mono2) simp_all
        with qg j(4) show ?thesis by simp
      qed
    qed
    have "\<exists>d. 2 \<le> d \<and> d \<le> maxf \<and> d dvd number \<and> is_pow2 d"
      using r2 rmax rdvd rpow by blast
    then show ?thesis using r2 rmax rdvd rpow maxi by simp
  qed
  with r eq show ?thesis by simp
qed


lemma find_optimal_factor_small:
  assumes "number \<le> maxf" "maxf < 4294967296"
  shows "find_optimal_factor number maxf = Inr number"
  using assms by (simp add: find_optimal_factor_def)

text \<open>
  Claim C5, as the code has it. For a trip count \<open>number\<close> and a maximal factor \<open>maxf\<close>
  (both below \<open>2^32\<close>, the trip count positive): when the trip count does not exceed the
  maximum, \<^verbatim>\<open>find_optimal_factor\<close> returns the trip count itself, whether or not it is a
  power of two; otherwise it returns the largest power of two \<open>r\<close> with \<open>2 \<le> r \<le> maxf\<close>
  that divides the trip count, and 0 when there is none. The statements that follow the
  call in \<^verbatim>\<open>find_suitable_factor\<close> mark the loop for full unrolling exactly when the factor
  equals the trip count, that is exactly when the trip count does not exceed the maximum.
\<close>

theorem find_optimal_factor_choice:
  assumes "0 < number" "number < 4294967296" "maxf < 4294967296"
  shows "\<exists>r. find_optimal_factor number maxf = Inr r \<and>
     (if number \<le> maxf then r = number
      else if \<exists>d. 2 \<le> d \<and> d \<le> maxf \<and> d dvd number \<and> is_pow2 d
      then 2 \<le> r \<and> r \<le> maxf \<and> r dvd number \<and> is_pow2 r \<and>
           (\<forall>d. d \<le> maxf \<and> d dvd number \<and> is_pow2 d \<longrightarrow> d \<le> r)
      else r = 0) \<and>
     factor_for_loop_count (int number) maxf False = Inr (r, r = number) \<and>
     ((r = number) = (number \<le> maxf))"
proof (cases "number \<le> maxf")
  case True
  then have "find_optimal_factor number maxf = Inr number"
    using assms(3) by (rule find_optimal_factor_small)
  then show ?thesis
    using True assms(1) by (simp add: factor_for_loop_count_def)
next
  case False
  then have lt: "maxf < number" by simp
  from find_optimal_factor_large [OF assms(2) lt]
  obtain r where r: "find_optimal_factor number maxf = Inr r"
    and sel: "if \<exists>d. 2 \<le> d \<and> d \<le> maxf \<and> d dvd number \<and> is_pow2 d
      then 2 \<le> r \<and> r \<le> maxf \<and> r dvd number \<and> is_pow2 r \<and>
           (\<forall>d. d \<le> maxf \<and> d dvd number \<and> is_pow2 d \<longrightarrow> d \<le> r)
      else r = 0" by blast
  have rle: "r \<le> maxf" using sel by (auto split: if_splits)
  then have rne: "r \<noteq> number" using lt by simp
  have "factor_for_loop_count (int number) maxf False = Inr (r, r = number)"
    using r rne assms(1) by (simp add: factor_for_loop_count_def)
  with r sel rne False show ?thesis by simp
qed

theorem find_optimal_factor_choice_witness:
  "(0::nat) < 24 \<and> (24::nat) < 4294967296 \<and> (8::nat) < 4294967296 \<and>
   (\<exists>r. find_optimal_factor 24 8 = Inr r \<and> 2 \<le> r \<and> r \<le> 8 \<and> r dvd 24 \<and> is_pow2 r \<and>
        factor_for_loop_count 24 8 False = Inr (r, False))"
proof -
  have p: "is_pow2 8" unfolding is_pow2_def by (rule exI [of _ 3]) simp
  have ex: "\<exists>d. 2 \<le> d \<and> d \<le> (8::nat) \<and> d dvd (24::nat) \<and> is_pow2 d"
    using p by (intro exI [of _ 8]) simp
  from find_optimal_factor_choice [of 24 8] ex show ?thesis
    by (auto split: if_splits)
qed

text \<open>
  The claim as the specification words it fails for a trip count within the maximum: for
  the trip count 6 and the maximum 8 the factor is 6, which is not a power of two (the
  largest power-of-two divisor of 6 is 2).
\<close>

theorem find_optimal_factor_not_pow2_counterexample:
  "find_optimal_factor 6 8 = Inr 6 \<and> \<not> is_pow2 6 \<and> is_pow2 2 \<and> (2::nat) dvd 6"
proof -
  have "\<not> is_pow2 6" using and_pred_pow2 [of 6] by simp
  moreover have "is_pow2 2" unfolding is_pow2_def by (rule exI [of _ 1]) simp
  ultimately show ?thesis by (simp add: find_optimal_factor_def)
qed

subsection \<open>Shift by a constant of at least half the width\<close>










subsection \<open>Lowering of Cond\<close>

lemma get_Proj_proj_mark [simp]:
  "get_Proj_proj (mark_irn_visited g p) n = get_Proj_proj g n"
  by (auto simp: get_Proj_proj_def mark_irn_visited_def update_node_def is_Proj_def get_irn_op_def
        split: irn_attr.splits)


lemma mark_irn_visited_fields [simp]:
  "irn_in (irg_node (mark_irn_visited g p) n) = irn_in (irg_node g n)"
  "irn_block (irg_node (mark_irn_visited g p) n) = irn_block (irg_node g n)"
  "irn_op (irg_node (mark_irn_visited g p) n) = irn_op (irg_node g n)"
  "irn_mode (irg_node (mark_irn_visited g p) n) = irn_mode (irg_node g n)"
  "irn_attr (irg_node (mark_irn_visited g p) n) = irn_attr (irg_node g n)"
  "irn_link (irg_node (mark_irn_visited g p) n) = irn_link (irg_node g n)"
  "irg_last_idx (mark_irn_visited g p) = irg_last_idx g"
  "irg_start_block (mark_irn_visited g p) = irg_start_block g"
  by (simp_all add: mark_irn_visited_def update_node_def)














subsection \<open>The verifier\<close>

lemmas example_prog_defs =
  example_prog_def example_types_def example_segment_type_def example_variable_def

lemmas tr_verify_defs =
  tr_verify_def check_tore_def check_type_def check_compound_type_def check_array_type_def
  check_primitive_type_def check_pointer_type_def check_type_mode_def check_entity_def
  check_entity_no_codegen_def check_entity_kind_def check_external_linkage_def
  check_class_member_def is_data_type_def is_Method_type_def is_Class_type_def
  is_Array_type_def is_compound_type_def is_segment_type_def is_frame_type_def
  is_method_entity_def get_compound_n_members_def report_if_def and_then_def report_error_def

text \<open>
  Claim C9. The aggregate result of \<^verbatim>\<open>tr_verify\<close> is not false whenever a violation
  was reported. First program: the variable \<open>x\<close> has \<open>IR_LINKAGE_WEAK\<close> but local
  visibility; \<^verbatim>\<open>check_external_linkage\<close> prints its line, \<^verbatim>\<open>check_entity\<close> does not use
  the result, and \<^verbatim>\<open>tr_verify\<close> returns true. Second program: \<open>x\<close> is an array of
  \<open>Iu\<close> elements whose compound initializer holds a tarval of mode \<open>Is\<close>; the nested call
  of \<^verbatim>\<open>check_initializer\<close> prints its line, the loop drops the result, and
  \<^verbatim>\<open>tr_verify\<close> returns true.
\<close>

theorem tr_verify_ignores_violations:
  "tr_verify (example_prog (example_variable 5 {IR_LINKAGE_WEAK} ir_visibility_local None))
     = Some (True, [(''entity %+F has IR_LINKAGE_%s but is not externally visible'',
                     [arg_entity 0, arg_str ''WEAK''])]) \<and>
   tr_verify (example_prog (example_variable 7 {} ir_visibility_local
                (Some (IR_INITIALIZER_COMPOUND [IR_INITIALIZER_TARVAL (Tarval mode_Is 1)]))))
     = Some (True, [(''initializer for entity %+F has wrong mode'', [arg_entity 0])])"
  by (simp add: example_prog_defs tr_verify_defs Let_def mode_Iu_def mode_Is_def)

subsection \<open>The lowering pass on a graph\<close>

lemma modes_found: "setup_modes 64 [mode_Is, mode_Iu, mode_Ls, mode_Lu] = Some (mode_Ls, mode_Lu, mode_Is, mode_Iu)"
  by (simp add: setup_modes_def mode_Is_def mode_Iu_def mode_Ls_def mode_Lu_def)

lemma te_same: "example_type_env\<lparr>first_id := ''.l'', next_id := ''.h''\<rparr> = example_type_env"
  by (simp add: example_type_env_def)

lemma modes_same: "register_mode (register_mode [mode_Is, mode_Iu, mode_Ls, mode_Lu] mode_Is) mode_Iu
   = [mode_Is, mode_Iu, mode_Ls, mode_Lu]"
  by (simp add: register_mode_def)

lemma top: "lower_dw_ops fs fuel (Some example_param) example_keep_prog =
   (case lower_irg fs fuel (example_keep_env, example_type_env) example_keep_graph 0 of
       None \<Rightarrow> None
     | Some st \<Rightarrow> Some (example_keep_prog\<lparr>irp_modes := [mode_Is, mode_Iu, mode_Ls, mode_Lu],
           irp_irgs := [(lenv_irg (fst st), 0)], irp_state := st\<rparr>))"
  by (simp add: lower_dw_ops_def example_keep_prog_def example_param_def modes_found example_keep_env_def
      te_same modes_same split: option.splits)

lemmas graph_defs = get_irn_op_def get_irn_mode_def get_irn_n_def get_irn_link_def get_nodes_block_def
  get_irn_arity_def is_Block_def is_Proj_def is_Phi_def is_Conv_def is_Rotl_def is_Mux_def is_Cmp_def
  is_Const_def set_irn_link_def update_node_def mark_irn_visited_def set_irn_in_def set_irn_n_def

lemma walk1: "\<exists>st. irg_walk_graph 20 firm_clear_node_and_phi_links prepare_links_and_handle_rotl
    (example_keep_env\<lparr>n_entries := 12, entries := (\<lambda>idx. None),
        lenv_irg := example_keep_graph\<lparr>irg_reserved_resources := {IR_RESOURCE_PHI_LIST, IR_RESOURCE_IRN_LINK}\<rparr>,
        l_mtp := None, flag_must_be_lowered := False, flag_cf_changed := False,
        proj_2_block := (\<lambda>n. None), value_param_tp := None\<rparr>, example_type_env) = Some st \<and>
     flag_must_be_lowered (fst st)"
  apply (simp add: irg_walk_graph_def example_keep_env_def example_lower_env_def example_keep_graph_def
     example_graph_def mk_node_def env_update_graph_def eval_nat_numeral
     mark_visited_state_def walk_positions_def irn_not_visited_def
     firm_clear_node_and_phi_links_def prepare_links_and_handle_rotl_def prepare_links_def
     prepare_links_chain_def get_irn_op_mode_def is_high_mode_def graph_defs
     mode_Is_def mode_Iu_def mode_Ls_def mode_Lu_def Let_def add_Block_phi_def)
  done

lemmas walk_defs = irg_walk_graph_def env_update_graph_def eval_nat_numeral
     mark_visited_state_def walk_positions_def irn_not_visited_def
     firm_clear_node_and_phi_links_def prepare_links_and_handle_rotl_def prepare_links_def
     prepare_links_chain_def get_irn_op_mode_def is_high_mode_def graph_defs
     mode_Is_def mode_Iu_def mode_Ls_def mode_Lu_def Let_def add_Block_phi_def

lemmas lower_defs = lower_ops_def generic_func_def always_lower_def on_env_def lower_Const_def
  lower_Return_def lower_Start_def get_Const_tarval_def tarval_convert_to_def tarval_shrs_def
  new_tarval_from_long_def new_r_Const_def env_new_node_def new_ir_node_def
  is_lowered_type_def get_method_n_params_def mtp_must_be_lowered_def

lemma run: "\<exists>st. lower_irg fs 20 (example_keep_env, example_type_env) example_keep_graph 0 = Some st \<and>
     irg_end (lenv_irg (fst st)) = 7 \<and>
     irn_in (irg_node (lenv_irg (fst st)) 7) = [8] \<and>
     irn_op (irg_node (lenv_irg (fst st)) 8) = iro_Const \<and>
     irn_mode (irg_node (lenv_irg (fst st)) 8) = mode_Lu \<and>
     entries (fst st) 8 = Some \<lparr>low_word = Some 10, high_word = Some 11\<rparr> \<and>
     const_is (lenv_irg (fst st)) 10 (Tarval mode_Iu 5) \<and>
     const_is (lenv_irg (fst st)) 11 (Tarval mode_Iu 1) \<and>
     irg_last_idx (lenv_irg (fst st)) = 12 \<and>
     high_unsigned (fst st) = mode_Lu \<and> waitq (fst st) = []"
  apply (simp add: lower_irg_def ir_reserve_resources_def ir_free_resources_def
      clear_irg_properties_def example_keep_env_def example_lower_env_def example_keep_graph_def
      example_graph_def mk_node_def example_type_env_def const_is_def
      walk_defs lower_defs)
  done

text \<open>
  Claim C1. The pass does not remove every node of double-word mode that End reaches.
  For the example program, whatever the lowering functions that are not translated do,
  \<^verbatim>\<open>lower_dw_ops\<close> with the double-word size 64 returns; \<^verbatim>\<open>lower_Const\<close> has given the
  Const 8 its pair (the new Consts 10 and 11 with the values 5 and 1), but the End node
  still has the Const itself, of the mode \<^verbatim>\<open>high_unsigned\<close>, as its keep-alive input:
  no lowering function is entered for End, and \<^verbatim>\<open>lower_ops\<close> does not look at the inputs
  of a node without one.
\<close>

theorem lower_dw_ops_keeps_doubleword_Const:
  "case lower_dw_ops fs 20 (Some example_param) example_keep_prog of
     None \<Rightarrow> False
   | Some prog \<Rightarrow>
       (case irp_irgs prog of
          [(irg, ent)] \<Rightarrow>
            high_unsigned (fst (irp_state prog)) = mode_Lu \<and>
            is_Const irg 8 \<and> get_irn_mode irg 8 = mode_Lu \<and>
            irn_in (irg_node irg (irg_end irg)) = [8] \<and>
            reachable irg (irg_end irg) 8 \<and>
            entry_low (fst (irp_state prog)) 8 = Some 10 \<and>
            entry_high (fst (irp_state prog)) 8 = Some 11 \<and>
            const_is irg 10 (Tarval mode_Iu 5) \<and> const_is irg 11 (Tarval mode_Iu 1)
        | _ \<Rightarrow> False)"
proof -
  obtain st where r: "lower_irg fs 20 (example_keep_env, example_type_env) example_keep_graph 0 = Some st"
    and f: "irg_end (lenv_irg (fst st)) = 7"
      "irn_in (irg_node (lenv_irg (fst st)) 7) = [8]"
      "irn_op (irg_node (lenv_irg (fst st)) 8) = iro_Const"
      "irn_mode (irg_node (lenv_irg (fst st)) 8) = mode_Lu"
      "entries (fst st) 8 = Some \<lparr>low_word = Some 10, high_word = Some 11\<rparr>"
      "const_is (lenv_irg (fst st)) 10 (Tarval mode_Iu 5)"
      "const_is (lenv_irg (fst st)) 11 (Tarval mode_Iu 1)"
      "high_unsigned (fst st) = mode_Lu"
    using run [of fs] by blast
  have "reachable (lenv_irg (fst st)) 7 7" by (rule reachable_root)
  then have reach: "reachable (lenv_irg (fst st)) 7 8"
    by (rule reachable_step) (simp add: uses_def f)
  show ?thesis
    unfolding top r
    using f reach
    by (simp add: is_Const_def get_irn_op_def get_irn_mode_def entry_low_def entry_high_def)
qed


end
